theory Spec2Isabelle
  imports Complex_Main
begin

section \<open>JavaScript values\<close>

text \<open>
  Tool payloads, validated arguments, request bodies and the records of the remote
  table are JavaScript values: what a JSON text denotes, and \<open>undefined\<close>, which
  a missing property reads as. An object is the list of its own properties in
  enumeration order. A number is the rational it denotes. A string is the list of the
  bytes of its UTF-8 text; the two tests this program makes on strings (not empty; 32
  hexadecimal digits) do not depend on the encoding.
\<close>

datatype json =
    JUndefined
  | JNull
  | JBool bool
  | JNum rat
  | JStr string
  | JArr "json list"
  | JObj "(string \<times> json) list"

text \<open>
  The engine raises a \<open>TypeError\<close> at the places below; its message text belongs to
  the engine, as do the decimal text of a number and the text of
  \<open>JSON.stringify(x, null, 2)\<close>. The validation library words the issues it raises
  itself: an issue is kept here as what the library records of it (its code and what the
  code comes with), and the text the library prints for it belongs to the library. These
  texts are the four fields of the runtime that every function below is given.
\<close>

datatype type_error =
    Read_property_of_nullish
  | In_operator_on_non_object
  | Not_a_function
  | Cannot_convert_to_primitive
  | Entries_of_nullish

datatype issue_kind =
    Invalid_type string json
  | Invalid_value "string list" json
  | Too_small rat
  | Too_big rat
  | Invalid_union
  | Message string

record runtime =
  Number_toString :: "rat \<Rightarrow> string"
  JSON_stringify :: "json \<Rightarrow> string"
  TypeError_message :: "type_error \<Rightarrow> string"
  Zod_message :: "issue_kind \<Rightarrow> string"

text \<open>A thrown \<open>Error\<close> object (a \<open>TypeError\<close> is one) with its message.\<close>

datatype js_error = Error string

definition throw_TypeError :: "runtime \<Rightarrow> type_error \<Rightarrow> js_error + 'a" where
  "throw_TypeError rt site = Inl (Error (TypeError_message rt site))"

text \<open>Sequencing of computations that may throw.\<close>

fun and_then :: "'e + 'a \<Rightarrow> ('a \<Rightarrow> 'e + 'b) \<Rightarrow> 'e + 'b" where
  "and_then (Inl e) f = Inl e"
| "and_then (Inr v) f = f v"

fun map_throwing :: "('a \<Rightarrow> 'e + 'b) \<Rightarrow> 'a list \<Rightarrow> 'e + 'b list" where
  "map_throwing f [] = Inr []"
| "map_throwing f (x # xs) =
     and_then (f x) (\<lambda>y. and_then (map_throwing f xs) (\<lambda>ys. Inr (y # ys)))"

text \<open>\<open>Array.prototype.join\<close> on strings.\<close>

fun join :: "string \<Rightarrow> string list \<Rightarrow> string" where
  "join sep [] = []"
| "join sep [x] = x"
| "join sep (x # y # ys) = x @ sep @ join sep (y # ys)"

text \<open>\<open>typeof v === 'object'\<close>: true of objects, arrays and \<open>null\<close>.\<close>

fun typeof_object :: "json \<Rightarrow> bool" where
  "typeof_object JNull = True"
| "typeof_object (JArr xs) = True"
| "typeof_object (JObj kvs) = True"
| "typeof_object v = False"

text \<open>Truthiness, as \<open>if (v)\<close> and \<open>!v\<close> test it.\<close>

fun ToBoolean :: "json \<Rightarrow> bool" where
  "ToBoolean JUndefined = False"
| "ToBoolean JNull = False"
| "ToBoolean (JBool b) = b"
| "ToBoolean (JNum n) = (n \<noteq> 0)"
| "ToBoolean (JStr s) = (s \<noteq> [])"
| "ToBoolean (JArr xs) = True"
| "ToBoolean (JObj kvs) = True"

text \<open>
  The string that a template literal, \<open>String(v)\<close> or \<open>RegExp.test(v)\<close> makes of a
  value. An array is its elements joined by commas, where \<open>null\<close> and
  \<open>undefined\<close> elements give the empty string; a plain object is
  \<open>[object Object]\<close>, unless it has an own property \<open>toString\<close>, which no JSON
  text makes callable, so that the conversion throws.
\<close>

fun ToString :: "runtime \<Rightarrow> json \<Rightarrow> js_error + string"
  and ToString_elements :: "runtime \<Rightarrow> json list \<Rightarrow> js_error + string list" where
  "ToString rt JUndefined = Inr ''undefined''"
| "ToString rt JNull = Inr ''null''"
| "ToString rt (JBool b) = Inr (if b then ''true'' else ''false'')"
| "ToString rt (JNum n) = Inr (Number_toString rt n)"
| "ToString rt (JStr s) = Inr s"
| "ToString rt (JArr xs) = and_then (ToString_elements rt xs) (\<lambda>ss. Inr (join '','' ss))"
| "ToString rt (JObj kvs) =
     (if ''toString'' \<in> set (map fst kvs)
      then throw_TypeError rt Cannot_convert_to_primitive
      else Inr ''[object Object]'')"
| "ToString_elements rt [] = Inr []"
| "ToString_elements rt (x # xs) =
     and_then (if x = JNull \<or> x = JUndefined then Inr [] else ToString rt x)
       (\<lambda>s. and_then (ToString_elements rt xs) (\<lambda>ss. Inr (s # ss)))"

text \<open>
  Reading a property \<open>v.name\<close>, for the names this program reads (\<open>identifier\<close>,
  \<open>fields\<close>, \<open>operator\<close>, \<open>sys_id\<close>, ...): none of them is a property of a built-in
  prototype, so the read finds an own property of an object, or \<open>undefined\<close>. Reading
  from \<open>null\<close> or \<open>undefined\<close> throws; so does destructuring them.
\<close>

definition lookup :: "(string \<times> json) list \<Rightarrow> string \<Rightarrow> json" where
  "lookup kvs name = (case map_of kvs name of None \<Rightarrow> JUndefined | Some v \<Rightarrow> v)"

fun get_prop :: "runtime \<Rightarrow> json \<Rightarrow> string \<Rightarrow> js_error + json" where
  "get_prop rt JUndefined name = throw_TypeError rt Read_property_of_nullish"
| "get_prop rt JNull name = throw_TypeError rt Read_property_of_nullish"
| "get_prop rt (JObj kvs) name = Inr (lookup kvs name)"
| "get_prop rt v name = Inr JUndefined"

text \<open>\<open>name in v\<close>, for the names \<open>operator\<close> and \<open>error\<close>.\<close>

fun in_operator :: "runtime \<Rightarrow> string \<Rightarrow> json \<Rightarrow> js_error + bool" where
  "in_operator rt name (JObj kvs) = Inr (name \<in> set (map fst kvs))"
| "in_operator rt name (JArr xs) = Inr False"
| "in_operator rt name v = throw_TypeError rt In_operator_on_non_object"

text \<open>
  The own enumerable properties of a value, as \<open>Object.entries\<close> and a rest pattern
  list them. The elements of an array and the characters of a string are properties
  named by their index (for a string, one property for each byte: exact on ASCII text).
\<close>

fun indexed :: "runtime \<Rightarrow> nat \<Rightarrow> json list \<Rightarrow> (string \<times> json) list" where
  "indexed rt i [] = []"
| "indexed rt i (x # xs) = (Number_toString rt (of_nat i), x) # indexed rt (Suc i) xs"

fun own_entries :: "runtime \<Rightarrow> json \<Rightarrow> js_error + (string \<times> json) list" where
  "own_entries rt JUndefined = throw_TypeError rt Entries_of_nullish"
| "own_entries rt JNull = throw_TypeError rt Entries_of_nullish"
| "own_entries rt (JBool b) = Inr []"
| "own_entries rt (JNum n) = Inr []"
| "own_entries rt (JStr s) = Inr (indexed rt 0 (map (\<lambda>c. JStr [c]) s))"
| "own_entries rt (JArr xs) = Inr (indexed rt 0 xs)"
| "own_entries rt (JObj kvs) = Inr kvs"

text \<open>\<open>const { a, b, ...rest } = v\<close>: the object of the properties not named.\<close>

definition rest_props :: "runtime \<Rightarrow> string list \<Rightarrow> json \<Rightarrow> js_error + json" where
  "rest_props rt named v =
     and_then (own_entries rt v) (\<lambda>kvs. Inr (JObj (filter (\<lambda>(k, x). k \<notin> set named) kvs)))"

text \<open>
  \<open>if (v) obj.k = v\<close> on an object literal: the value of an own property is replaced
  where the property stands, and a new property comes last.
\<close>

definition set_prop :: "(string \<times> json) list \<Rightarrow> string \<Rightarrow> json \<Rightarrow> (string \<times> json) list" where
  "set_prop obj k v =
     (if k \<in> set (map fst obj)
      then map (\<lambda>(k', x). if k' = k then (k', v) else (k', x)) obj
      else obj @ [(k, v)])"

definition set_if_truthy :: "string \<Rightarrow> json \<Rightarrow> (string \<times> json) list \<Rightarrow> (string \<times> json) list" where
  "set_if_truthy k v obj = (if ToBoolean v then set_prop obj k v else obj)"

text \<open>\<open>v.join(sep)\<close>: only an array has the method.\<close>

fun call_join :: "runtime \<Rightarrow> json \<Rightarrow> string \<Rightarrow> js_error + string" where
  "call_join rt (JArr xs) sep = and_then (ToString_elements rt xs) (\<lambda>ss. Inr (join sep ss))"
| "call_join rt JUndefined sep = throw_TypeError rt Read_property_of_nullish"
| "call_join rt JNull sep = throw_TypeError rt Read_property_of_nullish"
| "call_join rt v sep = throw_TypeError rt Not_a_function"

section \<open>The validation library\<close>

text \<open>
  The schemas are built from the combinators of the validation library (zod). A
  schema parses a value found at a path: it returns the parsed value, or the issues
  it found. Parsing an object parses every key of its shape and keeps all the issues;
  \<open>parse\<close> throws when there is any. Where the versions of the library differ, the
  combinators are those of version 4, the one the notes of the repository point to
  (\<open>error.issues\<close>, the two arguments of \<open>z.record\<close>, the static message of
  \<open>refine\<close>).
\<close>

datatype path_seg = Key string | Index nat

record ZodIssue =
  path :: "path_seg list"
  kind :: issue_kind

type_synonym schema = "path_seg list \<Rightarrow> json \<Rightarrow> ZodIssue list + json"

text \<open>
  \<open>issue.message\<close>: the message the schema was given for the check, or the library's
  text for the issue.
\<close>

definition message :: "runtime \<Rightarrow> ZodIssue \<Rightarrow> string" where
  "message rt issue = (case kind issue of Message msg \<Rightarrow> msg | c \<Rightarrow> Zod_message rt c)"

text \<open>The issue for a value of the wrong type.\<close>

definition invalid_type :: "path_seg list \<Rightarrow> string \<Rightarrow> json \<Rightarrow> ZodIssue" where
  "invalid_type p expected x = \<lparr>path = p, kind = Invalid_type expected x\<rparr>"

definition z_string :: schema where
  "z_string p x = (case x of JStr s \<Rightarrow> Inr x | _ \<Rightarrow> Inl [invalid_type p ''string'' x])"

text \<open>\<open>z.string().min(n, msg)\<close>\<close>

definition z_string_min :: "nat \<Rightarrow> string \<Rightarrow> schema" where
  "z_string_min n msg p x =
     (case x of
        JStr s \<Rightarrow> if length s < n then Inl [\<lparr>path = p, kind = Message msg\<rparr>] else Inr x
      | _ \<Rightarrow> Inl [invalid_type p ''string'' x])"

definition z_boolean :: schema where
  "z_boolean p x = (case x of JBool b \<Rightarrow> Inr x | _ \<Rightarrow> Inl [invalid_type p ''boolean'' x])"

text \<open>
  \<open>z.number()\<close> with its checks, in the order they were added. A value of the wrong
  type stops the parse. \<open>.int()\<close> asks for a safe integer: a number that is not an integer
  raises its issue and stops the checks that follow; an integer outside the safe range
  raises its issue and the checks go on, as they do after \<open>.min\<close> and \<open>.max\<close>.
\<close>

datatype number_check = Check_int | Check_min rat | Check_max rat

definition isInteger :: "rat \<Rightarrow> bool" where
  "isInteger n = (of_int \<lfloor>n\<rfloor> = n)"

definition MAX_SAFE_INTEGER :: rat where
  "MAX_SAFE_INTEGER = 9007199254740991"

definition isSafeInteger :: "rat \<Rightarrow> bool" where
  "isSafeInteger n = (isInteger n \<and> - MAX_SAFE_INTEGER \<le> n \<and> n \<le> MAX_SAFE_INTEGER)"

fun run_checks :: "path_seg list \<Rightarrow> rat \<Rightarrow> number_check list \<Rightarrow> ZodIssue list" where
  "run_checks p n [] = []"
| "run_checks p n (Check_int # checks) =
     (if \<not> isInteger n then [\<lparr>path = p, kind = Invalid_type ''int'' (JNum n)\<rparr>]
      else if \<not> isSafeInteger n
      then \<lparr>path = p,
            kind = (if n > 0 then Too_big MAX_SAFE_INTEGER else Too_small (- MAX_SAFE_INTEGER))\<rparr>
           # run_checks p n checks
      else run_checks p n checks)"
| "run_checks p n (Check_min m # checks) =
     (if n < m then [\<lparr>path = p, kind = Too_small m\<rparr>] else []) @ run_checks p n checks"
| "run_checks p n (Check_max m # checks) =
     (if n > m then [\<lparr>path = p, kind = Too_big m\<rparr>] else []) @ run_checks p n checks"

definition z_number :: "number_check list \<Rightarrow> schema" where
  "z_number checks p x =
     (case x of
        JNum n \<Rightarrow>
          (let issues = run_checks p n checks
           in if issues = [] then Inr x else Inl issues)
      | _ \<Rightarrow> Inl [invalid_type p ''number'' x])"

text \<open>\<open>z.enum([...])\<close>: a value that is not one of the options raises one issue.\<close>

definition z_enum :: "string list \<Rightarrow> schema" where
  "z_enum options p x =
     (case x of
        JStr s \<Rightarrow>
          if s \<in> set options then Inr x
          else Inl [\<lparr>path = p, kind = Invalid_value options x\<rparr>]
      | _ \<Rightarrow> Inl [\<lparr>path = p, kind = Invalid_value options x\<rparr>])"

text \<open>
  \<open>.transform(f)\<close> runs \<open>f\<close> on the value of a valid parse only. The three schemas
  transformed here are enums, so \<open>f\<close> is a function on strings.
\<close>

definition z_transform :: "schema \<Rightarrow> (string \<Rightarrow> string) \<Rightarrow> schema" where
  "z_transform sch f p x =
     (case sch p x of
        Inr (JStr val) \<Rightarrow> Inr (JStr (f val))
      | r \<Rightarrow> r)"

text \<open>\<open>.refine(check, {message})\<close> runs the check on the value of a valid parse.\<close>

definition z_refine :: "schema \<Rightarrow> (json \<Rightarrow> bool) \<Rightarrow> string \<Rightarrow> schema" where
  "z_refine sch check msg p x =
     (case sch p x of
        Inl issues \<Rightarrow> Inl issues
      | Inr v \<Rightarrow> if check v then Inr v else Inl [\<lparr>path = p, kind = Message msg\<rparr>])"

definition z_optional :: "schema \<Rightarrow> schema" where
  "z_optional sch p x = (if x = JUndefined then Inr JUndefined else sch p x)"

text \<open>\<open>.default(d)\<close>: a missing value parses to \<open>d\<close> as it is.\<close>

definition z_default :: "schema \<Rightarrow> json \<Rightarrow> schema" where
  "z_default sch d p x = (if x = JUndefined then Inr d else sch p x)"

text \<open>
  \<open>z.union([...])\<close> returns the first option that parses; when none does, the
  options' own issues are folded into one issue at the union's path. (No option used
  here can be valid with issues.)
\<close>

fun first_valid :: "schema list \<Rightarrow> path_seg list \<Rightarrow> json \<Rightarrow> json option" where
  "first_valid [] p x = None"
| "first_valid (sch # schs) p x =
     (case sch p x of Inr v \<Rightarrow> Some v | Inl issues \<Rightarrow> first_valid schs p x)"

definition z_union :: "schema list \<Rightarrow> schema" where
  "z_union options p x =
     (case first_valid options p x of
        Some v \<Rightarrow> Inr v
      | None \<Rightarrow> Inl [\<lparr>path = p, kind = Invalid_union\<rparr>])"

text \<open>
  \<open>z.array(element)\<close>: every element is parsed at its index; all issues are kept,
  and the array is valid when every element is.
\<close>

fun parse_items :: "schema \<Rightarrow> path_seg list \<Rightarrow> nat \<Rightarrow> json list
    \<Rightarrow> bool \<times> ZodIssue list \<times> json list" where
  "parse_items sch p i [] = (True, [], [])"
| "parse_items sch p i (x # xs) =
     (let (valid, issues, vs) = parse_items sch p (Suc i) xs
      in case sch (p @ [Index i]) x of
           Inl e \<Rightarrow> (False, e @ issues, vs)
         | Inr v \<Rightarrow> (valid, issues, v # vs))"

definition z_array :: "schema \<Rightarrow> schema" where
  "z_array sch p x =
     (case x of
        JArr xs \<Rightarrow>
          (let (valid, issues, vs) = parse_items sch p 0 xs
           in if valid then Inr (JArr vs) else Inl issues)
      | _ \<Rightarrow> Inl [invalid_type p ''array'' x])"

text \<open>
  \<open>z.record(z.string(), valueSchema)\<close>: every own property is parsed at its key. The
  parsed object is assembled as for \<open>z.object\<close>, which never sets \<open>__proto__\<close>.
\<close>

fun parse_entries :: "schema \<Rightarrow> path_seg list \<Rightarrow> (string \<times> json) list
    \<Rightarrow> bool \<times> ZodIssue list \<times> (string \<times> json) list" where
  "parse_entries sch p [] = (True, [], [])"
| "parse_entries sch p ((k, x) # kvs) =
     (let (valid, issues, out) = parse_entries sch p kvs
      in case sch (p @ [Key k]) x of
           Inl e \<Rightarrow> (False, e @ issues, out)
         | Inr v \<Rightarrow> (valid, issues, if k = ''__proto__'' then out else (k, v) # out))"

definition z_record :: "schema \<Rightarrow> schema" where
  "z_record sch p x =
     (case x of
        JObj kvs \<Rightarrow>
          (let (valid, issues, out) = parse_entries sch p kvs
           in if valid then Inr (JObj out) else Inl issues)
      | _ \<Rightarrow> Inl [invalid_type p ''record'' x])"

text \<open>
  \<open>z.object(shape)\<close>: the keys of the shape are parsed in the shape's order, each at
  \<open>path + [key]\<close>, against the property of that name (\<open>undefined\<close> when the payload has
  none); all issues are kept, and the object is valid when every key is. A key is set
  in the result when its parsed value is defined or the payload has the key. Unknown
  keys are dropped, or with \<open>.passthrough()\<close> copied after the shape's keys. (JavaScript
  enumerates the properties named by an array index before the others; the lists here
  keep them where they are set, so the order of keys is exact for payloads without such
  names. The set of keys and their values do not depend on it.)
\<close>

fun parse_shape :: "(string \<times> schema) list \<Rightarrow> path_seg list \<Rightarrow> (string \<times> json) list
    \<Rightarrow> bool \<times> ZodIssue list \<times> (string \<times> json) list" where
  "parse_shape [] p data = (True, [], [])"
| "parse_shape ((k, sch) # shape) p data =
     (let (valid, issues, out) = parse_shape shape p data
      in case sch (p @ [Key k]) (lookup data k) of
           Inl e \<Rightarrow> (False, e @ issues, out)
         | Inr v \<Rightarrow>
             (valid, issues,
              if v \<noteq> JUndefined \<or> k \<in> set (map fst data) then (k, v) # out else out))"

definition extra_keys :: "(string \<times> schema) list \<Rightarrow> (string \<times> json) list \<Rightarrow> (string \<times> json) list" where
  "extra_keys shape data =
     filter (\<lambda>(k, v). k \<notin> set (map fst shape) \<and> k \<noteq> ''__proto__'') data"

definition z_object :: "(string \<times> schema) list \<Rightarrow> bool \<Rightarrow> schema" where
  "z_object shape passthrough p x =
     (case x of
        JObj data \<Rightarrow>
          (let (valid, issues, out) = parse_shape shape p data
           in if valid
              then Inr (JObj (out @ (if passthrough then extra_keys shape data else [])))
              else Inl issues)
      | _ \<Rightarrow> Inl [invalid_type p ''object'' x])"

text \<open>\<open>schema.parse(args)\<close>: the parse starts at the empty path.\<close>

definition parse :: "schema \<Rightarrow> json \<Rightarrow> ZodIssue list + json" where
  "parse sch args = sch [] args"

section \<open>The incident schemas\<close>

definition stateMap :: "(string \<times> string) list" where
  "stateMap =
     [(''New'', ''1''), (''In Progress'', ''2''), (''On Hold'', ''3''),
      (''Resolved'', ''6''), (''Closed'', ''7''), (''Canceled'', ''8'')]"

definition priorityMap :: "(string \<times> string) list" where
  "priorityMap =
     [(''Critical'', ''1''), (''High'', ''2''), (''Moderate'', ''3''),
      (''Low'', ''4''), (''Planning'', ''5'')]"

definition urgencyMap :: "(string \<times> string) list" where
  "urgencyMap = [(''High'', ''1''), (''Medium'', ''2''), (''Low'', ''3'')]"

text \<open>
  \<open>map[val] || val\<close>: the mapped code when there is one and it is not empty. The
  z_transform only ever sees a member of its enum, none of which names a property that
  a plain object inherits.
\<close>

definition lookup_or :: "(string \<times> string) list \<Rightarrow> string \<Rightarrow> string" where
  "lookup_or m val =
     (case map_of m val of
        None \<Rightarrow> val
      | Some code \<Rightarrow> if code = [] then val else code)"

definition IncidentStateEnum :: schema where
  "IncidentStateEnum =
     z_transform
       (z_enum [''1'', ''2'', ''3'', ''6'', ''7'', ''8'',
                ''New'', ''In Progress'', ''On Hold'', ''Resolved'', ''Closed'', ''Canceled''])
       (lookup_or stateMap)"

definition IncidentPriorityEnum :: schema where
  "IncidentPriorityEnum =
     z_transform
       (z_enum [''1'', ''2'', ''3'', ''4'', ''5'',
                ''Critical'', ''High'', ''Moderate'', ''Low'', ''Planning''])
       (lookup_or priorityMap)"

definition IncidentUrgencyEnum :: schema where
  "IncidentUrgencyEnum =
     z_transform
       (z_enum [''1'', ''2'', ''3'', ''High'', ''Medium'', ''Low''])
       (lookup_or urgencyMap)"

definition QueryOperatorSchema :: schema where
  "QueryOperatorSchema =
     z_object
       [(''operator'',
           z_enum [''='', ''!='', ''>'', ''>='', ''<'', ''<='',
                   ''LIKE'', ''STARTSWITH'', ''ENDSWITH'', ''CONTAINS'',
                   ''IN'', ''NOT IN'', ''ISEMPTY'', ''ISNOTEMPTY'']),
        (''value'', z_union [z_string, z_number [], z_boolean])]
       False"

definition QueryValueSchema :: schema where
  "QueryValueSchema = z_union [z_string, z_number [], z_boolean, QueryOperatorSchema]"

definition QueryFilterSchema :: schema where
  "QueryFilterSchema = z_optional (z_record QueryValueSchema)"

definition InstanceNameSchema :: schema where
  "InstanceNameSchema = z_optional (z_enum [''primary'', ''dev'', ''test'', ''prod''])"

definition IncidentQuerySchema :: schema where
  "IncidentQuerySchema =
     z_object
       [(''filter'', QueryFilterSchema),
        (''limit'', z_default (z_number [Check_int, Check_min 1, Check_max 1000]) (JNum 100)),
        (''fields'', z_optional (z_array z_string)),
        (''instance'', InstanceNameSchema)]
       False"

definition IncidentGetSchema :: schema where
  "IncidentGetSchema =
     z_object
       [(''identifier'', z_string_min 1 ''Identifier cannot be empty''),
        (''fields'', z_optional (z_array z_string)),
        (''instance'', InstanceNameSchema)]
       False"

definition IncidentCreateSchema :: schema where
  "IncidentCreateSchema =
     z_object
       [(''short_description'',
           z_string_min 1 ''Short description is required and cannot be empty''),
        (''description'', z_optional z_string),
        (''priority'', z_optional IncidentPriorityEnum),
        (''urgency'', z_optional IncidentUrgencyEnum),
        (''impact'', z_optional IncidentUrgencyEnum),
        (''category'', z_optional z_string),
        (''subcategory'', z_optional z_string),
        (''assignment_group'', z_optional z_string),
        (''assigned_to'', z_optional z_string),
        (''caller_id'', z_optional z_string),
        (''instance'', InstanceNameSchema)]
       True"

definition IncidentUpdateSchema :: schema where
  "IncidentUpdateSchema =
     z_object
       [(''identifier'', z_string_min 1 ''Identifier cannot be empty''),
        (''state'', z_optional IncidentStateEnum),
        (''priority'', z_optional IncidentPriorityEnum),
        (''urgency'', z_optional IncidentUrgencyEnum),
        (''impact'', z_optional IncidentUrgencyEnum),
        (''short_description'', z_optional z_string),
        (''description'', z_optional z_string),
        (''work_notes'', z_optional z_string),
        (''comments'', z_optional z_string),
        (''assignment_group'', z_optional z_string),
        (''assigned_to'', z_optional z_string),
        (''close_code'', z_optional z_string),
        (''close_notes'', z_optional z_string),
        (''category'', z_optional z_string),
        (''subcategory'', z_optional z_string),
        (''instance'', InstanceNameSchema)]
       True"

definition IncidentDeleteSchema :: schema where
  "IncidentDeleteSchema =
     z_object
       [(''identifier'', z_string_min 1 ''Identifier cannot be empty''),
        (''confirm'',
           z_refine z_boolean (\<lambda>val. val = JBool True)
             ''Deletion requires explicit confirmation. Set confirm to true.''),
        (''instance'', InstanceNameSchema)]
       False"

section \<open>The table API client\<close>

text \<open>
  The client talks to the remote table API through its HTTP library. A request is
  what the library is asked to send; the log of a run is the list of its requests.
\<close>

datatype request =
    GET string "(string \<times> json) list"
  | POST string json
  | PATCH string json
  | DELETE string

text \<open>
  What the HTTP library answers is not this program's: it is a parameter of the
  model, a function from the request and the state of the world to the typed answer
  (\<open>response.data.result\<close>: a list of records, or one record) or the thrown value,
  and the next state of the world.
\<close>

record axios_response =
  response_status :: rat
  response_data :: json

datatype thrown =
    AxiosError "axios_response option" bool string
  | OtherError string
  | NotAnError json

record 'w axios =
  axios_get_list :: "string \<Rightarrow> (string \<times> json) list \<Rightarrow> 'w \<Rightarrow> (thrown + json list) \<times> 'w"
  axios_get_single :: "string \<Rightarrow> (string \<times> json) list \<Rightarrow> 'w \<Rightarrow> (thrown + json) \<times> 'w"
  axios_post :: "string \<Rightarrow> json \<Rightarrow> 'w \<Rightarrow> (thrown + json) \<times> 'w"
  axios_patch :: "string \<Rightarrow> json \<Rightarrow> 'w \<Rightarrow> (thrown + json) \<times> 'w"
  axios_delete :: "string \<Rightarrow> 'w \<Rightarrow> (thrown + unit) \<times> 'w"

record 'w ServiceNowClient =
  instanceUrl :: string
  axiosInstance :: "'w axios"

text \<open>A run threads the log of requests and the state of the world.\<close>

type_synonym 'w run = "request list \<times> 'w"

type_synonym ('a, 'w) io = "'w run \<Rightarrow> (js_error + 'a) \<times> 'w run"

definition io_lift :: "js_error + 'a \<Rightarrow> ('a, 'w) io" where
  "io_lift r st = (r, st)"

definition io_bind :: "('a, 'w) io \<Rightarrow> ('a \<Rightarrow> ('b, 'w) io) \<Rightarrow> ('b, 'w) io" where
  "io_bind m f st = (case m st of (Inl e, st') \<Rightarrow> (Inl e, st') | (Inr v, st') \<Rightarrow> f v st')"

subsection \<open>buildEncodedQuery\<close>

fun query_part :: "runtime \<Rightarrow> string \<times> json \<Rightarrow> js_error + string" where
  "query_part rt (field, v) =
     and_then (if typeof_object v then in_operator rt ''operator'' v else Inr False)
       (\<lambda>complex.
          if complex
          then and_then (get_prop rt v ''operator'') (\<lambda>operator.
               and_then (get_prop rt v ''value'') (\<lambda>val.
               and_then (ToString rt operator) (\<lambda>operator_text.
               and_then (ToString rt val) (\<lambda>val_text.
                 Inr (field @ operator_text @ val_text)))))
          else and_then (ToString rt v) (\<lambda>v_text. Inr (field @ ''='' @ v_text)))"

definition buildEncodedQuery :: "runtime \<Rightarrow> json \<Rightarrow> js_error + string" where
  "buildEncodedQuery rt flt =
     and_then (own_entries rt flt) (\<lambda>entries.
     and_then (map_throwing (query_part rt) entries) (\<lambda>queryParts.
       Inr (join ''^'' queryParts)))"

subsection \<open>handleError\<close>

definition handleError_message :: "runtime \<Rightarrow> string \<Rightarrow> thrown \<Rightarrow> string \<Rightarrow> js_error + string" where
  "handleError_message rt url err ctx =
     (case err of
        AxiosError (Some response) req msg \<Rightarrow>
          and_then (if ToBoolean (response_data response) \<and> typeof_object (response_data response)
                    then in_operator rt ''error'' (response_data response) else Inr False)
            (\<lambda>has_error.
               if has_error
               then and_then (get_prop rt (response_data response) ''error'') (\<lambda>e.
                    and_then (get_prop rt e ''message'') (\<lambda>m.
                    and_then (ToString rt m) (\<lambda>m_text.
                    and_then (get_prop rt e ''detail'') (\<lambda>d.
                    and_then (if ToBoolean d
                              then and_then (ToString rt d) (\<lambda>d_text. Inr ('' - '' @ d_text))
                              else Inr []) (\<lambda>detail_text.
                      Inr (''ServiceNow API Error ('' @ ctx @ ''): '' @ m_text @ detail_text))))))
               else Inr (''ServiceNow API Error ('' @ ctx @ ''): HTTP ''
                         @ Number_toString rt (response_status response) @ '' - '' @ msg))
      | AxiosError None True msg \<Rightarrow>
          Inr (''ServiceNow Connection Error ('' @ ctx @ ''): No response received from '' @ url)
      | AxiosError None False msg \<Rightarrow>
          Inr (''ServiceNow Client Error ('' @ ctx @ ''): '' @ msg)
      | OtherError msg \<Rightarrow>
          Inr (''ServiceNow Client Error ('' @ ctx @ ''): '' @ msg)
      | NotAnError v \<Rightarrow>
          and_then (ToString rt v) (\<lambda>v_text.
            Inr (''ServiceNow Unknown Error ('' @ ctx @ ''): '' @ v_text)))"

text \<open>
  \<open>throw this.handleError(error, context)\<close>: the error that leaves the method, also
  when building the context or the message throws first.
\<close>

definition handleError :: "runtime \<Rightarrow> string \<Rightarrow> thrown \<Rightarrow> js_error + string \<Rightarrow> js_error" where
  "handleError rt url err ctx =
     (case and_then ctx (handleError_message rt url err) of
        Inl e \<Rightarrow> e
      | Inr msg \<Rightarrow> Error msg)"

definition caught :: "js_error \<Rightarrow> thrown" where
  "caught e = (case e of Error msg \<Rightarrow> OtherError msg)"

subsection \<open>The methods\<close>

record TableQueryOptions =
  opt_limit :: json
  opt_offset :: json
  opt_fields :: json
  opt_displayValue :: json
  opt_excludeReferenceLink :: json

text \<open>\<open>options?.name\<close>\<close>

definition option_field :: "(TableQueryOptions \<Rightarrow> json) \<Rightarrow> TableQueryOptions option \<Rightarrow> json" where
  "option_field name opts = (case opts of None \<Rightarrow> JUndefined | Some opt \<Rightarrow> name opt)"

definition queryTable_params :: "runtime \<Rightarrow> json \<Rightarrow> TableQueryOptions option
    \<Rightarrow> js_error + (string \<times> json) list" where
  "queryTable_params rt flt opts =
     and_then (if ToBoolean flt
               then and_then (buildEncodedQuery rt flt) (\<lambda>q. Inr [(''sysparm_query'', JStr q)])
               else Inr []) (\<lambda>p_query.
     and_then (if ToBoolean (option_field opt_fields opts)
               then and_then (call_join rt (option_field opt_fields opts) '','')
                      (\<lambda>s. Inr [(''sysparm_fields'', JStr s)])
               else Inr []) (\<lambda>p_fields.
       Inr (p_query
            @ (if ToBoolean (option_field opt_limit opts)
               then [(''sysparm_limit'', option_field opt_limit opts)] else [])
            @ (if ToBoolean (option_field opt_offset opts)
               then [(''sysparm_offset'', option_field opt_offset opts)] else [])
            @ p_fields
            @ (if option_field opt_displayValue opts \<noteq> JUndefined
               then [(''sysparm_display_value'', option_field opt_displayValue opts)] else [])
            @ (if ToBoolean (option_field opt_excludeReferenceLink opts)
               then [(''sysparm_exclude_reference_link'', JBool True)] else []))))"

definition queryTable :: "runtime \<Rightarrow> 'w ServiceNowClient \<Rightarrow> string \<Rightarrow> json
    \<Rightarrow> TableQueryOptions option \<Rightarrow> (json list, 'w) io" where
  "queryTable rt client tableName flt opts st =
     (let ctx = Inr (''queryTable('' @ tableName @ '')'')
      in case queryTable_params rt flt opts of
           Inl e \<Rightarrow> (Inl (handleError rt (instanceUrl client) (caught e) ctx), st)
         | Inr params \<Rightarrow>
             (let url = ''/table/'' @ tableName
              in case axios_get_list (axiosInstance client) url params (snd st) of
                   (Inl err, w) \<Rightarrow>
                     (Inl (handleError rt (instanceUrl client) err ctx), (fst st @ [GET url params], w))
                 | (Inr results, w) \<Rightarrow> (Inr results, (fst st @ [GET url params], w))))"

definition getRecord_params :: "runtime \<Rightarrow> TableQueryOptions option
    \<Rightarrow> js_error + (string \<times> json) list" where
  "getRecord_params rt opts =
     and_then (if ToBoolean (option_field opt_fields opts)
               then and_then (call_join rt (option_field opt_fields opts) '','')
                      (\<lambda>s. Inr [(''sysparm_fields'', JStr s)])
               else Inr []) (\<lambda>p_fields.
       Inr (p_fields
            @ (if option_field opt_displayValue opts \<noteq> JUndefined
               then [(''sysparm_display_value'', option_field opt_displayValue opts)] else [])
            @ (if ToBoolean (option_field opt_excludeReferenceLink opts)
               then [(''sysparm_exclude_reference_link'', JBool True)] else [])))"

definition getRecord :: "runtime \<Rightarrow> 'w ServiceNowClient \<Rightarrow> string \<Rightarrow> json
    \<Rightarrow> TableQueryOptions option \<Rightarrow> (json, 'w) io" where
  "getRecord rt client tableName sysId opts st =
     (let ctx = and_then (ToString rt sysId) (\<lambda>sysId_text.
                  Inr (''getRecord('' @ tableName @ '', '' @ sysId_text @ '')''))
      in case and_then (getRecord_params rt opts) (\<lambda>params.
              and_then (ToString rt sysId) (\<lambda>sysId_text.
                Inr (''/table/'' @ tableName @ ''/'' @ sysId_text, params))) of
           Inl e \<Rightarrow> (Inl (handleError rt (instanceUrl client) (caught e) ctx), st)
         | Inr (url, params) \<Rightarrow>
             (case axios_get_single (axiosInstance client) url params (snd st) of
                (Inl err, w) \<Rightarrow>
                  (Inl (handleError rt (instanceUrl client) err ctx), (fst st @ [GET url params], w))
              | (Inr result, w) \<Rightarrow> (Inr result, (fst st @ [GET url params], w))))"

definition createRecord :: "runtime \<Rightarrow> 'w ServiceNowClient \<Rightarrow> string \<Rightarrow> json \<Rightarrow> (json, 'w) io" where
  "createRecord rt client tableName body st =
     (let ctx = Inr (''createRecord('' @ tableName @ '')'');
          url = ''/table/'' @ tableName
      in case axios_post (axiosInstance client) url body (snd st) of
           (Inl err, w) \<Rightarrow>
             (Inl (handleError rt (instanceUrl client) err ctx), (fst st @ [POST url body], w))
         | (Inr result, w) \<Rightarrow> (Inr result, (fst st @ [POST url body], w)))"

definition updateRecord :: "runtime \<Rightarrow> 'w ServiceNowClient \<Rightarrow> string \<Rightarrow> json \<Rightarrow> json
    \<Rightarrow> (json, 'w) io" where
  "updateRecord rt client tableName sysId body st =
     (let ctx = and_then (ToString rt sysId) (\<lambda>sysId_text.
                  Inr (''updateRecord('' @ tableName @ '', '' @ sysId_text @ '')''))
      in case and_then (ToString rt sysId) (\<lambda>sysId_text.
                Inr (''/table/'' @ tableName @ ''/'' @ sysId_text)) of
           Inl e \<Rightarrow> (Inl (handleError rt (instanceUrl client) (caught e) ctx), st)
         | Inr url \<Rightarrow>
             (case axios_patch (axiosInstance client) url body (snd st) of
                (Inl err, w) \<Rightarrow>
                  (Inl (handleError rt (instanceUrl client) err ctx), (fst st @ [PATCH url body], w))
              | (Inr result, w) \<Rightarrow> (Inr result, (fst st @ [PATCH url body], w))))"

definition deleteRecord :: "runtime \<Rightarrow> 'w ServiceNowClient \<Rightarrow> string \<Rightarrow> json \<Rightarrow> (unit, 'w) io" where
  "deleteRecord rt client tableName sysId st =
     (let ctx = and_then (ToString rt sysId) (\<lambda>sysId_text.
                  Inr (''deleteRecord('' @ tableName @ '', '' @ sysId_text @ '')''))
      in case and_then (ToString rt sysId) (\<lambda>sysId_text.
                Inr (''/table/'' @ tableName @ ''/'' @ sysId_text)) of
           Inl e \<Rightarrow> (Inl (handleError rt (instanceUrl client) (caught e) ctx), st)
         | Inr url \<Rightarrow>
             (case axios_delete (axiosInstance client) url (snd st) of
                (Inl err, w) \<Rightarrow>
                  (Inl (handleError rt (instanceUrl client) err ctx), (fst st @ [DELETE url], w))
              | (Inr u, w) \<Rightarrow> (Inr (), (fst st @ [DELETE url], w))))"

section \<open>The incident tools\<close>

definition INCIDENT_TABLE :: string where
  "INCIDENT_TABLE = ''incident''"

text \<open>\<open>/^[a-f0-9]{32}$/i.test(s)\<close>\<close>

definition is_hex_digit :: "char \<Rightarrow> bool" where
  "is_hex_digit c = (c \<in> set ''0123456789abcdefABCDEF'')"

definition is_sys_id :: "string \<Rightarrow> bool" where
  "is_sys_id s = (length s = 32 \<and> list_all is_hex_digit s)"

text \<open>The options objects the tools build: \<open>{ limit, fields }\<close> and the like.\<close>

definition no_options :: TableQueryOptions where
  "no_options =
     \<lparr>opt_limit = JUndefined, opt_offset = JUndefined, opt_fields = JUndefined,
      opt_displayValue = JUndefined, opt_excludeReferenceLink = JUndefined\<rparr>"

text \<open>The check mark that opens the success messages, in UTF-8.\<close>

definition check_mark :: string where
  "check_mark = [CHR 0xE2, CHR 0x9C, CHR 0x93]"

subsection \<open>formatValidationError\<close>

fun path_text :: "runtime \<Rightarrow> path_seg \<Rightarrow> string" where
  "path_text rt (Key k) = k"
| "path_text rt (Index i) = Number_toString rt (of_nat i)"

definition issue_line :: "runtime \<Rightarrow> ZodIssue \<Rightarrow> string" where
  "issue_line rt err =
     (let p = join ''.'' (map (path_text rt) (path err))
      in ''  - '' @ (if p \<noteq> [] then p @ '': '' else []) @ message rt err)"

definition formatValidationError :: "runtime \<Rightarrow> ZodIssue list \<Rightarrow> string" where
  "formatValidationError rt issues =
     ''Validation Error:\<newline>'' @ join ''\<newline>'' (map (issue_line rt) issues)"

subsection \<open>The tools with validated input\<close>

definition incidentQuery :: "runtime \<Rightarrow> 'w ServiceNowClient \<Rightarrow> json \<Rightarrow> (string, 'w) io" where
  "incidentQuery rt client args =
     (case parse IncidentQuerySchema args of
        Inl issues \<Rightarrow> io_lift (Inl (Error (formatValidationError rt issues)))
      | Inr validatedArgs \<Rightarrow>
          io_bind (io_lift (get_prop rt validatedArgs ''filter'')) (\<lambda>flt.
          io_bind (io_lift (get_prop rt validatedArgs ''limit'')) (\<lambda>lim.
          io_bind (io_lift (get_prop rt validatedArgs ''fields'')) (\<lambda>flds.
          io_bind (queryTable rt client INCIDENT_TABLE flt
                     (Some (no_options\<lparr>opt_limit := lim, opt_fields := flds\<rparr>))) (\<lambda>results.
            if length results = 0
            then io_lift (Inr ''No incidents found matching the criteria.'')
            else io_lift (Inr (''Found '' @ Number_toString rt (of_nat (length results))
                               @ '' incident(s):\<newline>\<newline>''
                               @ JSON_stringify rt (JArr results))))))))"

definition incidentGet :: "runtime \<Rightarrow> 'w ServiceNowClient \<Rightarrow> json \<Rightarrow> (string, 'w) io" where
  "incidentGet rt client args =
     (case parse IncidentGetSchema args of
        Inl issues \<Rightarrow> io_lift (Inl (Error (formatValidationError rt issues)))
      | Inr validatedArgs \<Rightarrow>
          io_bind (io_lift (get_prop rt validatedArgs ''identifier'')) (\<lambda>identifier.
          io_bind (io_lift (get_prop rt validatedArgs ''fields'')) (\<lambda>flds.
          io_bind (io_lift (ToString rt identifier)) (\<lambda>identifier_text.
            if is_sys_id identifier_text
            then io_bind (getRecord rt client INCIDENT_TABLE identifier
                            (Some (no_options\<lparr>opt_fields := flds\<rparr>))) (\<lambda>incident.
                   io_lift (Inr (''Incident Details:\<newline>\<newline>'' @ JSON_stringify rt incident)))
            else io_bind (queryTable rt client INCIDENT_TABLE (JObj [(''number'', identifier)])
                            (Some (no_options\<lparr>opt_limit := JNum 1, opt_fields := flds\<rparr>)))
                   (\<lambda>results.
                      case results of
                        [] \<Rightarrow> io_lift (Inr (''Incident '' @ [CHR 0x22] @ identifier_text
                                            @ [CHR 0x22] @ '' not found.''))
                      | incident # others \<Rightarrow>
                          io_lift (Inr (''Incident Details:\<newline>\<newline>''
                                        @ JSON_stringify rt incident)))))))"

text \<open>
  \<open>incidentCreate\<close> copies nine optional fields into the new incident, each when its
  validated value is truthy, after \<open>short_description\<close> and the fields the schema does
  not name.
\<close>

definition optional_create_fields :: "string list" where
  "optional_create_fields =
     [''description'', ''priority'', ''urgency'', ''impact'', ''category'', ''subcategory'',
      ''assignment_group'', ''assigned_to'', ''caller_id'']"

definition incidentCreate :: "runtime \<Rightarrow> 'w ServiceNowClient \<Rightarrow> json \<Rightarrow> (string, 'w) io" where
  "incidentCreate rt client args =
     (case parse IncidentCreateSchema args of
        Inl issues \<Rightarrow> io_lift (Inl (Error (formatValidationError rt issues)))
      | Inr validatedArgs \<Rightarrow>
          io_bind (io_lift (get_prop rt validatedArgs ''short_description''))
            (\<lambda>short_description.
          io_bind (io_lift (map_throwing (get_prop rt validatedArgs) optional_create_fields))
            (\<lambda>provided.
          io_bind (io_lift (rest_props rt
                      (''short_description'' # optional_create_fields @ [''instance''])
                      validatedArgs))
            (\<lambda>otherFields.
          io_bind (io_lift (own_entries rt otherFields)) (\<lambda>others.
          io_bind (createRecord rt client INCIDENT_TABLE
                     (JObj (fold (\<lambda>(k, v). set_if_truthy k v)
                              (zip optional_create_fields provided)
                              ((''short_description'', short_description) # others))))
            (\<lambda>newIncident.
          io_bind (io_lift (get_prop rt newIncident ''number'')) (\<lambda>num.
          io_bind (io_lift (ToString rt num)) (\<lambda>num_text.
          io_bind (io_lift (get_prop rt newIncident ''sys_id'')) (\<lambda>sysId.
          io_bind (io_lift (ToString rt sysId)) (\<lambda>sysId_text.
            io_lift (Inr (check_mark @ '' Incident created successfully!\<newline>\<newline>''
                          @ ''Incident Number: '' @ num_text
                          @ ''\<newline>Sys ID: '' @ sysId_text
                          @ ''\<newline>\<newline>Details:\<newline>''
                          @ JSON_stringify rt newIncident))))))))))))"

definition incidentUpdate :: "runtime \<Rightarrow> 'w ServiceNowClient \<Rightarrow> json \<Rightarrow> (string, 'w) io" where
  "incidentUpdate rt client args =
     (case parse IncidentUpdateSchema args of
        Inl issues \<Rightarrow> io_lift (Inl (Error (formatValidationError rt issues)))
      | Inr validatedArgs \<Rightarrow>
          io_bind (io_lift (get_prop rt validatedArgs ''identifier'')) (\<lambda>identifier.
          io_bind (io_lift (rest_props rt [''identifier'', ''instance''] validatedArgs))
            (\<lambda>updateData.
          io_bind (io_lift (ToString rt identifier)) (\<lambda>identifier_text.
          io_bind
            (if is_sys_id identifier_text
             then io_lift (Inr (Some identifier))
             else io_bind (queryTable rt client INCIDENT_TABLE (JObj [(''number'', identifier)])
                             (Some (no_options\<lparr>opt_limit := JNum 1,
                                      opt_fields := JArr [JStr ''sys_id'', JStr ''number'']\<rparr>)))
                    (\<lambda>results.
                       case results of
                         [] \<Rightarrow> io_lift (Inr None)
                       | incident # others \<Rightarrow>
                           io_bind (io_lift (get_prop rt incident ''sys_id'')) (\<lambda>sysId.
                             io_lift (Inr (Some sysId)))))
            (\<lambda>found.
               case found of
                 None \<Rightarrow> io_lift (Inr (''Incident '' @ [CHR 0x22] @ identifier_text
                                        @ [CHR 0x22] @ '' not found.''))
               | Some sysId \<Rightarrow>
                   io_bind (updateRecord rt client INCIDENT_TABLE sysId updateData)
                     (\<lambda>updatedIncident.
                   io_bind (io_lift (get_prop rt updatedIncident ''number'')) (\<lambda>num.
                   io_bind (io_lift (ToString rt num)) (\<lambda>num_text.
                     io_lift (Inr (check_mark @ '' Incident updated successfully!\<newline>\<newline>''
                                   @ ''Incident Number: '' @ num_text
                                   @ ''\<newline>\<newline>Updated Details:\<newline>''
                                   @ JSON_stringify rt updatedIncident))))))))))"

definition incidentDelete :: "runtime \<Rightarrow> 'w ServiceNowClient \<Rightarrow> json \<Rightarrow> (string, 'w) io" where
  "incidentDelete rt client args =
     (case parse IncidentDeleteSchema args of
        Inl issues \<Rightarrow> io_lift (Inl (Error (formatValidationError rt issues)))
      | Inr validatedArgs \<Rightarrow>
          io_bind (io_lift (get_prop rt validatedArgs ''identifier'')) (\<lambda>identifier.
          io_bind (io_lift (get_prop rt validatedArgs ''confirm'')) (\<lambda>confirm.
          io_bind (io_lift (ToString rt identifier)) (\<lambda>identifier_text.
          io_bind
            (if is_sys_id identifier_text
             then io_bind (getRecord rt client INCIDENT_TABLE identifier
                             (Some (no_options\<lparr>opt_fields := JArr [JStr ''sys_id'', JStr ''number'']\<rparr>)))
                    (\<lambda>incident.
                  io_bind (io_lift (get_prop rt incident ''sys_id'')) (\<lambda>sysId.
                  io_bind (io_lift (get_prop rt incident ''number'')) (\<lambda>incidentNumber.
                    io_lift (Inr (Some (sysId, incidentNumber))))))
             else io_bind (queryTable rt client INCIDENT_TABLE (JObj [(''number'', identifier)])
                             (Some (no_options\<lparr>opt_limit := JNum 1,
                                      opt_fields := JArr [JStr ''sys_id'', JStr ''number'']\<rparr>)))
                    (\<lambda>results.
                       case results of
                         [] \<Rightarrow> io_lift (Inr None)
                       | incident # others \<Rightarrow>
                           io_bind (io_lift (get_prop rt incident ''sys_id'')) (\<lambda>sysId.
                           io_bind (io_lift (get_prop rt incident ''number'')) (\<lambda>incidentNumber.
                             io_lift (Inr (Some (sysId, incidentNumber)))))))
            (\<lambda>found.
               case found of
                 None \<Rightarrow> io_lift (Inr (''Incident '' @ [CHR 0x22] @ identifier_text
                                        @ [CHR 0x22] @ '' not found.''))
               | Some (sysId, incidentNumber) \<Rightarrow>
                   io_bind (deleteRecord rt client INCIDENT_TABLE sysId) (\<lambda>u.
                   io_bind (io_lift (ToString rt incidentNumber)) (\<lambda>number_text.
                     io_lift (Inr (check_mark @ '' Incident '' @ number_text
                                   @ '' deleted successfully.'')))))))))"

subsection \<open>The tools without validation\<close>

text \<open>
  \<open>tools/incident-tools.ts\<close> holds the tools as they were before the schemas: the
  payload is destructured as it comes.
\<close>

definition legacy_incidentGet :: "runtime \<Rightarrow> 'w ServiceNowClient \<Rightarrow> json \<Rightarrow> (string, 'w) io" where
  "legacy_incidentGet rt client args =
     io_bind (io_lift (get_prop rt args ''identifier'')) (\<lambda>identifier.
     io_bind (io_lift (get_prop rt args ''fields'')) (\<lambda>flds.
     io_bind (io_lift (ToString rt identifier)) (\<lambda>identifier_text.
       if is_sys_id identifier_text
       then io_bind (getRecord rt client INCIDENT_TABLE identifier
                       (Some (no_options\<lparr>opt_fields := flds\<rparr>))) (\<lambda>incident.
              io_lift (Inr (''Incident Details:\<newline>\<newline>'' @ JSON_stringify rt incident)))
       else io_bind (queryTable rt client INCIDENT_TABLE (JObj [(''number'', identifier)])
                       (Some (no_options\<lparr>opt_limit := JNum 1, opt_fields := flds\<rparr>)))
              (\<lambda>results.
                 case results of
                   [] \<Rightarrow> io_lift (Inr (''Incident '' @ [CHR 0x22] @ identifier_text
                                       @ [CHR 0x22] @ '' not found.''))
                 | incident # others \<Rightarrow>
                     io_lift (Inr (''Incident Details:\<newline>\<newline>''
                                   @ JSON_stringify rt incident))))))"

definition legacy_incidentUpdate :: "runtime \<Rightarrow> 'w ServiceNowClient \<Rightarrow> json \<Rightarrow> (string, 'w) io" where
  "legacy_incidentUpdate rt client args =
     io_bind (io_lift (get_prop rt args ''identifier'')) (\<lambda>identifier.
     io_bind (io_lift (rest_props rt [''identifier''] args)) (\<lambda>updateData.
     io_bind (io_lift (ToString rt identifier)) (\<lambda>identifier_text.
     io_bind
       (if is_sys_id identifier_text
        then io_lift (Inr (Some identifier))
        else io_bind (queryTable rt client INCIDENT_TABLE (JObj [(''number'', identifier)])
                        (Some (no_options\<lparr>opt_limit := JNum 1,
                                 opt_fields := JArr [JStr ''sys_id'', JStr ''number'']\<rparr>)))
               (\<lambda>results.
                  case results of
                    [] \<Rightarrow> io_lift (Inr None)
                  | incident # others \<Rightarrow>
                      io_bind (io_lift (get_prop rt incident ''sys_id'')) (\<lambda>sysId.
                        io_lift (Inr (Some sysId)))))
       (\<lambda>found.
          case found of
            None \<Rightarrow> io_lift (Inr (''Incident '' @ [CHR 0x22] @ identifier_text
                                   @ [CHR 0x22] @ '' not found.''))
          | Some sysId \<Rightarrow>
              io_bind (updateRecord rt client INCIDENT_TABLE sysId updateData)
                (\<lambda>updatedIncident.
              io_bind (io_lift (get_prop rt updatedIncident ''number'')) (\<lambda>num.
              io_bind (io_lift (ToString rt num)) (\<lambda>num_text.
                io_lift (Inr (check_mark @ '' Incident updated successfully!\<newline>\<newline>''
                              @ ''Incident Number: '' @ num_text
                              @ ''\<newline>\<newline>Updated Details:\<newline>''
                              @ JSON_stringify rt updatedIncident)))))))))"

section \<open>The filter expression of the specification\<close>

text \<open>
  The specification describes a filter as a list of entries, each a field name with a
  \<open>Literal\<close> or an \<open>Operator\<close> value over a scalar, and its serialization fragment
  by fragment. These definitions follow the specification's words; \<open>embed_filter\<close>
  gives the object that the tool payload carries for such a filter.
\<close>

datatype scalar = String string | Number rat | Boolean bool

datatype operator =
    EQ | NEQ | GT | GTE | LT | LTE
  | LIKE | STARTSWITH | ENDSWITH | CONTAINS
  | IN | NOT_IN | IS_EMPTY | IS_NOT_EMPTY

datatype FilterValue = Literal scalar | Operator operator scalar

fun symbol :: "operator \<Rightarrow> string" where
  "symbol EQ = ''=''"
| "symbol NEQ = ''!=''"
| "symbol GT = ''>''"
| "symbol GTE = ''>=''"
| "symbol LT = ''<''"
| "symbol LTE = ''<=''"
| "symbol LIKE = ''LIKE''"
| "symbol STARTSWITH = ''STARTSWITH''"
| "symbol ENDSWITH = ''ENDSWITH''"
| "symbol CONTAINS = ''CONTAINS''"
| "symbol IN = ''IN''"
| "symbol NOT_IN = ''NOT IN''"
| "symbol IS_EMPTY = ''ISEMPTY''"
| "symbol IS_NOT_EMPTY = ''ISNOTEMPTY''"

fun scalar_text :: "runtime \<Rightarrow> scalar \<Rightarrow> string" where
  "scalar_text rt (String s) = s"
| "scalar_text rt (Number n) = Number_toString rt n"
| "scalar_text rt (Boolean b) = (if b then ''true'' else ''false'')"

fun fragment :: "runtime \<Rightarrow> string \<times> FilterValue \<Rightarrow> string" where
  "fragment rt (field, Literal v) = field @ ''='' @ scalar_text rt v"
| "fragment rt (field, Operator op v) = field @ symbol op @ scalar_text rt v"

definition serialize :: "runtime \<Rightarrow> (string \<times> FilterValue) list \<Rightarrow> string" where
  "serialize rt f = join ''^'' (map (fragment rt) f)"

fun embed_scalar :: "scalar \<Rightarrow> json" where
  "embed_scalar (String s) = JStr s"
| "embed_scalar (Number n) = JNum n"
| "embed_scalar (Boolean b) = JBool b"

fun embed_value :: "FilterValue \<Rightarrow> json" where
  "embed_value (Literal v) = embed_scalar v"
| "embed_value (Operator op v) = JObj [(''operator'', JStr (symbol op)), (''value'', embed_scalar v)]"

definition embed_filter :: "(string \<times> FilterValue) list \<Rightarrow> json" where
  "embed_filter f = JObj (map (\<lambda>(field, v). (field, embed_value v)) f)"

section \<open>The lookup by number, as the specification words it\<close>

text \<open>
  The specification's lookup query: the table queried with the human-number field
  equal to the identifier and a limit of 1 (and the requested fields, if any); and
  the text of the not-found outcome.
\<close>

definition lookup_params :: "string \<Rightarrow> (string \<times> json) list \<Rightarrow> (string \<times> json) list" where
  "lookup_params identifier extra =
     (''sysparm_query'', JStr (''number='' @ identifier)) # (''sysparm_limit'', JNum 1) # extra"

definition lookup_request :: "string \<Rightarrow> (string \<times> json) list \<Rightarrow> request" where
  "lookup_request identifier extra = GET ''/table/incident'' (lookup_params identifier extra)"

definition not_found_text :: "string \<Rightarrow> string" where
  "not_found_text identifier = ''Incident '' @ [CHR 0x22] @ identifier @ [CHR 0x22] @ '' not found.''"

section \<open>The violations of a payload\<close>

text \<open>
  The issues of one key of an object schema are those its schema raises on the property
  of that name; the issues of a shape are those of its keys, in the order of the shape.
\<close>

definition field_issues :: "schema \<Rightarrow> path_seg list \<Rightarrow> json \<Rightarrow> ZodIssue list" where
  "field_issues sch p x = (case sch p x of Inl issues \<Rightarrow> issues | Inr v \<Rightarrow> [])"

definition shape_issues :: "(string \<times> schema) list \<Rightarrow> (string \<times> json) list \<Rightarrow> ZodIssue list" where
  "shape_issues shape data =
     concat (map (\<lambda>(k, sch). field_issues sch [Key k] (lookup data k)) shape)"

text \<open>
  A value violates a schema that rejects it. An issue is on a key of the payload when
  its path starts with the key: it is an issue of that field, or of a part of it.
\<close>

definition violated :: "schema \<Rightarrow> path_seg list \<Rightarrow> json \<Rightarrow> bool" where
  "violated sch p x = (case sch p x of Inl issues \<Rightarrow> True | Inr v \<Rightarrow> False)"

definition on_key :: "string \<Rightarrow> ZodIssue \<Rightarrow> bool" where
  "on_key k issue = (case path issue of Key k' # q \<Rightarrow> k' = k | _ \<Rightarrow> False)"

text \<open>
  Most schemas used here raise a single issue: a value they reject gets exactly one
  issue, at the path of the value.
\<close>

definition single :: "schema \<Rightarrow> bool" where
  "single sch =
     (\<forall>p x. case sch p x of Inr v \<Rightarrow> True | Inl issues \<Rightarrow> \<exists>c. issues = [\<lparr>path = p, kind = c\<rparr>])"

text \<open>
  A field marks its violations when the issues of a rejected value are not none and are
  all on the field's key.
\<close>

definition marks :: "string \<Rightarrow> schema \<Rightarrow> json \<Rightarrow> bool" where
  "marks k sch x =
     ((violated sch [Key k] x \<longrightarrow> field_issues sch [Key k] x \<noteq> [])
      \<and> (\<forall>issue \<in> set (field_issues sch [Key k] x). on_key k issue))"

section \<open>A runtime and three stores for the examples\<close>

text \<open>
  The examples run the tools on a runtime that prints the integers in decimal and
  words every issue of the validation library alike, and against three stores: one that holds no incident, one that answers every request with
  the same incident, and one that holds that incident and lists it for the query on its
  number only.
\<close>

fun decimal :: "nat \<Rightarrow> string" where
  "decimal n =
     (if n < 10 then [''0123456789'' ! n]
      else decimal (n div 10) @ [''0123456789'' ! (n mod 10)])"

declare decimal.simps [simp del]

definition example_runtime :: runtime where
  "example_runtime =
     \<lparr>Number_toString = (\<lambda>x. if x < 0 then ''-'' @ decimal (nat \<lfloor>- x\<rfloor>) else decimal (nat \<lfloor>x\<rfloor>)),
      JSON_stringify = (\<lambda>v. ''{...}''),
      TypeError_message = (\<lambda>site. ''TypeError''),
      Zod_message = (\<lambda>c. ''Invalid input'')\<rparr>"

definition example_incident :: json where
  "example_incident =
     JObj [(''sys_id'', JStr ''0123456789abcdef0123456789abcdef''),
           (''number'', JStr ''INC0010001'')]"

definition not_found :: thrown where
  "not_found =
     AxiosError (Some \<lparr>response_status = 404, response_data = JUndefined\<rparr>) True
       ''Request failed with status code 404''"

definition empty_store :: "unit ServiceNowClient" where
  "empty_store =
     \<lparr>instanceUrl = ''https://example.service-now.com'',
      axiosInstance =
        \<lparr>axios_get_list = (\<lambda>url params w. (Inr [], w)),
         axios_get_single = (\<lambda>url params w. (Inl not_found, w)),
         axios_post = (\<lambda>url body w. (Inl not_found, w)),
         axios_patch = (\<lambda>url body w. (Inl not_found, w)),
         axios_delete = (\<lambda>url w. (Inl not_found, w))\<rparr>\<rparr>"

definition example_store :: "unit ServiceNowClient" where
  "example_store =
     \<lparr>instanceUrl = ''https://example.service-now.com'',
      axiosInstance =
        \<lparr>axios_get_list = (\<lambda>url params w. (Inr [example_incident], w)),
         axios_get_single = (\<lambda>url params w. (Inr example_incident, w)),
         axios_post = (\<lambda>url body w. (Inr example_incident, w)),
         axios_patch = (\<lambda>url body w. (Inr example_incident, w)),
         axios_delete = (\<lambda>url w. (Inr (), w))\<rparr>\<rparr>"

definition one_incident_store :: "unit ServiceNowClient" where
  "one_incident_store =
     \<lparr>instanceUrl = ''https://example.service-now.com'',
      axiosInstance =
        \<lparr>axios_get_list =
           (\<lambda>url params w.
              (Inr (if lookup params ''sysparm_query'' = JStr ''number=INC0010001''
                    then [example_incident] else []), w)),
         axios_get_single = (\<lambda>url params w. (Inr example_incident, w)),
         axios_post = (\<lambda>url body w. (Inr example_incident, w)),
         axios_patch = (\<lambda>url body w. (Inr example_incident, w)),
         axios_delete = (\<lambda>url w. (Inr (), w))\<rparr>\<rparr>"

section \<open>Lemmas on the runtime and the validation library\<close>

lemma isInteger_iff: "isInteger n \<longleftrightarrow> n \<in> \<int>"
  unfolding isInteger_def by (metis Ints_of_int floor_of_int Ints_cases)

lemma lookup_Nil [simp]: "lookup [] k = JUndefined"
  by (simp add: lookup_def)

lemma lookup_Cons [simp]: "lookup ((k', v) # kvs) k = (if k' = k then v else lookup kvs k)"
  by (simp add: lookup_def)

lemma lookup_notin: "k \<notin> fst ` set kvs \<Longrightarrow> lookup kvs k = JUndefined"
  by (induction kvs) auto

lemma lookup_append:
  "lookup (xs @ ys) k = (if k \<in> fst ` set xs then lookup xs k else lookup ys k)"
  by (induction xs) force+

lemma parse_shape_keys:
  "parse_shape shape p data = (valid, issues, out) \<Longrightarrow> fst ` set out \<subseteq> fst ` set shape"
proof (induction shape arbitrary: valid issues out)
  case Nil
  then show ?case by simp
next
  case (Cons a shape)
  obtain k sch where a: "a = (k, sch)" by (cases a)
  obtain b is' out' where r: "parse_shape shape p data = (b, is', out')"
    by (cases "parse_shape shape p data")
  have "fst ` set out' \<subseteq> fst ` set shape" by (rule Cons.IH[OF r])
  moreover have "out = out' \<or> (\<exists>v. out = (k, v) # out')"
    using Cons.prems by (auto simp: a r split: sum.splits if_splits)
  ultimately show ?case by (force simp: a)
qed

lemma parse_shape_field:
  assumes "parse_shape shape p data = (True, issues, out)" "distinct (map fst shape)"
    "(k, sch) \<in> set shape"
  shows "sch (p @ [Key k]) (lookup data k) = Inr (lookup out k)"
  using assms
proof (induction shape arbitrary: issues out)
  case Nil
  then show ?case by simp
next
  case (Cons a shape)
  obtain k' sch' where a: "a = (k', sch')" by (cases a)
  obtain b is' out' where r: "parse_shape shape p data = (b, is', out')"
    by (cases "parse_shape shape p data")
  have keys: "fst ` set out' \<subseteq> fst ` set shape" by (rule parse_shape_keys[OF r])
  from Cons.prems(1) have b: "b = True"
    by (auto simp: a r split: sum.splits if_splits)
  show ?case
  proof (cases "(k, sch) = (k', sch')")
    case True
    then have nk: "k' \<notin> fst ` set out'" using keys Cons.prems(2) a by auto
    have u: "lookup out' k' = JUndefined" by (rule lookup_notin[OF nk])
    from Cons.prems(1) True obtain v where v: "sch' (p @ [Key k']) (lookup data k') = Inr v"
      and out: "out = (if v \<noteq> JUndefined \<or> k' \<in> fst ` set data then (k', v) # out' else out')"
      by (auto simp: a r split: sum.splits)
    from out u have "lookup out k' = v" by (auto split: if_splits)
    with v True show ?thesis by simp
  next
    case False
    then have mem: "(k, sch) \<in> set shape" using Cons.prems(3) a by auto
    then have kk: "k \<noteq> k'" using Cons.prems(2) a by force
    have "sch (p @ [Key k]) (lookup data k) = Inr (lookup out' k)"
      using Cons.IH[of is' out'] r b Cons.prems(2) mem by simp
    moreover have "lookup out k = lookup out' k"
      using Cons.prems(1) kk by (auto simp: a r split: sum.splits if_splits)
    ultimately show ?thesis by simp
  qed
qed

lemma extra_keys_notin: "k \<in> fst ` set shape \<Longrightarrow> k \<notin> fst ` set (extra_keys shape data)"
  by (force simp: extra_keys_def)

lemma z_object_Inr:
  assumes "z_object shape pt p x = Inr v"
  obtains data issues out where "x = JObj data" "parse_shape shape p data = (True, issues, out)"
    "v = JObj (out @ (if pt then extra_keys shape data else []))"
  using assms by (auto simp: z_object_def split: json.splits prod.splits if_splits)

lemma z_object_field:
  assumes "z_object shape pt p (JObj data) = Inr v" "distinct (map fst shape)" "(k, sch) \<in> set shape"
  shows "\<exists>fv. sch (p @ [Key k]) (lookup data k) = Inr fv \<and> get_prop rt v k = Inr fv"
proof -
  from assms(1) obtain issues out where out: "parse_shape shape p data = (True, issues, out)"
    and v: "v = JObj (out @ (if pt then extra_keys shape data else []))"
    by (auto elim!: z_object_Inr)
  have f: "sch (p @ [Key k]) (lookup data k) = Inr (lookup out k)"
    by (rule parse_shape_field[OF out assms(2,3)])
  have kin: "k \<in> fst ` set shape" using assms(3) by force
  have "lookup (out @ (if pt then extra_keys shape data else [])) k = lookup out k"
    using extra_keys_notin[OF kin, of data] by (auto simp: lookup_append lookup_notin)
  with f v show ?thesis by simp
qed

lemma parse_shape_invalid:
  assumes "(k, sch) \<in> set shape" "sch (p @ [Key k]) (lookup data k) = Inl e"
  shows "\<exists>issues out. parse_shape shape p data = (False, issues, out) \<and> set e \<subseteq> set issues"
  using assms
proof (induction shape)
  case Nil
  then show ?case by simp
next
  case (Cons a shape)
  obtain k' sch' where a: "a = (k', sch')" by (cases a)
  obtain b is' out' where r: "parse_shape shape p data = (b, is', out')"
    by (cases "parse_shape shape p data")
  show ?case
  proof (cases "(k, sch) = (k', sch')")
    case True
    with Cons.prems(2) show ?thesis by (simp add: a r)
  next
    case False
    then have "(k, sch) \<in> set shape" using Cons.prems(1) a by auto
    from Cons.IH[OF this Cons.prems(2)] r have "b = False" "set e \<subseteq> set is'" by auto
    then show ?thesis by (auto simp: a r split: sum.splits)
  qed
qed

lemma z_object_invalid:
  assumes "(k, sch) \<in> set shape" "sch (p @ [Key k]) (lookup data k) = Inl e"
  shows "\<exists>issues. z_object shape pt p (JObj data) = Inl issues \<and> set e \<subseteq> set issues"
  using parse_shape_invalid[OF assms] by (auto simp: z_object_def)

lemma limit_schema_Inr:
  assumes "z_default (z_number [Check_int, Check_min 1, Check_max 1000]) (JNum 100) p x = Inr fv"
  shows "\<exists>n. fv = JNum n \<and> n \<in> \<int> \<and> 1 \<le> n \<and> n \<le> 1000 \<and> (x = JUndefined \<longrightarrow> n = 100)"
  using assms
  by (auto simp: z_default_def z_number_def isInteger_iff split: json.splits if_splits)

lemma limit_schema_Inl:
  assumes "n < 1 \<or> n > 1000 \<or> n \<notin> \<int>"
  shows "\<exists>e. z_default (z_number [Check_int, Check_min 1, Check_max 1000]) (JNum 100) p (JNum n) = Inl e \<and> e \<noteq> []"
  using assms
  by (auto simp: z_default_def z_number_def isInteger_iff)

lemma z_string_min_Inr:
  assumes "z_string_min n msg p x = Inr v"
  shows "\<exists>s. x = JStr s \<and> v = JStr s \<and> n \<le> length s"
  using assms by (auto simp: z_string_min_def split: json.splits if_splits)

lemma z_string_Inr:
  assumes "z_string p x = Inr v"
  shows "\<exists>s. x = JStr s \<and> v = JStr s"
  using assms by (auto simp: z_string_def split: json.splits)

lemma parse_items_z_string:
  assumes "parse_items z_string p i xs = (True, issues, vs)"
  shows "vs = xs \<and> (\<exists>ss. xs = map JStr ss)"
  using assms
proof (induction xs arbitrary: i issues vs)
  case Nil
  then show ?case by simp
next
  case (Cons x xs)
  obtain b is' vs' where r: "parse_items z_string p (Suc i) xs = (b, is', vs')"
    by (cases "parse_items z_string p (Suc i) xs")
  from Cons.prems obtain v where v: "z_string (p @ [Index i]) x = Inr v"
    and b: "b = True" and vs': "vs = v # vs'"
    by (auto simp: r split: sum.splits)
  from z_string_Inr[OF v] vs' obtain s where x: "x = JStr s" and vs: "vs = x # vs'"
    by auto
  from Cons.IH[of "Suc i" is' vs'] r b obtain ss where "vs' = xs" "xs = map JStr ss" by auto
  then have 1: "vs = x # xs" and 2: "x # xs = map JStr (s # ss)" using x vs by simp_all
  from 2 have "\<exists>ss'. x # xs = map JStr ss'" by (rule exI)
  with 1 show ?case by simp
qed

lemma fields_schema_Inr:
  assumes "z_optional (z_array z_string) p x = Inr v"
  shows "v = x \<and> (x = JUndefined \<or> (\<exists>ss. x = JArr (map JStr ss)))"
proof (cases "x = JUndefined")
  case True
  with assms show ?thesis by (simp add: z_optional_def)
next
  case False
  with assms obtain xs issues vs where "x = JArr xs" "parse_items z_string p 0 xs = (True, issues, vs)"
    "v = JArr vs"
    by (auto simp: z_optional_def z_array_def split: json.splits prod.splits if_splits)
  with parse_items_z_string[of p 0 xs issues vs] show ?thesis by auto
qed

lemma IncidentGetSchema_Inr:
  assumes "parse IncidentGetSchema args = Inr v"
  shows "\<exists>payload s. args = JObj payload
           \<and> lookup payload ''identifier'' = JStr s \<and> s \<noteq> []
           \<and> get_prop rt v ''identifier'' = Inr (JStr s)
           \<and> get_prop rt v ''fields'' = Inr (lookup payload ''fields'')
           \<and> (lookup payload ''fields'' = JUndefined
                \<or> (\<exists>names. lookup payload ''fields'' = JArr (map JStr names)))"
proof -
  let ?shape = "[(''identifier'', z_string_min 1 ''Identifier cannot be empty''),
        (''fields'', z_optional (z_array z_string)),
        (''instance'', InstanceNameSchema)]"
  from assms have obj: "z_object ?shape False [] args = Inr v"
    by (simp add: parse_def IncidentGetSchema_def)
  then obtain payload where args: "args = JObj payload" by (auto elim: z_object_Inr)
  have "\<exists>fv. z_string_min 1 ''Identifier cannot be empty'' ([] @ [Key ''identifier''])
               (lookup payload ''identifier'') = Inr fv \<and> get_prop rt v ''identifier'' = Inr fv"
    by (rule z_object_field[OF obj[unfolded args]]) simp_all
  then obtain s where s: "lookup payload ''identifier'' = JStr s" "s \<noteq> []"
      "get_prop rt v ''identifier'' = Inr (JStr s)"
    by (fastforce dest: z_string_min_Inr)
  have "\<exists>fv. z_optional (z_array z_string) ([] @ [Key ''fields''])
               (lookup payload ''fields'') = Inr fv \<and> get_prop rt v ''fields'' = Inr fv"
    by (rule z_object_field[OF obj[unfolded args]]) simp_all
  then have f: "get_prop rt v ''fields'' = Inr (lookup payload ''fields'')"
    "lookup payload ''fields'' = JUndefined
       \<or> (\<exists>names. lookup payload ''fields'' = JArr (map JStr names))"
    by (auto dest: fields_schema_Inr)
  from args s f show ?thesis by blast
qed

lemma ToString_embed_scalar: "ToString rt (embed_scalar v) = Inr (scalar_text rt v)"
  by (cases v) simp_all

lemma typeof_object_embed_scalar: "\<not> typeof_object (embed_scalar v)"
  by (cases v) simp_all

lemma query_part_embed: "query_part rt (field, embed_value fv) = Inr (fragment rt (field, fv))"
  by (cases fv) (simp_all add: ToString_embed_scalar typeof_object_embed_scalar)

declare query_part.simps [simp del]

lemma map_throwing_all_Inr:
  "(\<And>x. x \<in> set xs \<Longrightarrow> f x = Inr (g x)) \<Longrightarrow> map_throwing f xs = Inr (map g xs)"
  by (induction xs) simp_all

lemma buildEncodedQuery_embed: "buildEncodedQuery rt (embed_filter f) = Inr (serialize rt f)"
proof -
  have "map_throwing (query_part rt) (map (\<lambda>(field, v). (field, embed_value v)) f)
        = Inr (map (fragment rt) f)"
    by (induction f) (auto simp: query_part_embed)
  then show ?thesis
    by (simp add: buildEncodedQuery_def embed_filter_def serialize_def)
qed

lemma count_list_join:
  assumes "\<And>x. x \<in> set xs \<Longrightarrow> c \<notin> set x" "xs \<noteq> []"
  shows "count_list (join [c] xs) c = length xs - 1"
  using assms
proof (induction "[c]" xs rule: join.induct)
  case 1
  then show ?case by simp
next
  case (2 x)
  then show ?case by (simp add: count_list_0_iff)
next
  case (3 x y ys)
  then have "count_list (join [c] (y # ys)) c = length (y # ys) - 1" by simp
  moreover have "count_list x c = 0" using 3(2) by (simp add: count_list_0_iff)
  ultimately show ?case by (simp add: count_list_append)
qed

lemma symbol_in_schema:
  "symbol op \<in> set [''='', ''!='', ''>'', ''>='', ''<'', ''<='',
                   ''LIKE'', ''STARTSWITH'', ''ENDSWITH'', ''CONTAINS'',
                   ''IN'', ''NOT IN'', ''ISEMPTY'', ''ISNOTEMPTY'']"
  by (cases op) simp_all

lemma scalar_union_embed:
  "z_union [z_string, z_number [], z_boolean] p (embed_scalar v) = Inr (embed_scalar v)"
  by (cases v) (simp_all add: z_union_def z_string_def z_number_def z_boolean_def)

lemma QueryValueSchema_embed: "QueryValueSchema p (embed_value fv) = Inr (embed_value fv)"
proof (cases fv)
  case (Literal v)
  then show ?thesis
    by (cases v) (simp_all add: QueryValueSchema_def z_union_def z_string_def z_number_def z_boolean_def)
next
  case (Operator op v)
  have e: "z_enum [''='', ''!='', ''>'', ''>='', ''<'', ''<='',
                   ''LIKE'', ''STARTSWITH'', ''ENDSWITH'', ''CONTAINS'',
                   ''IN'', ''NOT IN'', ''ISEMPTY'', ''ISNOTEMPTY''] q (JStr (symbol op)) = Inr (JStr (symbol op))" for q
    using symbol_in_schema[of op] unfolding z_enum_def by simp
  have "QueryOperatorSchema p (embed_value (Operator op v)) = Inr (embed_value (Operator op v))"
    by (simp add: QueryOperatorSchema_def z_object_def e scalar_union_embed)
  then show ?thesis
    by (simp add: Operator QueryValueSchema_def z_union_def z_string_def z_number_def z_boolean_def)
qed

lemma symbol_surj:
  assumes "s \<in> set [''='', ''!='', ''>'', ''>='', ''<'', ''<='',
                   ''LIKE'', ''STARTSWITH'', ''ENDSWITH'', ''CONTAINS'',
                   ''IN'', ''NOT IN'', ''ISEMPTY'', ''ISNOTEMPTY'']"
  shows "\<exists>op. s = symbol op"
proof -
  from assms have "s = symbol EQ \<or> s = symbol NEQ \<or> s = symbol GT \<or> s = symbol GTE
    \<or> s = symbol LT \<or> s = symbol LTE \<or> s = symbol LIKE \<or> s = symbol STARTSWITH
    \<or> s = symbol ENDSWITH \<or> s = symbol CONTAINS \<or> s = symbol IN \<or> s = symbol NOT_IN
    \<or> s = symbol IS_EMPTY \<or> s = symbol IS_NOT_EMPTY"
    by simp
  then show ?thesis by blast
qed

lemma scalar_union_Inr:
  assumes "z_union [z_string, z_number [], z_boolean] p x = Inr v"
  shows "\<exists>sv. v = embed_scalar sv"
proof -
  from assms consider s where "v = JStr s" | n where "v = JNum n" | b where "v = JBool b"
    by (auto simp: z_union_def z_string_def z_number_def z_boolean_def
        split: option.splits sum.splits json.splits)
  then show ?thesis
  proof cases
    case 1 then have "v = embed_scalar (String s)" by simp then show ?thesis ..
  next
    case 2 then have "v = embed_scalar (Number n)" by simp then show ?thesis ..
  next
    case 3 then have "v = embed_scalar (Boolean b)" by simp then show ?thesis ..
  qed
qed

lemma z_enum_Inr:
  assumes "z_enum options p x = Inr v"
  shows "\<exists>s. x = JStr s \<and> v = JStr s \<and> s \<in> set options"
  using assms by (auto simp: z_enum_def split: json.splits if_splits)

lemma QueryOperatorSchema_Inr:
  assumes "QueryOperatorSchema p x = Inr v"
  shows "\<exists>op sv. v = embed_value (Operator op sv)"
proof -
  let ?ops = "[''='', ''!='', ''>'', ''>='', ''<'', ''<='',
                   ''LIKE'', ''STARTSWITH'', ''ENDSWITH'', ''CONTAINS'',
                   ''IN'', ''NOT IN'', ''ISEMPTY'', ''ISNOTEMPTY'']"
  let ?u = "z_union [z_string, z_number [], z_boolean]"
  from assms obtain payload where x: "x = JObj payload"
    by (auto simp: QueryOperatorSchema_def elim: z_object_Inr)
  from assms obtain ov vv where
    o: "z_enum ?ops (p @ [Key ''operator'']) (lookup payload ''operator'') = Inr ov" and
    u: "?u (p @ [Key ''value'']) (lookup payload ''value'') = Inr vv" and
    v: "v = JObj ((if ov \<noteq> JUndefined \<or> ''operator'' \<in> fst ` set payload then [(''operator'', ov)] else [])
               @ (if vv \<noteq> JUndefined \<or> ''value'' \<in> fst ` set payload then [(''value'', vv)] else []))"
    by (auto simp: QueryOperatorSchema_def z_object_def x split: sum.splits if_splits)
  from z_enum_Inr[OF o] symbol_surj obtain op where ov: "ov = JStr (symbol op)" by blast
  from scalar_union_Inr[OF u] obtain sv where vv: "vv = embed_scalar sv" by blast
  have "vv \<noteq> JUndefined" using vv by (cases sv) simp_all
  with v ov vv have "v = embed_value (Operator op sv)" by simp
  then show ?thesis by blast
qed

lemma QueryValueSchema_Inr:
  assumes "QueryValueSchema p x = Inr v"
  shows "\<exists>fv. v = embed_value fv"
proof -
  from assms consider s where "v = JStr s" | n where "v = JNum n" | b where "v = JBool b"
    | "QueryOperatorSchema p x = Inr v"
    by (auto simp: QueryValueSchema_def z_union_def z_string_def z_number_def z_boolean_def
        split: option.splits sum.splits json.splits)
  then show ?thesis
  proof cases
    case 1 then have "v = embed_value (Literal (String s))" by simp then show ?thesis ..
  next
    case 2 then have "v = embed_value (Literal (Number n))" by simp then show ?thesis ..
  next
    case 3 then have "v = embed_value (Literal (Boolean b))" by simp then show ?thesis ..
  next
    case 4 then show ?thesis using QueryOperatorSchema_Inr by blast
  qed
qed

lemma parse_entries_QueryValueSchema:
  assumes "parse_entries QueryValueSchema p kvs = (True, issues, out)"
  shows "\<exists>f. JObj out = embed_filter f"
  using assms
proof (induction kvs arbitrary: issues out)
  case Nil
  then have "JObj out = embed_filter []" by (simp add: embed_filter_def)
  then show ?case ..
next
  case (Cons a kvs)
  obtain k x where a: "a = (k, x)" by (cases a)
  obtain b is' out' where r: "parse_entries QueryValueSchema p kvs = (b, is', out')"
    by (cases "parse_entries QueryValueSchema p kvs")
  from Cons.prems obtain v where v: "QueryValueSchema (p @ [Key k]) x = Inr v"
    and b: "b = True" and out: "out = (if k = ''__proto__'' then out' else (k, v) # out')"
    by (auto simp: a r split: sum.splits)
  from Cons.IH[of is' out'] r b obtain f where f: "JObj out' = embed_filter f" by auto
  from QueryValueSchema_Inr[OF v] obtain fv where fv: "v = embed_value fv" by blast
  show ?case
  proof (cases "k = ''__proto__''")
    case True
    with out f show ?thesis by auto
  next
    case False
    with out f fv have "JObj out = embed_filter ((k, fv) # f)" by (simp add: embed_filter_def)
    then show ?thesis ..
  qed
qed

lemma QueryFilterSchema_Inr:
  assumes "QueryFilterSchema p x = Inr flt"
  shows "(x = JUndefined \<and> flt = JUndefined) \<or> (\<exists>kvs f. x = JObj kvs \<and> flt = embed_filter f)"
proof (cases "x = JUndefined")
  case True
  with assms show ?thesis by (simp add: QueryFilterSchema_def z_optional_def)
next
  case False
  with assms obtain kvs issues out where "x = JObj kvs"
    "parse_entries QueryValueSchema p kvs = (True, issues, out)" "flt = JObj out"
    by (auto simp: QueryFilterSchema_def z_optional_def z_record_def
        split: json.splits prod.splits if_splits)
  with parse_entries_QueryValueSchema[of p kvs issues out] show ?thesis by auto
qed

lemma QueryFilterSchema_empty: "QueryFilterSchema p (JObj []) = Inr (JObj [])"
  by (simp add: QueryFilterSchema_def z_optional_def z_record_def)

lemma ToString_elements_strings: "ToString_elements rt (map JStr names) = Inr names"
  by (induction names) simp_all

lemma IncidentQuerySchema_Inr:
  assumes "parse IncidentQuerySchema args = Inr v"
  shows "\<exists>payload flt n. args = JObj payload
           \<and> QueryFilterSchema [Key ''filter''] (lookup payload ''filter'') = Inr flt
           \<and> get_prop rt v ''filter'' = Inr flt
           \<and> get_prop rt v ''limit'' = Inr (JNum n) \<and> 1 \<le> n
           \<and> get_prop rt v ''fields'' = Inr (lookup payload ''fields'')
           \<and> (lookup payload ''fields'' = JUndefined
                \<or> (\<exists>names. lookup payload ''fields'' = JArr (map JStr names)))"
proof -
  let ?lim = "z_default (z_number [Check_int, Check_min 1, Check_max 1000]) (JNum 100)"
  let ?shape = "[(''filter'', QueryFilterSchema), (''limit'', ?lim),
        (''fields'', z_optional (z_array z_string)), (''instance'', InstanceNameSchema)]"
  from assms have obj: "z_object ?shape False [] args = Inr v"
    by (simp add: parse_def IncidentQuerySchema_def)
  then obtain payload where args: "args = JObj payload" by (auto elim: z_object_Inr)
  note obj' = obj[unfolded args]
  have "\<exists>fv. QueryFilterSchema ([] @ [Key ''filter'']) (lookup payload ''filter'') = Inr fv
            \<and> get_prop rt v ''filter'' = Inr fv"
    by (rule z_object_field[OF obj']) simp_all
  then obtain flt where flt: "QueryFilterSchema [Key ''filter''] (lookup payload ''filter'') = Inr flt"
    "get_prop rt v ''filter'' = Inr flt" by auto
  have "\<exists>fv. ?lim ([] @ [Key ''limit'']) (lookup payload ''limit'') = Inr fv
            \<and> get_prop rt v ''limit'' = Inr fv"
    by (rule z_object_field[OF obj']) simp_all
  then obtain n where n: "get_prop rt v ''limit'' = Inr (JNum n)" "1 \<le> n"
    by (fastforce dest: limit_schema_Inr)
  have "\<exists>fv. z_optional (z_array z_string) ([] @ [Key ''fields''])
               (lookup payload ''fields'') = Inr fv \<and> get_prop rt v ''fields'' = Inr fv"
    by (rule z_object_field[OF obj']) simp_all
  then have f: "get_prop rt v ''fields'' = Inr (lookup payload ''fields'')"
    "lookup payload ''fields'' = JUndefined
       \<or> (\<exists>names. lookup payload ''fields'' = JArr (map JStr names))"
    by (auto dest: fields_schema_Inr)
  from args flt n f show ?thesis by blast
qed

lemma fields_param_validated:
  assumes "flds = JUndefined \<or> (\<exists>names. flds = JArr (map JStr names))"
  shows "\<exists>rest. (if ToBoolean flds
                  then and_then (call_join rt flds '','') (\<lambda>s. Inr [(''sysparm_fields'', JStr s)])
                  else Inr []) = Inr rest
              \<and> fst ` set rest \<subseteq> {''sysparm_fields''}"
  using assms by (auto simp: ToString_elements_strings)

lemma queryTable_params_validated:
  assumes "1 \<le> n" "flds = JUndefined \<or> (\<exists>names. flds = JArr (map JStr names))"
  shows "\<exists>rest. fst ` set rest \<subseteq> {''sysparm_fields''}
     \<and> queryTable_params rt JUndefined (Some (no_options\<lparr>opt_limit := JNum n, opt_fields := flds\<rparr>))
           = Inr ((''sysparm_limit'', JNum n) # rest)
     \<and> (\<forall>f. queryTable_params rt (embed_filter f)
                 (Some (no_options\<lparr>opt_limit := JNum n, opt_fields := flds\<rparr>))
           = Inr ((''sysparm_query'', JStr (serialize rt f)) # (''sysparm_limit'', JNum n) # rest))"
proof -
  have n: "n \<noteq> 0" using assms(1) by simp
  have e: "ToBoolean (embed_filter f)" for f by (simp add: embed_filter_def)
  from assms(2) show ?thesis
  proof
    assume "flds = JUndefined"
    then show ?thesis
      by (intro exI[of _ "[]"])
        (simp add: queryTable_params_def option_field_def no_options_def e n buildEncodedQuery_embed)
  next
    assume "\<exists>names. flds = JArr (map JStr names)"
    then obtain names where "flds = JArr (map JStr names)" ..
    then show ?thesis
      by (intro exI[of _ "[(''sysparm_fields'', JStr (join '','' names))]"])
        (simp add: queryTable_params_def option_field_def no_options_def e n
          buildEncodedQuery_embed ToString_elements_strings)
  qed
qed


lemma incidentQuery_run:
  assumes "parse IncidentQuerySchema (JObj payload) = Inr v"
  shows "\<exists>params.
     fst (snd (incidentQuery rt client (JObj payload) st)) = fst st @ [GET ''/table/incident'' params]
     \<and> (fst (axios_get_list (axiosInstance client) ''/table/incident'' params (snd st)) = Inr []
          \<longrightarrow> fst (incidentQuery rt client (JObj payload) st)
                = Inr ''No incidents found matching the criteria.'')
     \<and> (lookup payload ''filter'' = JUndefined \<longrightarrow> ''sysparm_query'' \<notin> fst ` set params)
     \<and> (lookup payload ''filter'' = JObj []
          \<longrightarrow> (\<exists>rest. params = (''sysparm_query'', JStr []) # rest))"
proof -
  from IncidentQuerySchema_Inr[OF assms, of rt] obtain flt n where
    q: "QueryFilterSchema [Key ''filter''] (lookup payload ''filter'') = Inr flt" and
    g: "get_prop rt v ''filter'' = Inr flt" "get_prop rt v ''limit'' = Inr (JNum n)"
       "get_prop rt v ''fields'' = Inr (lookup payload ''fields'')" and
    n: "1 \<le> n" and
    f: "lookup payload ''fields'' = JUndefined
         \<or> (\<exists>names. lookup payload ''fields'' = JArr (map JStr names))"
    by auto
  let ?opts = "no_options\<lparr>opt_limit := JNum n, opt_fields := lookup payload ''fields''\<rparr>"
  from queryTable_params_validated[OF n f, of rt] obtain rest where
    k: "fst ` set rest \<subseteq> {''sysparm_fields''}" and
    u: "queryTable_params rt JUndefined (Some ?opts) = Inr ((''sysparm_limit'', JNum n) # rest)" and
    e: "\<And>f. queryTable_params rt (embed_filter f) (Some ?opts)
          = Inr ((''sysparm_query'', JStr (serialize rt f)) # (''sysparm_limit'', JNum n) # rest)"
    by blast
  have nq: "''sysparm_query'' \<notin> fst ` set rest" using k by auto
  have run: "fst (snd (incidentQuery rt client (JObj payload) st))
               = fst st @ [GET ''/table/incident'' params]
     \<and> (fst (axios_get_list (axiosInstance client) ''/table/incident'' params (snd st)) = Inr []
          \<longrightarrow> fst (incidentQuery rt client (JObj payload) st)
                = Inr ''No incidents found matching the criteria.'')"
    if "queryTable_params rt flt (Some ?opts) = Inr params" for params
    using that
    by (cases "axios_get_list (axiosInstance client) ''/table/incident'' params (snd st)")
      (auto simp: incidentQuery_def assms g io_bind_def io_lift_def queryTable_def
        INCIDENT_TABLE_def Let_def split: sum.splits)
  from QueryFilterSchema_Inr[OF q] show ?thesis
  proof
    assume a: "lookup payload ''filter'' = JUndefined \<and> flt = JUndefined"
    show ?thesis
      by (rule exI[of _ "(''sysparm_limit'', JNum n) # rest"])
        (use a u nq run[of "(''sysparm_limit'', JNum n) # rest"] in auto)
  next
    assume "\<exists>kvs f. lookup payload ''filter'' = JObj kvs \<and> flt = embed_filter f"
    then obtain kvs f where a: "lookup payload ''filter'' = JObj kvs" "flt = embed_filter f"
      by blast
    have "f = []" if "kvs = []"
      using q a that by (simp add: QueryFilterSchema_empty embed_filter_def)
    then have s: "kvs = [] \<Longrightarrow> serialize rt f = []" by (simp add: serialize_def)
    let ?params = "(''sysparm_query'', JStr (serialize rt f)) # (''sysparm_limit'', JNum n) # rest"
    show ?thesis
      by (rule exI[of _ ?params]) (use a e[of f] run[of ?params] s in auto)
  qed
qed

lemma getRecord_params_validated:
  assumes "flds = JUndefined \<or> (\<exists>names. flds = JArr (map JStr names))"
  shows "\<exists>params. getRecord_params rt (Some (no_options\<lparr>opt_fields := flds\<rparr>)) = Inr params
           \<and> fst ` set params \<subseteq> {''sysparm_fields''}"
  using assms
  by (auto simp: getRecord_params_def option_field_def no_options_def ToString_elements_strings)

lemma number_filter: "JObj [(''number'', JStr s)] = embed_filter [(''number'', Literal (String s))]"
  by (simp add: embed_filter_def)

lemma lookup_params_validated:
  assumes "flds = JUndefined \<or> (\<exists>names. flds = JArr (map JStr names))"
  shows "\<exists>extra. queryTable_params rt (JObj [(''number'', JStr s)])
                  (Some (no_options\<lparr>opt_limit := JNum 1, opt_fields := flds\<rparr>))
                = Inr (lookup_params s extra)
           \<and> fst ` set extra \<subseteq> {''sysparm_fields''}"
proof -
  from queryTable_params_validated[of 1 flds rt] assms obtain rest where
    "fst ` set rest \<subseteq> {''sysparm_fields''}"
    "queryTable_params rt (embed_filter [(''number'', Literal (String s))])
       (Some (no_options\<lparr>opt_limit := JNum 1, opt_fields := flds\<rparr>))
     = Inr ((''sysparm_query'', JStr (serialize rt [(''number'', Literal (String s))]))
            # (''sysparm_limit'', JNum 1) # rest)"
    by auto
  then show ?thesis
    by (intro exI[of _ rest]) (simp add: number_filter lookup_params_def serialize_def)
qed

lemma incidentGet_by_sys_id:
  assumes "parse IncidentGetSchema (JObj payload) = Inr v" "lookup payload ''identifier'' = JStr s"
    "is_sys_id s"
  shows "\<exists>params. fst (snd (incidentGet rt client (JObj payload) st))
                    = fst st @ [GET (''/table/incident/'' @ s) params]
                 \<and> fst ` set params \<subseteq> {''sysparm_fields''}"
proof -
  from IncidentGetSchema_Inr[OF assms(1), of rt] assms(2) have
    g: "get_prop rt v ''identifier'' = Inr (JStr s)"
       "get_prop rt v ''fields'' = Inr (lookup payload ''fields'')" and
    f: "lookup payload ''fields'' = JUndefined
         \<or> (\<exists>names. lookup payload ''fields'' = JArr (map JStr names))"
    by auto
  from getRecord_params_validated[OF f, of rt] obtain params where
    p: "getRecord_params rt (Some (no_options\<lparr>opt_fields := lookup payload ''fields''\<rparr>)) = Inr params"
    and k: "fst ` set params \<subseteq> {''sysparm_fields''}" by blast
  have "fst (snd (incidentGet rt client (JObj payload) st))
          = fst st @ [GET (''/table/incident/'' @ s) params]"
    by (cases "axios_get_single (axiosInstance client) (''/table/incident/'' @ s) params (snd st)")
      (auto simp: incidentGet_def assms g p io_bind_def io_lift_def getRecord_def
        INCIDENT_TABLE_def Let_def split: sum.splits)
  with k show ?thesis by blast
qed

lemma incidentGet_by_number:
  assumes "parse IncidentGetSchema (JObj payload) = Inr v" "lookup payload ''identifier'' = JStr s"
    "\<not> is_sys_id s"
  shows "\<exists>extra. fst (snd (incidentGet rt client (JObj payload) st)) = fst st @ [lookup_request s extra]
           \<and> fst ` set extra \<subseteq> {''sysparm_fields''}
           \<and> (fst (axios_get_list (axiosInstance client) ''/table/incident''
                      (lookup_params s extra) (snd st)) = Inr []
                \<longrightarrow> fst (incidentGet rt client (JObj payload) st) = Inr (not_found_text s))"
proof -
  from IncidentGetSchema_Inr[OF assms(1), of rt] assms(2) have
    g: "get_prop rt v ''identifier'' = Inr (JStr s)"
       "get_prop rt v ''fields'' = Inr (lookup payload ''fields'')" and
    f: "lookup payload ''fields'' = JUndefined
         \<or> (\<exists>names. lookup payload ''fields'' = JArr (map JStr names))"
    by auto
  from lookup_params_validated[OF f, of rt s] obtain extra where
    p: "queryTable_params rt (JObj [(''number'', JStr s)])
          (Some (no_options\<lparr>opt_limit := JNum 1, opt_fields := lookup payload ''fields''\<rparr>))
        = Inr (lookup_params s extra)"
    and k: "fst ` set extra \<subseteq> {''sysparm_fields''}" by blast
  have "fst (snd (incidentGet rt client (JObj payload) st)) = fst st @ [lookup_request s extra]
        \<and> (fst (axios_get_list (axiosInstance client) ''/table/incident''
                      (lookup_params s extra) (snd st)) = Inr []
                \<longrightarrow> fst (incidentGet rt client (JObj payload) st) = Inr (not_found_text s))"
    by (cases "axios_get_list (axiosInstance client) ''/table/incident'' (lookup_params s extra) (snd st)")
      (auto simp: incidentGet_def assms g p io_bind_def io_lift_def queryTable_def lookup_request_def
        not_found_text_def INCIDENT_TABLE_def Let_def split: sum.splits list.splits)
  with k show ?thesis by blast
qed

lemma io_bind_lift_Inr: "io_bind (io_lift (Inr x)) f = f x"
  by (rule ext) (simp add: io_bind_def io_lift_def)

lemma io_bind_lift_Inl: "io_bind (io_lift (Inl e)) f = io_lift (Inl e)"
  by (rule ext) (simp add: io_bind_def io_lift_def)

lemma IncidentUpdateSchema_Inr:
  assumes "parse IncidentUpdateSchema args = Inr v"
  shows "\<exists>payload s validated. args = JObj payload \<and> v = JObj validated
           \<and> lookup payload ''identifier'' = JStr s \<and> s \<noteq> []
           \<and> get_prop rt v ''identifier'' = Inr (JStr s)"
proof -
  from assms obtain shape where
    obj: "z_object shape True [] args = Inr v" and
    d: "distinct (map fst shape)" and
    m: "(''identifier'', z_string_min 1 ''Identifier cannot be empty'') \<in> set shape"
    by (simp add: parse_def IncidentUpdateSchema_def)
  from obj obtain payload validated where args: "args = JObj payload" and v: "v = JObj validated"
    by (auto elim: z_object_Inr)
  have "\<exists>fv. z_string_min 1 ''Identifier cannot be empty'' ([] @ [Key ''identifier''])
               (lookup payload ''identifier'') = Inr fv \<and> get_prop rt v ''identifier'' = Inr fv"
    by (rule z_object_field[OF obj[unfolded args] d m])
  then obtain s where "lookup payload ''identifier'' = JStr s" "s \<noteq> []"
      "get_prop rt v ''identifier'' = Inr (JStr s)"
    by (fastforce dest: z_string_min_Inr)
  with args v show ?thesis by blast
qed

lemma lookup_params_sys_id_number:
  "queryTable_params rt (JObj [(''number'', JStr s)])
     (Some (no_options\<lparr>opt_limit := JNum 1, opt_fields := JArr [JStr ''sys_id'', JStr ''number'']\<rparr>))
   = Inr (lookup_params s [(''sysparm_fields'', JStr ''sys_id,number'')])"
  by (simp add: queryTable_params_def buildEncodedQuery_def query_part.simps option_field_def
      no_options_def lookup_params_def)

lemma incidentUpdate_by_sys_id:
  assumes "parse IncidentUpdateSchema (JObj payload) = Inr (JObj validated)"
    "lookup payload ''identifier'' = JStr s" "is_sys_id s"
  shows "fst (snd (incidentUpdate rt client (JObj payload) st))
         = fst st @ [PATCH (''/table/incident/'' @ s)
                       (JObj (filter (\<lambda>(k, x). k \<notin> {''identifier'', ''instance''}) validated))]"
proof -
  from IncidentUpdateSchema_Inr[OF assms(1), of rt] assms(2) have
    g: "lookup validated ''identifier'' = JStr s" by auto
  let ?body = "JObj (filter (\<lambda>(k, x). k \<notin> {''identifier'', ''instance''}) validated)"
  show ?thesis
    by (cases "axios_patch (axiosInstance client) (''/table/incident/'' @ s) ?body (snd st)")
      (auto simp: incidentUpdate_def assms g io_bind_def io_lift_def updateRecord_def rest_props_def
        INCIDENT_TABLE_def Let_def split: sum.splits)
qed

lemma incidentUpdate_by_number:
  assumes "parse IncidentUpdateSchema (JObj payload) = Inr (JObj validated)"
    "lookup payload ''identifier'' = JStr s" "\<not> is_sys_id s"
  shows "\<exists>after.
           fst (snd (incidentUpdate rt client (JObj payload) st))
             = fst st @ lookup_request s [(''sysparm_fields'', JStr ''sys_id,number'')] # after
         \<and> (after = [] \<or> (\<exists>url. after = [PATCH url
                 (JObj (filter (\<lambda>(k, x). k \<notin> {''identifier'', ''instance''}) validated))]))
         \<and> (fst (axios_get_list (axiosInstance client) ''/table/incident''
                   (lookup_params s [(''sysparm_fields'', JStr ''sys_id,number'')]) (snd st)) = Inr []
              \<longrightarrow> after = []
                  \<and> fst (incidentUpdate rt client (JObj payload) st) = Inr (not_found_text s))"
proof -
  from IncidentUpdateSchema_Inr[OF assms(1), of rt] assms(2) have
    g: "lookup validated ''identifier'' = JStr s" by auto
  let ?body = "JObj (filter (\<lambda>(k, x). k \<notin> {''identifier'', ''instance''}) validated)"
  let ?params = "lookup_params s [(''sysparm_fields'', JStr ''sys_id,number'')]"
  obtain a w where q: "axios_get_list (axiosInstance client) ''/table/incident'' ?params (snd st) = (a, w)"
    by (cases "axios_get_list (axiosInstance client) ''/table/incident'' ?params (snd st)")
  have start: "incidentUpdate rt client (JObj payload) st =
      io_bind (io_bind (queryTable rt client INCIDENT_TABLE (JObj [(''number'', JStr s)])
                (Some (no_options\<lparr>opt_limit := JNum 1,
                         opt_fields := JArr [JStr ''sys_id'', JStr ''number'']\<rparr>)))
              (\<lambda>results. case results of [] \<Rightarrow> io_lift (Inr None)
                 | incident # others \<Rightarrow>
                     io_bind (io_lift (get_prop rt incident ''sys_id'')) (\<lambda>sysId.
                       io_lift (Inr (Some sysId)))))
        (\<lambda>found. case found of
             None \<Rightarrow> io_lift (Inr (not_found_text s))
           | Some sysId \<Rightarrow>
               io_bind (updateRecord rt client INCIDENT_TABLE sysId ?body) (\<lambda>updatedIncident.
               io_bind (io_lift (get_prop rt updatedIncident ''number'')) (\<lambda>num.
               io_bind (io_lift (ToString rt num)) (\<lambda>num_text.
                 io_lift (Inr (check_mark @ '' Incident updated successfully!\<newline>\<newline>''
                               @ ''Incident Number: '' @ num_text
                               @ ''\<newline>\<newline>Updated Details:\<newline>''
                               @ JSON_stringify rt updatedIncident)))))) st"
    by (simp add: incidentUpdate_def assms g io_bind_lift_Inr rest_props_def not_found_text_def
        cong: option.case_cong list.case_cong)
  have qt: "queryTable rt client INCIDENT_TABLE (JObj [(''number'', JStr s)])
                (Some (no_options\<lparr>opt_limit := JNum 1,
                         opt_fields := JArr [JStr ''sys_id'', JStr ''number'']\<rparr>)) st
      = (case a of Inl err \<Rightarrow> (Inl (handleError rt (instanceUrl client) err (Inr ''queryTable(incident)'')),
                                 fst st @ [lookup_request s [(''sysparm_fields'', JStr ''sys_id,number'')]], w)
         | Inr results \<Rightarrow> (Inr results, fst st @ [lookup_request s [(''sysparm_fields'', JStr ''sys_id,number'')]], w))"
    by (simp add: queryTable_def lookup_params_sys_id_number q INCIDENT_TABLE_def lookup_request_def
        split: sum.splits)
  have upd: "\<exists>after. fst (snd (updateRecord rt client INCIDENT_TABLE sysId ?body st')) = fst st' @ after
          \<and> (after = [] \<or> (\<exists>url. after = [PATCH url ?body]))" for sysId st'
  proof (cases "ToString rt sysId")
    case (Inl e)
    then show ?thesis by (simp add: updateRecord_def)
  next
    case (Inr t)
    then show ?thesis
      by (cases "axios_patch (axiosInstance client) (''/table/incident/'' @ t) ?body (snd st')")
        (auto simp: updateRecord_def INCIDENT_TABLE_def split: sum.splits)
  qed
  show ?thesis
  proof (cases a)
    case (Inl err)
    then show ?thesis by (simp add: start qt io_bind_def q)
  next
    case (Inr results)
    show ?thesis
    proof (cases results)
      case Nil
      then show ?thesis by (simp add: start qt io_bind_def io_lift_def q Inr)
    next
      case (Cons incident others)
      show ?thesis
      proof (cases "get_prop rt incident ''sys_id''")
        case (Inl e)
        then show ?thesis by (simp add: start qt io_bind_def io_lift_def q Inr Cons)
      next
        case sysId: (Inr sysId)
        let ?st' = "(fst st @ [lookup_request s [(''sysparm_fields'', JStr ''sys_id,number'')]], w)"
        from upd[of sysId ?st'] obtain after where
          a: "fst (snd (updateRecord rt client INCIDENT_TABLE sysId ?body ?st')) = fst ?st' @ after"
          "after = [] \<or> (\<exists>url. after = [PATCH url ?body])" by blast
        have "fst (snd (incidentUpdate rt client (JObj payload) st))
              = fst (snd (updateRecord rt client INCIDENT_TABLE sysId ?body ?st'))"
          by (cases "updateRecord rt client INCIDENT_TABLE sysId ?body ?st'")
            (auto simp: start qt io_bind_def io_lift_def q Inr Cons sysId split: sum.splits)
        with a show ?thesis by (auto simp: q Inr Cons)
      qed
    qed
  qed
qed

lemma map_of_filter_keys:
  "map_of (filter (\<lambda>(k, x). P k) kvs) k = (if P k then map_of kvs k else None)"
  by (induction kvs) auto

lemma parse_shape_issues:
  "fst (snd (parse_shape shape p data))
   = concat (map (\<lambda>(k, sch). field_issues sch (p @ [Key k]) (lookup data k)) shape)"
  by (induction shape) (auto simp: field_issues_def split: prod.splits sum.splits)

lemma z_object_issues:
  assumes "parse (z_object shape passthrough) (JObj data) = Inl issues"
  shows "issues = shape_issues shape data"
  using assms parse_shape_issues[of shape "[]" data]
  by (auto simp: parse_def z_object_def shape_issues_def split: prod.splits if_splits)

lemma z_string_min_paths:
  assumes "i \<in> set (field_issues (z_string_min n msg) p x)"
  shows "path i = p"
  using assms
  by (auto simp: field_issues_def z_string_min_def invalid_type_def split: json.splits if_splits)

lemma InstanceNameSchema_paths:
  assumes "i \<in> set (field_issues InstanceNameSchema p x)"
  shows "path i = p"
  using assms
  by (auto simp: field_issues_def InstanceNameSchema_def z_optional_def z_enum_def invalid_type_def
      split: json.splits if_splits)

lemma confirm_schema_Inr:
  "z_refine z_boolean (\<lambda>val. val = JBool True) msg p x = Inr v \<longleftrightarrow> x = JBool True \<and> v = JBool True"
  by (auto simp: z_refine_def z_boolean_def split: json.splits sum.splits)

lemma confirm_schema_Inl:
  assumes "x \<noteq> JBool True"
  shows "\<exists>i. z_refine z_boolean (\<lambda>val. val = JBool True) msg p x = Inl [i] \<and> path i = p"
  using assms
  by (auto simp: z_refine_def z_boolean_def invalid_type_def split: json.splits sum.splits)

lemma IncidentDeleteSchema_unconfirmed:
  assumes "lookup payload ''confirm'' \<noteq> JBool True"
  shows "\<exists>issues. parse IncidentDeleteSchema (JObj payload) = Inl issues
           \<and> (\<exists>i \<in> set issues. path i = [Key ''confirm''])"
proof -
  let ?msg = "''Deletion requires explicit confirmation. Set confirm to true.''"
  let ?sch = "z_refine z_boolean (\<lambda>val. val = JBool True) ?msg"
  from confirm_schema_Inl[OF assms, of ?msg "[] @ [Key ''confirm'']"] obtain i where
    i: "?sch ([] @ [Key ''confirm'']) (lookup payload ''confirm'') = Inl [i]"
      "path i = [Key ''confirm'']" by auto
  have m: "(''confirm'', ?sch) \<in> set
       [(''identifier'', z_string_min 1 ''Identifier cannot be empty''),
        (''confirm'', ?sch), (''instance'', InstanceNameSchema)]" by simp
  from z_object_invalid[OF m i(1), of False] i(2)
  show ?thesis by (auto simp: parse_def IncidentDeleteSchema_def)
qed

lemma IncidentDeleteSchema_confirmed:
  assumes "lookup payload ''confirm'' = JBool True"
    "parse IncidentDeleteSchema (JObj payload) = Inl issues" "i \<in> set issues"
  shows "path i \<noteq> [Key ''confirm'']"
proof -
  let ?msg = "''Deletion requires explicit confirmation. Set confirm to true.''"
  have c: "field_issues (z_refine z_boolean (\<lambda>val. val = JBool True) ?msg) [Key ''confirm'']
             (JBool True) = []"
    by (simp add: field_issues_def z_refine_def z_boolean_def)
  from z_object_issues[OF assms(2)[unfolded IncidentDeleteSchema_def]]
  have "issues = field_issues (z_string_min 1 ''Identifier cannot be empty'') [Key ''identifier'']
                   (lookup payload ''identifier'')
                @ field_issues InstanceNameSchema [Key ''instance''] (lookup payload ''instance'')"
    by (simp add: shape_issues_def assms(1) c)
  with assms(3) z_string_min_paths InstanceNameSchema_paths show ?thesis
    by fastforce
qed

lemma IncidentDeleteSchema_Inr:
  assumes "parse IncidentDeleteSchema args = Inr v"
  shows "\<exists>payload s. args = JObj payload
           \<and> lookup payload ''identifier'' = JStr s \<and> s \<noteq> []
           \<and> get_prop rt v ''identifier'' = Inr (JStr s)
           \<and> lookup payload ''confirm'' = JBool True
           \<and> get_prop rt v ''confirm'' = Inr (JBool True)"
proof -
  let ?msg = "''Deletion requires explicit confirmation. Set confirm to true.''"
  let ?sch = "z_refine z_boolean (\<lambda>val. val = JBool True) ?msg"
  from assms obtain shape where
    obj: "z_object shape False [] args = Inr v" and
    d: "distinct (map fst shape)" and
    m: "(''identifier'', z_string_min 1 ''Identifier cannot be empty'') \<in> set shape" and
    c: "(''confirm'', ?sch) \<in> set shape"
    by (simp add: parse_def IncidentDeleteSchema_def)
  from obj obtain payload where args: "args = JObj payload"
    by (auto elim: z_object_Inr)
  have "\<exists>fv. z_string_min 1 ''Identifier cannot be empty'' ([] @ [Key ''identifier''])
               (lookup payload ''identifier'') = Inr fv \<and> get_prop rt v ''identifier'' = Inr fv"
    by (rule z_object_field[OF obj[unfolded args] d m])
  then obtain s where s: "lookup payload ''identifier'' = JStr s" "s \<noteq> []"
      "get_prop rt v ''identifier'' = Inr (JStr s)"
    by (fastforce dest: z_string_min_Inr)
  have "\<exists>fv. ?sch ([] @ [Key ''confirm'']) (lookup payload ''confirm'') = Inr fv
            \<and> get_prop rt v ''confirm'' = Inr fv"
    by (rule z_object_field[OF obj[unfolded args] d c])
  then have "lookup payload ''confirm'' = JBool True" "get_prop rt v ''confirm'' = Inr (JBool True)"
    by (auto simp: confirm_schema_Inr)
  with args s show ?thesis by blast
qed

lemma getRecord_params_sys_id_number:
  "getRecord_params rt (Some (no_options\<lparr>opt_fields := JArr [JStr ''sys_id'', JStr ''number'']\<rparr>))
   = Inr [(''sysparm_fields'', JStr ''sys_id,number'')]"
  by (simp add: getRecord_params_def option_field_def no_options_def)

lemma deleteRecord_log:
  "\<exists>after. fst (snd (deleteRecord rt client INCIDENT_TABLE sysId st)) = fst st @ after
      \<and> (after = [] \<or> (\<exists>url. after = [DELETE url]))
      \<and> (\<forall>k. sysId = JStr k \<longrightarrow> after = [DELETE (''/table/incident/'' @ k)])"
proof (cases "ToString rt sysId")
  case (Inl e)
  then show ?thesis by (cases sysId) (auto simp: deleteRecord_def)
next
  case (Inr t)
  then show ?thesis
    by (cases "axios_delete (axiosInstance client) (''/table/incident/'' @ t) (snd st)")
      (auto simp: deleteRecord_def INCIDENT_TABLE_def split: sum.splits)
qed

lemma incidentDelete_found:
  assumes "get_prop rt incident ''sys_id'' = Inr sysId"
  shows "\<exists>after.
     fst (snd (io_bind
        (io_bind (io_lift (get_prop rt incident ''sys_id'')) (\<lambda>sysId.
         io_bind (io_lift (get_prop rt incident ''number'')) (\<lambda>incidentNumber.
           io_lift (Inr (Some (sysId, incidentNumber))))))
        (\<lambda>found. case found of
             None \<Rightarrow> io_lift (Inr (not_found_text s))
           | Some (sysId, incidentNumber) \<Rightarrow>
               io_bind (deleteRecord rt client INCIDENT_TABLE sysId) (\<lambda>u.
               io_bind (io_lift (ToString rt incidentNumber)) (\<lambda>number_text.
                 io_lift (Inr (check_mark @ '' Incident '' @ number_text
                               @ '' deleted successfully.''))))) st)) = fst st @ after
      \<and> (after = [] \<or> (\<exists>url. after = [DELETE url]))
      \<and> (\<forall>k. sysId = JStr k \<longrightarrow> after = [DELETE (''/table/incident/'' @ k)])"
proof (cases "get_prop rt incident ''number''")
  case (Inl e)
  with assms show ?thesis
    by (cases incident) (auto simp: throw_TypeError_def)
next
  case (Inr num)
  from deleteRecord_log[of rt client sysId st] obtain after where
    a: "fst (snd (deleteRecord rt client INCIDENT_TABLE sysId st)) = fst st @ after"
       "after = [] \<or> (\<exists>url. after = [DELETE url])"
       "\<forall>k. sysId = JStr k \<longrightarrow> after = [DELETE (''/table/incident/'' @ k)]" by blast
  have "fst (snd (io_bind
        (io_bind (io_lift (get_prop rt incident ''sys_id'')) (\<lambda>sysId.
         io_bind (io_lift (get_prop rt incident ''number'')) (\<lambda>incidentNumber.
           io_lift (Inr (Some (sysId, incidentNumber))))))
        (\<lambda>found. case found of
             None \<Rightarrow> io_lift (Inr (not_found_text s))
           | Some (sysId, incidentNumber) \<Rightarrow>
               io_bind (deleteRecord rt client INCIDENT_TABLE sysId) (\<lambda>u.
               io_bind (io_lift (ToString rt incidentNumber)) (\<lambda>number_text.
                 io_lift (Inr (check_mark @ '' Incident '' @ number_text
                               @ '' deleted successfully.''))))) st))
      = fst (snd (deleteRecord rt client INCIDENT_TABLE sysId st))"
    by (cases "deleteRecord rt client INCIDENT_TABLE sysId st")
      (auto simp: io_bind_def io_lift_def assms Inr split: sum.splits)
  with a show ?thesis by auto
qed


lemma io_bind_assoc: "io_bind (io_bind m f) g = io_bind m (\<lambda>x. io_bind (f x) g)"
  by (rule ext) (auto simp: io_bind_def split: prod.splits sum.splits)

lemma io_bind_Inr:
  assumes "m st = (Inr x, st')"
  shows "io_bind m f st = f x st'"
  using assms by (simp add: io_bind_def)

lemma io_bind_Inl:
  assumes "m st = (Inl e, st')"
  shows "io_bind m f st = (Inl e, st')"
  using assms by (simp add: io_bind_def)

lemma incidentDelete_start:
  assumes "parse IncidentDeleteSchema (JObj payload) = Inr v"
    "lookup payload ''identifier'' = JStr s"
  shows "incidentDelete rt client (JObj payload) =
     io_bind
       (if is_sys_id s
        then io_bind (getRecord rt client INCIDENT_TABLE (JStr s)
                        (Some (no_options\<lparr>opt_fields := JArr [JStr ''sys_id'', JStr ''number'']\<rparr>)))
               (\<lambda>incident.
             io_bind (io_lift (get_prop rt incident ''sys_id'')) (\<lambda>sysId.
             io_bind (io_lift (get_prop rt incident ''number'')) (\<lambda>incidentNumber.
               io_lift (Inr (Some (sysId, incidentNumber))))))
        else io_bind (queryTable rt client INCIDENT_TABLE (JObj [(''number'', JStr s)])
                        (Some (no_options\<lparr>opt_limit := JNum 1,
                                 opt_fields := JArr [JStr ''sys_id'', JStr ''number'']\<rparr>)))
               (\<lambda>results.
                  case results of
                    [] \<Rightarrow> io_lift (Inr None)
                  | incident # others \<Rightarrow>
                      io_bind (io_lift (get_prop rt incident ''sys_id'')) (\<lambda>sysId.
                      io_bind (io_lift (get_prop rt incident ''number'')) (\<lambda>incidentNumber.
                        io_lift (Inr (Some (sysId, incidentNumber)))))))
       (\<lambda>found. case found of
             None \<Rightarrow> io_lift (Inr (not_found_text s))
           | Some (sysId, incidentNumber) \<Rightarrow>
               io_bind (deleteRecord rt client INCIDENT_TABLE sysId) (\<lambda>u.
               io_bind (io_lift (ToString rt incidentNumber)) (\<lambda>number_text.
                 io_lift (Inr (check_mark @ '' Incident '' @ number_text
                               @ '' deleted successfully.'')))))"
proof -
  from IncidentDeleteSchema_Inr[OF assms(1), of rt] assms(2) have
    g: "get_prop rt v ''identifier'' = Inr (JStr s)" "get_prop rt v ''confirm'' = Inr (JBool True)"
    by auto
  show ?thesis
    by (simp add: incidentDelete_def assms g io_bind_lift_Inr not_found_text_def
        cong: option.case_cong list.case_cong if_cong)
qed

lemma incidentDelete_by_sys_id:
  assumes "parse IncidentDeleteSchema (JObj payload) = Inr v"
    "lookup payload ''identifier'' = JStr s" "is_sys_id s"
  shows "\<exists>after.
           fst (snd (incidentDelete rt client (JObj payload) st))
             = fst st @ GET (''/table/incident/'' @ s) [(''sysparm_fields'', JStr ''sys_id,number'')]
                        # after
         \<and> (after = [] \<or> (\<exists>url. after = [DELETE url]))
         \<and> (\<forall>fields k.
               fst (axios_get_single (axiosInstance client) (''/table/incident/'' @ s)
                      [(''sysparm_fields'', JStr ''sys_id,number'')] (snd st)) = Inr (JObj fields)
               \<and> lookup fields ''sys_id'' = JStr k
               \<longrightarrow> after = [DELETE (''/table/incident/'' @ k)])"
proof -
  let ?params = "[(''sysparm_fields'', JStr ''sys_id,number'')]"
  let ?url = "''/table/incident/'' @ s"
  obtain a w where q: "axios_get_single (axiosInstance client) ?url ?params (snd st) = (a, w)"
    by (cases "axios_get_single (axiosInstance client) ?url ?params (snd st)")
  note q' = q[simplified]
  let ?get = "getRecord rt client INCIDENT_TABLE (JStr s)
              (Some (no_options\<lparr>opt_fields := JArr [JStr ''sys_id'', JStr ''number'']\<rparr>))"
  let ?st' = "(fst st @ [GET ?url ?params], w)"
  have gr: "getRecord rt client INCIDENT_TABLE (JStr s)
              (Some (no_options\<lparr>opt_fields := JArr [JStr ''sys_id'', JStr ''number'']\<rparr>)) st
      = (case a of
           Inl err \<Rightarrow> (Inl (handleError rt (instanceUrl client) err
                               (Inr (''getRecord(incident, '' @ s @ '')''))), ?st')
         | Inr r \<Rightarrow> (Inr r, ?st'))"
    by (simp add: getRecord_def getRecord_params_sys_id_number q' INCIDENT_TABLE_def
        split: sum.splits)
  note start = incidentDelete_start[OF assms(1,2), of rt client, unfolded if_P[OF assms(3)]
      io_bind_assoc]
  show ?thesis
  proof (cases a)
    case (Inl err)
    with gr have fail: "?get st
        = (Inl (handleError rt (instanceUrl client) err
                               (Inr (''getRecord(incident, '' @ s @ '')''))), ?st')" by simp
    have "incidentDelete rt client (JObj payload) st
        = (Inl (handleError rt (instanceUrl client) err
                               (Inr (''getRecord(incident, '' @ s @ '')''))), ?st')"
      unfolding start by (rule io_bind_Inl[of ?get st, OF fail])
    then show ?thesis by (simp add: q' Inl)
  next
    case (Inr incident)
    with gr have g: "getRecord rt client INCIDENT_TABLE (JStr s)
              (Some (no_options\<lparr>opt_fields := JArr [JStr ''sys_id'', JStr ''number'']\<rparr>)) st
        = (Inr incident, ?st')" by simp
    show ?thesis
    proof (cases "get_prop rt incident ''sys_id''")
      case e: (Inl e)
      then have "\<And>fields. incident \<noteq> JObj fields" by auto
      moreover have "incidentDelete rt client (JObj payload) st = (Inl e, ?st')"
        unfolding start io_bind_Inr[of ?get st, OF g] e
        by (simp add: io_bind_lift_Inl io_lift_def)
      ultimately show ?thesis by (simp add: q' Inr)
    next
      case sysId: (Inr sysId)
      from incidentDelete_found[OF sysId, where client=client and s=s and st="?st'"] obtain after where
        a: "fst (snd (io_bind
        (io_bind (io_lift (get_prop rt incident ''sys_id'')) (\<lambda>sysId.
         io_bind (io_lift (get_prop rt incident ''number'')) (\<lambda>incidentNumber.
           io_lift (Inr (Some (sysId, incidentNumber))))))
        (\<lambda>found. case found of
             None \<Rightarrow> io_lift (Inr (not_found_text s))
           | Some (sysId, incidentNumber) \<Rightarrow>
               io_bind (deleteRecord rt client INCIDENT_TABLE sysId) (\<lambda>u.
               io_bind (io_lift (ToString rt incidentNumber)) (\<lambda>number_text.
                 io_lift (Inr (check_mark @ '' Incident '' @ number_text
                               @ '' deleted successfully.''))))) ?st')) = fst ?st' @ after"
        and b: "after = [] \<or> (\<exists>url. after = [DELETE url])"
        and c: "\<forall>k. sysId = JStr k \<longrightarrow> after = [DELETE (''/table/incident/'' @ k)]"
        by blast
      have "fst (snd (incidentDelete rt client (JObj payload) st)) = fst ?st' @ after"
        unfolding start io_bind_Inr[of ?get st, OF g] using a by (simp only: io_bind_assoc)
      moreover have "\<forall>fields k. a = Inr (JObj fields) \<and> lookup fields ''sys_id'' = JStr k
               \<longrightarrow> after = [DELETE (''/table/incident/'' @ k)]"
        using c sysId Inr by auto
      ultimately show ?thesis using b by (simp add: q')
    qed
  qed
qed


lemma incidentDelete_by_number:
  assumes "parse IncidentDeleteSchema (JObj payload) = Inr v"
    "lookup payload ''identifier'' = JStr s" "\<not> is_sys_id s"
  shows "\<exists>after.
           fst (snd (incidentDelete rt client (JObj payload) st))
             = fst st @ lookup_request s [(''sysparm_fields'', JStr ''sys_id,number'')] # after
         \<and> (after = [] \<or> (\<exists>url. after = [DELETE url]))
         \<and> (fst (axios_get_list (axiosInstance client) ''/table/incident''
                   (lookup_params s [(''sysparm_fields'', JStr ''sys_id,number'')]) (snd st)) = Inr []
              \<longrightarrow> after = []
                  \<and> fst (incidentDelete rt client (JObj payload) st) = Inr (not_found_text s))
         \<and> (\<forall>fields others k.
               fst (axios_get_list (axiosInstance client) ''/table/incident''
                      (lookup_params s [(''sysparm_fields'', JStr ''sys_id,number'')]) (snd st))
                 = Inr (JObj fields # others)
               \<and> lookup fields ''sys_id'' = JStr k
               \<longrightarrow> after = [DELETE (''/table/incident/'' @ k)])"
proof -
  let ?params = "lookup_params s [(''sysparm_fields'', JStr ''sys_id,number'')]"
  let ?req = "lookup_request s [(''sysparm_fields'', JStr ''sys_id,number'')]"
  obtain a w where q: "axios_get_list (axiosInstance client) ''/table/incident'' ?params (snd st) = (a, w)"
    by (cases "axios_get_list (axiosInstance client) ''/table/incident'' ?params (snd st)")
  let ?st' = "(fst st @ [?req], w)"
  let ?query = "queryTable rt client INCIDENT_TABLE (JObj [(''number'', JStr s)])
                (Some (no_options\<lparr>opt_limit := JNum 1,
                         opt_fields := JArr [JStr ''sys_id'', JStr ''number'']\<rparr>))"
  have qt: "?query st
      = (case a of
           Inl err \<Rightarrow> (Inl (handleError rt (instanceUrl client) err (Inr ''queryTable(incident)'')),
                       ?st')
         | Inr results \<Rightarrow> (Inr results, ?st'))"
    by (simp add: queryTable_def lookup_params_sys_id_number q INCIDENT_TABLE_def lookup_request_def
        split: sum.splits)
  note start = incidentDelete_start[OF assms(1,2), of rt client, unfolded if_not_P[OF assms(3)]
      io_bind_assoc]
  show ?thesis
  proof (cases a)
    case (Inl err)
    with qt have fail: "?query st
        = (Inl (handleError rt (instanceUrl client) err (Inr ''queryTable(incident)'')), ?st')"
      by simp
    have "incidentDelete rt client (JObj payload) st
        = (Inl (handleError rt (instanceUrl client) err (Inr ''queryTable(incident)'')), ?st')"
      unfolding start by (rule io_bind_Inl[of ?query st, OF fail])
    then show ?thesis by (simp add: q Inl)
  next
    case (Inr results)
    with qt have g: "?query st = (Inr results, ?st')" by simp
    show ?thesis
    proof (cases results)
      case Nil
      have "incidentDelete rt client (JObj payload) st = (Inr (not_found_text s), ?st')"
        unfolding start io_bind_Inr[of ?query st, OF g] Nil
        by (simp add: io_bind_lift_Inr io_lift_def)
      then show ?thesis by (simp add: q Inr Nil)
    next
      case (Cons incident others)
      show ?thesis
      proof (cases "get_prop rt incident ''sys_id''")
        case e: (Inl e)
        then have "\<And>fields. incident \<noteq> JObj fields" by auto
        moreover have "incidentDelete rt client (JObj payload) st = (Inl e, ?st')"
          unfolding start io_bind_Inr[of ?query st, OF g] Cons
          by (simp add: e io_bind_lift_Inl io_lift_def)
        ultimately show ?thesis by (simp add: q Inr Cons)
      next
        case sysId: (Inr sysId)
        from incidentDelete_found[OF sysId, where client=client and s=s and st="?st'"]
        obtain after where
          a: "fst (snd (io_bind
          (io_bind (io_lift (get_prop rt incident ''sys_id'')) (\<lambda>sysId.
           io_bind (io_lift (get_prop rt incident ''number'')) (\<lambda>incidentNumber.
             io_lift (Inr (Some (sysId, incidentNumber))))))
          (\<lambda>found. case found of
               None \<Rightarrow> io_lift (Inr (not_found_text s))
             | Some (sysId, incidentNumber) \<Rightarrow>
                 io_bind (deleteRecord rt client INCIDENT_TABLE sysId) (\<lambda>u.
                 io_bind (io_lift (ToString rt incidentNumber)) (\<lambda>number_text.
                   io_lift (Inr (check_mark @ '' Incident '' @ number_text
                                 @ '' deleted successfully.''))))) ?st')) = fst ?st' @ after"
          and b: "after = [] \<or> (\<exists>url. after = [DELETE url])"
          and c: "\<forall>k. sysId = JStr k \<longrightarrow> after = [DELETE (''/table/incident/'' @ k)]"
          by blast
        have "fst (snd (incidentDelete rt client (JObj payload) st)) = fst ?st' @ after"
          unfolding start io_bind_Inr[of ?query st, OF g] Cons using a
          by (simp only: io_bind_assoc list.case)
        moreover have "\<forall>fields others k. a = Inr (JObj fields # others)
                 \<and> lookup fields ''sys_id'' = JStr k
                 \<longrightarrow> after = [DELETE (''/table/incident/'' @ k)]"
          using c sysId Inr Cons by auto
        ultimately show ?thesis using b by (simp add: q Inr Cons)
      qed
    qed
  qed
qed

lemma singleI:
  assumes "\<And>p x e. sch p x = Inl e \<Longrightarrow> \<exists>c. e = [\<lparr>path = p, kind = c\<rparr>]"
  shows "single sch"
  unfolding single_def using assms by (auto split: sum.splits)

lemma singleD:
  assumes "single sch" "sch p x = Inl e"
  shows "\<exists>c. e = [\<lparr>path = p, kind = c\<rparr>]"
  using assms(1)[unfolded single_def, rule_format, of p x] assms(2) by simp

lemma single_z_string: "single z_string"
  by (rule singleI) (auto simp: z_string_def invalid_type_def split: json.splits)

lemma single_z_string_min: "single (z_string_min n msg)"
  by (rule singleI) (auto simp: z_string_min_def invalid_type_def split: json.splits if_splits)

lemma single_z_boolean: "single z_boolean"
  by (rule singleI) (auto simp: z_boolean_def invalid_type_def split: json.splits)

lemma single_z_enum: "single (z_enum options)"
  by (rule singleI) (auto simp: z_enum_def split: json.splits if_splits)

lemma single_z_union: "single (z_union options)"
  by (rule singleI) (auto simp: z_union_def split: option.splits)

lemma single_z_refine:
  assumes "single sch"
  shows "single (z_refine sch check msg)"
  by (rule singleI) (auto simp: z_refine_def split: sum.splits if_splits dest: singleD[OF assms])

lemma single_z_transform:
  assumes "single sch"
  shows "single (z_transform sch f)"
  by (rule singleI) (auto simp: z_transform_def split: sum.splits json.splits dest: singleD[OF assms])

lemma single_z_optional:
  assumes "single sch"
  shows "single (z_optional sch)"
  by (rule singleI) (auto simp: z_optional_def split: if_splits dest: singleD[OF assms])

lemmas single_intros =
  single_z_string single_z_string_min single_z_boolean single_z_enum single_z_union
  single_z_refine single_z_transform single_z_optional

lemma single_enums:
  "single InstanceNameSchema" "single IncidentStateEnum" "single IncidentPriorityEnum"
  "single IncidentUrgencyEnum" "single QueryValueSchema"
  by (simp_all add: InstanceNameSchema_def IncidentStateEnum_def IncidentPriorityEnum_def
      IncidentUrgencyEnum_def QueryValueSchema_def single_intros)

lemma single_field_issues:
  assumes "single sch"
  shows "field_issues sch p x = [] \<and> \<not> violated sch p x
         \<or> (\<exists>c. field_issues sch p x = [\<lparr>path = p, kind = c\<rparr>])"
  using singleD[OF assms, of p x]
  by (cases "sch p x") (auto simp: field_issues_def violated_def)

lemma single_marks:
  assumes "single sch"
  shows "marks k sch x \<and> distinct (map path (field_issues sch [Key k] x))"
  using single_field_issues[OF assms, of "[Key k]" x]
  by (auto simp: marks_def on_key_def)


lemma run_checks_paths:
  assumes "i \<in> set (run_checks p n checks)"
  shows "path i = p"
  using assms by (induction p n checks rule: run_checks.induct) (auto split: if_splits)

lemma limit_marks:
  "marks k (z_default (z_number [Check_int, Check_min 1, Check_max 1000]) (JNum 100)) x"
  by (cases x)
    (auto simp: marks_def violated_def field_issues_def z_default_def z_number_def on_key_def
      invalid_type_def Let_def dest: run_checks_paths split: if_splits)

lemma limit_distinct:
  assumes "\<forall>n. x = JNum n \<and> isInteger n \<longrightarrow> isSafeInteger n"
  shows "distinct (map path (field_issues
           (z_default (z_number [Check_int, Check_min 1, Check_max 1000]) (JNum 100)) p x))"
  using assms
  by (cases x) (auto simp: field_issues_def z_default_def z_number_def Let_def)

lemma parse_items_issues:
  assumes "single sch" "parse_items sch p i xs = (valid, issues, vs)"
  shows "(\<not> valid \<longrightarrow> issues \<noteq> [])
       \<and> (\<forall>e \<in> set issues. \<exists>j. i \<le> j \<and> path e = p @ [Index j])
       \<and> distinct (map path issues)"
  using assms(2)
proof (induction xs arbitrary: i valid issues vs)
  case Nil
  then show ?case by simp
next
  case (Cons x xs)
  obtain b is' vs' where r: "parse_items sch p (Suc i) xs = (b, is', vs')"
    by (cases "parse_items sch p (Suc i) xs")
  from Cons.IH[OF r] have
    ih1: "\<not> b \<longrightarrow> is' \<noteq> []" and
    ih2: "\<And>e. e \<in> set is' \<Longrightarrow> \<exists>j. Suc i \<le> j \<and> path e = p @ [Index j]" and
    ih3: "distinct (map path is')" by auto
  have weaker: "\<exists>j. i \<le> j \<and> path e = p @ [Index j]" if "e \<in> set is'" for e
    using ih2[OF that] by (auto intro: Suc_leD)
  show ?case
  proof (cases "sch (p @ [Index i]) x")
    case (Inl e)
    from singleD[OF assms(1) Inl] obtain c where e: "e = [\<lparr>path = p @ [Index i], kind = c\<rparr>]" ..
    from Cons.prems Inl r have v: "valid = False" and iss: "issues = e @ is'" by simp_all
    have fresh: "p @ [Index i] \<notin> path ` set is'"
    proof
      assume "p @ [Index i] \<in> path ` set is'"
      then obtain e' where "e' \<in> set is'" "path e' = p @ [Index i]" by auto
      with ih2[of e'] show False by auto
    qed
    have "\<forall>e \<in> set issues. \<exists>j. i \<le> j \<and> path e = p @ [Index j]"
      unfolding iss e using weaker by auto
    moreover have "distinct (map path issues)"
      unfolding iss e using ih3 fresh by simp
    moreover have "issues \<noteq> []" unfolding iss e by simp
    ultimately show ?thesis by simp
  next
    case (Inr v)
    with Cons.prems r have "valid = b" "issues = is'" by simp_all
    with ih1 ih3 weaker show ?thesis by simp
  qed
qed

lemma parse_entries_issues:
  assumes "single sch" "parse_entries sch p kvs = (valid, issues, out)"
  shows "(\<not> valid \<longrightarrow> issues \<noteq> [])
       \<and> (\<forall>e \<in> set issues. \<exists>k \<in> fst ` set kvs. path e = p @ [Key k])
       \<and> (distinct (map fst kvs) \<longrightarrow> distinct (map path issues))"
  using assms(2)
proof (induction kvs arbitrary: valid issues out)
  case Nil
  then show ?case by simp
next
  case (Cons kv kvs)
  obtain k x where kv: "kv = (k, x)" by (cases kv)
  obtain b is' out' where r: "parse_entries sch p kvs = (b, is', out')"
    by (cases "parse_entries sch p kvs")
  from Cons.IH[OF r] have
    ih1: "\<not> b \<longrightarrow> is' \<noteq> []" and
    ih2: "\<And>e. e \<in> set is' \<Longrightarrow> \<exists>k \<in> fst ` set kvs. path e = p @ [Key k]" and
    ih3: "distinct (map fst kvs) \<longrightarrow> distinct (map path is')" by auto
  have weaker: "\<exists>k' \<in> fst ` set (kv # kvs). path e = p @ [Key k']" if "e \<in> set is'" for e
    using ih2[OF that] by auto
  show ?case
  proof (cases "sch (p @ [Key k]) x")
    case (Inl e)
    from singleD[OF assms(1) Inl] obtain c where e: "e = [\<lparr>path = p @ [Key k], kind = c\<rparr>]" ..
    from Cons.prems Inl r kv have v: "valid = False" and iss: "issues = e @ is'" by simp_all
    have fresh: "p @ [Key k] \<notin> path ` set is'" if "k \<notin> fst ` set kvs"
    proof
      assume "p @ [Key k] \<in> path ` set is'"
      then obtain e' where "e' \<in> set is'" "path e' = p @ [Key k]" by auto
      with ih2[of e'] that show False by auto
    qed
    have "\<forall>e \<in> set issues. \<exists>k' \<in> fst ` set (kv # kvs). path e = p @ [Key k']"
      unfolding iss e using weaker kv by auto
    moreover have "distinct (map fst (kv # kvs)) \<longrightarrow> distinct (map path issues)"
      unfolding iss e using ih3 fresh kv by simp
    moreover have "issues \<noteq> []" unfolding iss e by simp
    ultimately show ?thesis by simp
  next
    case (Inr v)
    with Cons.prems r kv have "valid = b" "issues = is'" by simp_all
    with ih1 ih3 weaker show ?thesis by simp
  qed
qed

lemma fields_marks:
  "marks k (z_optional (z_array z_string)) x
   \<and> distinct (map path (field_issues (z_optional (z_array z_string)) [Key k] x))"
proof (cases x)
  case (JArr xs)
  obtain valid issues vs where r: "parse_items z_string [Key k] 0 xs = (valid, issues, vs)"
    by (cases "parse_items z_string [Key k] 0 xs")
  from parse_items_issues[OF single_z_string r] JArr r show ?thesis
    by (auto simp: marks_def violated_def field_issues_def z_optional_def z_array_def on_key_def)
qed (auto simp: marks_def violated_def field_issues_def z_optional_def z_array_def on_key_def
      invalid_type_def)

lemma filter_marks:
  "marks k QueryFilterSchema x
   \<and> ((\<forall>kvs. x = JObj kvs \<longrightarrow> distinct (map fst kvs))
        \<longrightarrow> distinct (map path (field_issues QueryFilterSchema [Key k] x)))"
proof (cases x)
  case (JObj kvs)
  obtain valid issues out where r: "parse_entries QueryValueSchema [Key k] kvs = (valid, issues, out)"
    by (cases "parse_entries QueryValueSchema [Key k] kvs")
  from parse_entries_issues[OF single_enums(5) r] JObj r show ?thesis
    by (auto simp: marks_def violated_def field_issues_def QueryFilterSchema_def z_optional_def
        z_record_def on_key_def)
qed (auto simp: marks_def violated_def field_issues_def QueryFilterSchema_def z_optional_def
      z_record_def on_key_def invalid_type_def)

lemma shape_issues_Cons:
  "shape_issues ((k, sch) # shape) data
   = field_issues sch [Key k] (lookup data k) @ shape_issues shape data"
  by (simp add: shape_issues_def)

lemma shape_issues_on_key:
  assumes "\<forall>(k, sch) \<in> set shape. marks k sch (lookup data k)" "i \<in> set (shape_issues shape data)"
  shows "\<exists>k \<in> fst ` set shape. on_key k i"
  using assms by (induction shape) (auto simp: shape_issues_def marks_def)

lemma shape_issues_marked:
  assumes "\<forall>(k, sch) \<in> set shape. marks k sch (lookup data k)"
    "(k, sch) \<in> set shape" "violated sch [Key k] (lookup data k)"
  shows "\<exists>i \<in> set (shape_issues shape data). on_key k i"
proof -
  from assms(1,2) have m: "marks k sch (lookup data k)" by auto
  with assms(3) obtain i where i: "i \<in> set (field_issues sch [Key k] (lookup data k))"
    "on_key k i"
    unfolding marks_def by (cases "field_issues sch [Key k] (lookup data k)") auto
  from i(1) assms(2) have "i \<in> set (shape_issues shape data)"
    by (force simp: shape_issues_def)
  with i(2) show ?thesis ..
qed

lemma on_key_unique:
  assumes "on_key k i" "on_key k' j" "path i = path j"
  shows "k = k'"
  using assms by (auto simp: on_key_def split: list.splits path_seg.splits)

lemma shape_issues_distinct:
  assumes "distinct (map fst shape)"
    "\<forall>(k, sch) \<in> set shape. marks k sch (lookup data k)
         \<and> distinct (map path (field_issues sch [Key k] (lookup data k)))"
  shows "distinct (map path (shape_issues shape data))"
  using assms
proof (induction shape)
  case Nil
  then show ?case by (simp add: shape_issues_def)
next
  case (Cons a shape)
  obtain k sch where a: "a = (k, sch)" by (cases a)
  from Cons.prems a have k: "k \<notin> fst ` set shape" and d: "distinct (map fst shape)"
    and m: "marks k sch (lookup data k)"
    and f: "distinct (map path (field_issues sch [Key k] (lookup data k)))"
    and rest: "\<forall>(k, sch) \<in> set shape. marks k sch (lookup data k)
         \<and> distinct (map path (field_issues sch [Key k] (lookup data k)))"
    by auto
  from rest have rest_marks: "\<forall>(k, sch) \<in> set shape. marks k sch (lookup data k)" by auto
  have disjoint: "path i \<noteq> path j"
    if "i \<in> set (field_issues sch [Key k] (lookup data k))" "j \<in> set (shape_issues shape data)"
    for i j
  proof
    assume eq: "path i = path j"
    from m that(1) have "on_key k i" by (simp add: marks_def)
    moreover from shape_issues_on_key[OF rest_marks that(2)] obtain k' where
      "k' \<in> fst ` set shape" "on_key k' j" ..
    ultimately show False using on_key_unique[OF _ _ eq] k by blast
  qed
  from Cons.IH[OF d rest] f disjoint show ?case
    by (auto simp: a shape_issues_Cons)
qed

lemma single_marks_simps:
  assumes "single sch"
  shows "marks k sch x" "distinct (map path (field_issues sch [Key k] x))"
  using single_marks[OF assms, of k x] by simp_all

lemma object_issues:
  assumes "distinct (map fst shape)"
    and "\<And>data. \<forall>(k, sch) \<in> set shape. marks k sch (lookup data k)"
    and "\<And>data. (\<forall>n. lookup data ''limit'' = JNum n \<and> isInteger n \<longrightarrow> isSafeInteger n)
              \<and> (\<forall>kvs. lookup data ''filter'' = JObj kvs \<longrightarrow> distinct (map fst kvs))
           \<Longrightarrow> \<forall>(k, sch) \<in> set shape.
                 distinct (map path (field_issues sch [Key k] (lookup data k)))"
  shows "\<exists>shape' passthrough'.
           z_object shape passthrough = z_object shape' passthrough'
         \<and> (\<forall>data. parse (z_object shape passthrough) (JObj data) = Inl issues \<longrightarrow>
               issues = shape_issues shape' data
             \<and> (\<forall>(k, sch) \<in> set shape'. violated sch [Key k] (lookup data k)
                   \<longrightarrow> (\<exists>issue \<in> set issues. on_key k issue))
             \<and> ((\<forall>n. lookup data ''limit'' = JNum n \<and> isInteger n \<longrightarrow> isSafeInteger n)
                  \<and> (\<forall>kvs. lookup data ''filter'' = JObj kvs \<longrightarrow> distinct (map fst kvs))
                 \<longrightarrow> distinct (map path issues)))"
proof (intro exI conjI allI impI)
  show "z_object shape passthrough = z_object shape passthrough" by (rule refl)
next
  fix data
  assume "parse (z_object shape passthrough) (JObj data) = Inl issues"
  then show "issues = shape_issues shape data" by (rule z_object_issues)
next
  fix data
  assume p: "parse (z_object shape passthrough) (JObj data) = Inl issues"
  show "\<forall>(k, sch) \<in> set shape. violated sch [Key k] (lookup data k)
          \<longrightarrow> (\<exists>issue \<in> set issues. on_key k issue)"
    unfolding z_object_issues[OF p]
    using shape_issues_marked[OF assms(2)[of data]] by blast
next
  fix data
  assume p: "parse (z_object shape passthrough) (JObj data) = Inl issues"
    and safe: "(\<forall>n. lookup data ''limit'' = JNum n \<and> isInteger n \<longrightarrow> isSafeInteger n)
              \<and> (\<forall>kvs. lookup data ''filter'' = JObj kvs \<longrightarrow> distinct (map fst kvs))"
  from assms(2)[of data] assms(3)[OF safe]
  have "\<forall>(k, sch) \<in> set shape. marks k sch (lookup data k)
         \<and> distinct (map path (field_issues sch [Key k] (lookup data k)))" by auto
  from shape_issues_distinct[OF assms(1) this]
  show "distinct (map path issues)" unfolding z_object_issues[OF p] .
qed

lemmas marks_simps =
  single_marks_simps single_intros single_enums limit_marks limit_distinct
  fields_marks[THEN conjunct1] fields_marks[THEN conjunct2]
  filter_marks[THEN conjunct1] filter_marks[THEN conjunct2, rule_format]

lemma schema_issues:
  assumes "S \<in> {IncidentQuerySchema, IncidentGetSchema, IncidentCreateSchema,
             IncidentUpdateSchema, IncidentDeleteSchema}"
  shows "\<exists>shape passthrough.
           S = z_object shape passthrough
         \<and> (\<forall>data. parse S (JObj data) = Inl issues \<longrightarrow>
               issues = shape_issues shape data
             \<and> (\<forall>(k, sch) \<in> set shape. violated sch [Key k] (lookup data k)
                   \<longrightarrow> (\<exists>issue \<in> set issues. on_key k issue))
             \<and> ((\<forall>n. lookup data ''limit'' = JNum n \<and> isInteger n \<longrightarrow> isSafeInteger n)
                  \<and> (\<forall>kvs. lookup data ''filter'' = JObj kvs \<longrightarrow> distinct (map fst kvs))
                 \<longrightarrow> distinct (map path issues)))"
proof -
  from assms consider "S = IncidentQuerySchema" | "S = IncidentGetSchema"
    | "S = IncidentCreateSchema" | "S = IncidentUpdateSchema" | "S = IncidentDeleteSchema"
    by blast
  then show ?thesis
  proof cases
    case 1
    show ?thesis unfolding 1 IncidentQuerySchema_def
      by (rule object_issues) (simp_all add: marks_simps)
  next
    case 2
    show ?thesis unfolding 2 IncidentGetSchema_def
      by (rule object_issues) (simp_all add: marks_simps)
  next
    case 3
    show ?thesis unfolding 3 IncidentCreateSchema_def
      by (rule object_issues) (simp_all add: marks_simps)
  next
    case 4
    show ?thesis unfolding 4 IncidentUpdateSchema_def
      by (rule object_issues) (simp_all add: marks_simps)
  next
    case 5
    show ?thesis unfolding 5 IncidentDeleteSchema_def
      by (rule object_issues) (simp_all add: marks_simps)
  qed
qed

lemmas schema_defs =
  parse_def z_object_def z_record_def z_array_def z_union_def z_optional_def z_default_def
  z_string_def z_string_min_def z_boolean_def z_number_def z_enum_def z_transform_def z_refine_def
  invalid_type_def isSafeInteger_def MAX_SAFE_INTEGER_def lookup_or_def extra_keys_def isInteger_iff
  IncidentQuerySchema_def IncidentGetSchema_def IncidentCreateSchema_def IncidentUpdateSchema_def
  IncidentDeleteSchema_def
  QueryFilterSchema_def QueryValueSchema_def QueryOperatorSchema_def InstanceNameSchema_def
  IncidentStateEnum_def IncidentPriorityEnum_def IncidentUrgencyEnum_def
  stateMap_def priorityMap_def urgencyMap_def

lemmas client_defs =
  io_bind_def io_lift_def queryTable_def getRecord_def createRecord_def updateRecord_def
  deleteRecord_def set_prop_def set_if_truthy_def optional_create_fields_def
  queryTable_params_def getRecord_params_def buildEncodedQuery_def query_part.simps option_field_def
  handleError_def handleError_message_def caught_def throw_TypeError_def rest_props_def
  no_options_def INCIDENT_TABLE_def is_sys_id_def is_hex_digit_def check_mark_def
  formatValidationError_def issue_line_def

lemmas example_defs =
  example_runtime_def example_store_def empty_store_def one_incident_store_def
  example_incident_def not_found_def

section \<open>The vocabulary\<close>

text \<open>
  C1. For each of the three enumerated kinds (state, priority, urgency or impact),
  parsing a label of the vocabulary table gives the documented code (state: New 1,
  In Progress 2, On Hold 3, Resolved 6, Closed 7, Canceled 8; priority: Critical 1,
  High 2, Moderate 3, Low 4, Planning 5; urgency and impact: High 1, Medium 2, Low 3),
  and parsing a code gives the code unchanged.
\<close>

theorem vocabulary_normalization:
  "map (\<lambda>label. parse IncidentStateEnum (JStr label))
     [''New'', ''In Progress'', ''On Hold'', ''Resolved'', ''Closed'', ''Canceled'']
     = map (\<lambda>code. Inr (JStr code)) [''1'', ''2'', ''3'', ''6'', ''7'', ''8'']
   \<and> map (\<lambda>code. parse IncidentStateEnum (JStr code)) [''1'', ''2'', ''3'', ''6'', ''7'', ''8'']
     = map (\<lambda>code. Inr (JStr code)) [''1'', ''2'', ''3'', ''6'', ''7'', ''8'']
   \<and> map (\<lambda>label. parse IncidentPriorityEnum (JStr label))
     [''Critical'', ''High'', ''Moderate'', ''Low'', ''Planning'']
     = map (\<lambda>code. Inr (JStr code)) [''1'', ''2'', ''3'', ''4'', ''5'']
   \<and> map (\<lambda>code. parse IncidentPriorityEnum (JStr code)) [''1'', ''2'', ''3'', ''4'', ''5'']
     = map (\<lambda>code. Inr (JStr code)) [''1'', ''2'', ''3'', ''4'', ''5'']
   \<and> map (\<lambda>label. parse IncidentUrgencyEnum (JStr label)) [''High'', ''Medium'', ''Low'']
     = map (\<lambda>code. Inr (JStr code)) [''1'', ''2'', ''3'']
   \<and> map (\<lambda>code. parse IncidentUrgencyEnum (JStr code)) [''1'', ''2'', ''3'']
     = map (\<lambda>code. Inr (JStr code)) [''1'', ''2'', ''3'']"
  by (simp add: parse_def IncidentStateEnum_def IncidentPriorityEnum_def IncidentUrgencyEnum_def
      z_transform_def z_enum_def lookup_or_def stateMap_def priorityMap_def urgencyMap_def)

section \<open>The limit of a query\<close>

text \<open>
  C6. A query payload that validates has, once normalized, a limit that is an
  integer between 1 and 1000, and the limit is 100 when the payload has none. A
  payload whose limit is a number below 1, above 1000 or not integral fails validation.
\<close>

theorem query_limit_default_and_bounds:
  "(parse IncidentQuerySchema (JObj payload) = Inr v \<longrightarrow>
      (\<exists>n. get_prop rt v ''limit'' = Inr (JNum n) \<and> n \<in> \<int> \<and> 1 \<le> n \<and> n \<le> 1000
           \<and> (lookup payload ''limit'' = JUndefined \<longrightarrow> n = 100)))
   \<and> (lookup payload ''limit'' = JNum m \<and> (m < 1 \<or> m > 1000 \<or> m \<notin> \<int>) \<longrightarrow>
      (\<exists>issues. parse IncidentQuerySchema (JObj payload) = Inl issues \<and> issues \<noteq> []))"
proof (intro conjI impI)
  assume ok: "parse IncidentQuerySchema (JObj payload) = Inr v"
  have "\<exists>fv. z_default (z_number [Check_int, Check_min 1, Check_max 1000]) (JNum 100)
               ([] @ [Key ''limit'']) (lookup payload ''limit'') = Inr fv
            \<and> get_prop rt v ''limit'' = Inr fv"
    by (rule z_object_field[OF ok[unfolded parse_def IncidentQuerySchema_def]]) simp_all
  then obtain fv where 1: "z_default (z_number [Check_int, Check_min 1, Check_max 1000]) (JNum 100)
               ([] @ [Key ''limit'']) (lookup payload ''limit'') = Inr fv"
    and 2: "get_prop rt v ''limit'' = Inr fv" by blast
  from limit_schema_Inr[OF 1] 2
  show "\<exists>n. get_prop rt v ''limit'' = Inr (JNum n) \<and> n \<in> \<int> \<and> 1 \<le> n \<and> n \<le> 1000
           \<and> (lookup payload ''limit'' = JUndefined \<longrightarrow> n = 100)" by auto
next
  assume a: "lookup payload ''limit'' = JNum m \<and> (m < 1 \<or> m > 1000 \<or> m \<notin> \<int>)"
  let ?lim = "z_default (z_number [Check_int, Check_min 1, Check_max 1000]) (JNum 100)"
  let ?shape = "[(''filter'', QueryFilterSchema), (''limit'', ?lim),
        (''fields'', z_optional (z_array z_string)), (''instance'', InstanceNameSchema)]"
  from a obtain e where e: "?lim ([] @ [Key ''limit'']) (lookup payload ''limit'') = Inl e" "e \<noteq> []"
    using limit_schema_Inl[of m "[] @ [Key ''limit'']"] by auto
  have "\<exists>issues. z_object ?shape False [] (JObj payload) = Inl issues \<and> set e \<subseteq> set issues"
    using z_object_invalid[of "''limit''" ?lim ?shape "[]" payload e False] e(1) by simp
  with e(2) show "\<exists>issues. parse IncidentQuerySchema (JObj payload) = Inl issues \<and> issues \<noteq> []"
    by (auto simp: parse_def IncidentQuerySchema_def)
qed

theorem query_limit_default_and_bounds_witness:
  "parse IncidentQuerySchema (JObj []) = Inr (JObj [(''limit'', JNum 100)])
   \<and> get_prop example_runtime (JObj [(''limit'', JNum 100)]) ''limit'' = Inr (JNum 100)
   \<and> lookup [(''limit'', JNum 1001)] ''limit'' = JNum 1001
   \<and> (\<exists>issues. parse IncidentQuerySchema (JObj [(''limit'', JNum 1001)])
                   = Inl issues \<and> issues \<noteq> [])"
proof -
  have ok: "parse IncidentQuerySchema (JObj []) = Inr (JObj [(''limit'', JNum 100)])"
    by (simp add: parse_def IncidentQuerySchema_def z_object_def QueryFilterSchema_def
        z_optional_def z_default_def z_number_def isInteger_iff InstanceNameSchema_def)
  from ok query_limit_default_and_bounds[where rt=example_runtime and payload="[]"
      and v="JObj [(''limit'', JNum 100)]" and m=0]
    query_limit_default_and_bounds[where rt=example_runtime
      and payload="[(''limit'', JNum 1001)]" and v=JNull and m=1001]
  show ?thesis by simp
qed

section \<open>The two implementations of the get tool\<close>

text \<open>
  C10. On every payload that the get schema accepts (a non-empty string identifier,
  an optional list of field names, an optional instance), the get tool without
  validation and the get tool with validation return the same output and leave the
  same log of requests and the same state of the store behind, whatever the store
  answers.
\<close>

theorem legacy_get_agrees_with_validated_get:
  assumes "parse IncidentGetSchema args = Inr v"
  shows "legacy_incidentGet rt client args st = incidentGet rt client args st"
proof -
  from IncidentGetSchema_Inr[OF assms, of rt] obtain payload s where
    args: "args = JObj payload" and
    i: "get_prop rt v ''identifier'' = Inr (JStr s)" "lookup payload ''identifier'' = JStr s" and
    f: "get_prop rt v ''fields'' = Inr (lookup payload ''fields'')"
    by blast
  have l: "get_prop rt args ''identifier'' = Inr (JStr s)"
    "get_prop rt args ''fields'' = Inr (lookup payload ''fields'')"
    by (simp_all add: args i)
  show ?thesis
    by (simp add: l incidentGet_def legacy_incidentGet_def assms args[symmetric] i f)
qed

theorem legacy_get_agrees_with_validated_get_witness:
  "parse IncidentGetSchema (JObj [(''identifier'', JStr ''INC0010001'')])
     = Inr (JObj [(''identifier'', JStr ''INC0010001'')])
   \<and> legacy_incidentGet example_runtime example_store
         (JObj [(''identifier'', JStr ''INC0010001'')]) ([], ())
     = incidentGet example_runtime example_store
         (JObj [(''identifier'', JStr ''INC0010001'')]) ([], ())
   \<and> incidentGet example_runtime example_store
         (JObj [(''identifier'', JStr ''INC0010001'')]) ([], ())
     = (Inr ''Incident Details:\<newline>\<newline>{...}'',
        [GET ''/table/incident''
           [(''sysparm_query'', JStr ''number=INC0010001''), (''sysparm_limit'', JNum 1)]],
        ())"
proof -
  have ok: "parse IncidentGetSchema (JObj [(''identifier'', JStr ''INC0010001'')])
     = Inr (JObj [(''identifier'', JStr ''INC0010001'')])"
    by (simp add: schema_defs)
  have run: "incidentGet example_runtime example_store
         (JObj [(''identifier'', JStr ''INC0010001'')]) ([], ())
     = (Inr ''Incident Details:\<newline>\<newline>{...}'',
        [GET ''/table/incident''
           [(''sysparm_query'', JStr ''number=INC0010001''), (''sysparm_limit'', JNum 1)]],
        ())"
    by (simp add: incidentGet_def ok client_defs example_defs)
  from legacy_get_agrees_with_validated_get[OF ok, of example_runtime example_store "([], ())"]
    ok run show ?thesis by simp
qed

section \<open>Serialization of a filter\<close>

text \<open>
  C2, as amended. The encoded query of a filter with n entries is its n fragments
  joined by carets: an entry with an \<open>Operator(op, v)\<close> value gives the field name, the
  operator's symbol and the value with nothing between them, and an entry with a
  \<open>Literal(v)\<close> value gives \<open>field=v\<close>. When n is at least 1 and no fragment has a
  caret of its own, the encoded query has exactly n - 1 carets. Every such entry is
  one the filter schema accepts unchanged.
\<close>

theorem serialize_joins_fragments_with_carets:
  "buildEncodedQuery rt (embed_filter f) = Inr (join ''^'' (map (fragment rt) f))
   \<and> query_part rt (field, embed_value (Operator op v)) = Inr (field @ symbol op @ scalar_text rt v)
   \<and> query_part rt (field, embed_value (Literal v)) = Inr (field @ ''='' @ scalar_text rt v)
   \<and> (f \<noteq> [] \<and> (\<forall>e \<in> set f. CHR ''^'' \<notin> set (fragment rt e))
        \<longrightarrow> count_list (join ''^'' (map (fragment rt) f)) (CHR ''^'') = length f - 1)
   \<and> (\<forall>e \<in> set f. QueryValueSchema p (embed_value (snd e)) = Inr (embed_value (snd e)))"
proof -
  have "count_list (join ''^'' (map (fragment rt) f)) (CHR ''^'') = length (map (fragment rt) f) - 1"
    if "f \<noteq> []" "\<forall>e \<in> set f. CHR ''^'' \<notin> set (fragment rt e)"
    by (rule count_list_join) (use that in auto)
  moreover have "query_part rt (field, embed_value (Operator op v))
      = Inr (field @ symbol op @ scalar_text rt v)"
    using query_part_embed[of rt field "Operator op v"] by simp
  moreover have "query_part rt (field, embed_value (Literal v))
      = Inr (field @ ''='' @ scalar_text rt v)"
    using query_part_embed[of rt field "Literal v"] by simp
  moreover have "buildEncodedQuery rt (embed_filter f) = Inr (join ''^'' (map (fragment rt) f))"
    using buildEncodedQuery_embed[of rt f] by (simp add: serialize_def)
  ultimately show ?thesis
    by (simp add: QueryValueSchema_embed)
qed

theorem serialize_joins_fragments_with_carets_witness:
  "[(''priority'', Operator LTE (String ''3'')), (''state'', Literal (String ''1''))] \<noteq> []
   \<and> CHR ''^'' \<notin> set ''priority<=3'' \<and> CHR ''^'' \<notin> set ''state=1''
   \<and> buildEncodedQuery example_runtime
        (JObj [(''priority'', JObj [(''operator'', JStr ''<=''), (''value'', JStr ''3'')]),
               (''state'', JStr ''1'')])
      = Inr ''priority<=3^state=1''
   \<and> count_list ''priority<=3^state=1'' (CHR ''^'') = 1"
  using serialize_joins_fragments_with_carets[of example_runtime
      "[(''priority'', Operator LTE (String ''3'')), (''state'', Literal (String ''1''))]"
      "''x''" EQ "String ''y''" "[]"]
  by (simp add: embed_filter_def)

text \<open>
  The claim as it was stated fails on a value that holds a caret: the filter
  \<open>{a: "x^y"}\<close> has one entry and its encoded query \<open>a=x^y\<close> has one caret, not
  none.
\<close>

theorem caret_count_counterexample:
  "buildEncodedQuery example_runtime (embed_filter [(''a'', Literal (String ''x^y''))]) = Inr ''a=x^y''
   \<and> count_list ''a=x^y'' (CHR ''^'') \<noteq> length [(''a'', Literal (String ''x^y''))] - 1"
  by (simp add: buildEncodedQuery_embed serialize_def)

section \<open>The empty filter\<close>

text \<open>
  C3, as amended. The empty filter serializes to the empty string. A query whose
  validated payload carries the empty mapping as its filter sends the store one
  request whose first parameter is \<open>sysparm_query\<close> with the empty string as its
  value: the client tests the filter for truthiness, and an empty object is truthy.
  The parameter is left out when the payload has no filter at all.
\<close>

theorem empty_filter_sends_empty_query:
  "buildEncodedQuery rt (JObj []) = Inr []
   \<and> (parse IncidentQuerySchema (JObj payload) = Inr v \<and> lookup payload ''filter'' = JObj []
        \<longrightarrow> (\<exists>rest. fst (snd (incidentQuery rt client (JObj payload) (sent, w)))
                      = sent @ [GET ''/table/incident'' ((''sysparm_query'', JStr []) # rest)]))
   \<and> (parse IncidentQuerySchema (JObj payload) = Inr v \<and> lookup payload ''filter'' = JUndefined
        \<longrightarrow> (\<exists>params. fst (snd (incidentQuery rt client (JObj payload) (sent, w)))
                        = sent @ [GET ''/table/incident'' params]
                      \<and> ''sysparm_query'' \<notin> fst ` set params))"
proof (intro conjI impI)
  show "buildEncodedQuery rt (JObj []) = Inr []"
    by (simp add: buildEncodedQuery_def)
next
  assume a: "parse IncidentQuerySchema (JObj payload) = Inr v \<and> lookup payload ''filter'' = JObj []"
  from incidentQuery_run[of payload v rt client "(sent, w)"] a
  show "\<exists>rest. fst (snd (incidentQuery rt client (JObj payload) (sent, w)))
                      = sent @ [GET ''/table/incident'' ((''sysparm_query'', JStr []) # rest)]"
    by auto
next
  assume a: "parse IncidentQuerySchema (JObj payload) = Inr v \<and> lookup payload ''filter'' = JUndefined"
  from incidentQuery_run[of payload v rt client "(sent, w)"] a
  show "\<exists>params. fst (snd (incidentQuery rt client (JObj payload) (sent, w)))
                        = sent @ [GET ''/table/incident'' params]
                      \<and> ''sysparm_query'' \<notin> fst ` set params"
    by auto
qed

theorem empty_filter_sends_empty_query_witness:
  "parse IncidentQuerySchema (JObj [(''filter'', JObj [])])
     = Inr (JObj [(''filter'', JObj []), (''limit'', JNum 100)])
   \<and> lookup [(''filter'', JObj [])] ''filter'' = JObj []
   \<and> (\<exists>rest. fst (snd (incidentQuery example_runtime empty_store
                           (JObj [(''filter'', JObj [])]) ([], ())))
               = [GET ''/table/incident'' ((''sysparm_query'', JStr []) # rest)])
   \<and> parse IncidentQuerySchema (JObj []) = Inr (JObj [(''limit'', JNum 100)])
   \<and> lookup [] ''filter'' = JUndefined
   \<and> (\<exists>params. fst (snd (incidentQuery example_runtime empty_store (JObj []) ([], ())))
                   = [GET ''/table/incident'' params]
                 \<and> ''sysparm_query'' \<notin> fst ` set params)"
proof -
  have 1: "parse IncidentQuerySchema (JObj [(''filter'', JObj [])])
     = Inr (JObj [(''filter'', JObj []), (''limit'', JNum 100)])"
    by (simp add: schema_defs)
  have 2: "parse IncidentQuerySchema (JObj []) = Inr (JObj [(''limit'', JNum 100)])"
    by (simp add: schema_defs)
  from 1 2
    empty_filter_sends_empty_query[of example_runtime "[(''filter'', JObj [])]"
      "JObj [(''filter'', JObj []), (''limit'', JNum 100)]" empty_store "[]" "()"]
    empty_filter_sends_empty_query[of example_runtime "[]"
      "JObj [(''limit'', JNum 100)]" empty_store "[]" "()"]
  show ?thesis by simp
qed

text \<open>
  The claim as it was stated, that the parameter is omitted for the empty mapping,
  fails on the payload \<open>{filter: {}}\<close>: the request carries \<open>sysparm_query\<close> with an
  empty value.
\<close>

theorem empty_filter_counterexample:
  "incidentQuery example_runtime empty_store (JObj [(''filter'', JObj [])]) ([], ())
   = (Inr ''No incidents found matching the criteria.'',
      [GET ''/table/incident'' [(''sysparm_query'', JStr []), (''sysparm_limit'', JNum 100)]],
      ())"
  by (simp add: incidentQuery_def schema_defs client_defs example_defs)

section \<open>The payload of an update\<close>

text \<open>
  The validated update tool. For every payload that the update schema accepts, the data
  object of every update request the tool sends is the object of the validated fields
  without \<open>identifier\<close> and \<open>instance\<close>: neither key appears in it, and every other
  validated field is in it unchanged. When the identifier is a native key, that request is
  the only one sent. (The schema returns an object whenever it accepts, by
  \<open>IncidentUpdateSchema_Inr\<close>.)
\<close>

theorem update_payload_excludes_identifier_and_instance:
  assumes "parse IncidentUpdateSchema args = Inr (JObj validated)"
    and "updateData = filter (\<lambda>(k, x). k \<noteq> ''identifier'' \<and> k \<noteq> ''instance'') validated"
  shows "(\<forall>url body. PATCH url body \<in> set (fst (snd (incidentUpdate rt client args ([], w))))
            \<longrightarrow> body = JObj updateData)
         \<and> (\<forall>s. lookup validated ''identifier'' = JStr s \<and> is_sys_id s
                \<longrightarrow> fst (snd (incidentUpdate rt client args ([], w)))
                      = [PATCH (''/table/incident/'' @ s) (JObj updateData)])
         \<and> ''identifier'' \<notin> fst ` set updateData
         \<and> ''instance'' \<notin> fst ` set updateData
         \<and> (\<forall>k. k \<noteq> ''identifier'' \<and> k \<noteq> ''instance''
                \<longrightarrow> map_of updateData k = map_of validated k)"
proof -
  from IncidentUpdateSchema_Inr[OF assms(1), of rt] obtain payload s where
    args: "args = JObj payload" and
    s: "lookup payload ''identifier'' = JStr s" and
    g: "get_prop rt (JObj validated) ''identifier'' = Inr (JStr s)" by blast
  let ?data = "filter (\<lambda>(k, x). k \<noteq> ''identifier'' \<and> k \<noteq> ''instance'') validated"
  have same: "filter (\<lambda>(k, x). k \<notin> {''identifier'', ''instance''}) validated = ?data"
    by simp
  note ok = assms(1)[unfolded args]
  have sent: "\<forall>url body. PATCH url body \<in> set (fst (snd (incidentUpdate rt client args ([], w))))
                \<longrightarrow> body = JObj ?data"
  proof (cases "is_sys_id s")
    case True
    from incidentUpdate_by_sys_id[OF ok s True, of rt client "([], w)"]
    show ?thesis by (simp add: args)
  next
    case False
    from incidentUpdate_by_number[OF ok s False, of rt client "([], w)"]
    show ?thesis by (auto simp: args lookup_request_def)
  qed
  have direct: "\<forall>s'. lookup validated ''identifier'' = JStr s' \<and> is_sys_id s'
                \<longrightarrow> fst (snd (incidentUpdate rt client args ([], w)))
                      = [PATCH (''/table/incident/'' @ s') (JObj ?data)]"
  proof (intro allI impI)
    fix s' assume a: "lookup validated ''identifier'' = JStr s' \<and> is_sys_id s'"
    with g have "s' = s" by simp
    with a incidentUpdate_by_sys_id[OF ok s, of rt client "([], w)"]
    show "fst (snd (incidentUpdate rt client args ([], w)))
                      = [PATCH (''/table/incident/'' @ s') (JObj ?data)]"
      by (simp add: args)
  qed
  have keys: "''identifier'' \<notin> fst ` set ?data" "''instance'' \<notin> fst ` set ?data"
    by auto
  have others: "\<forall>k. k \<noteq> ''identifier'' \<and> k \<noteq> ''instance'' \<longrightarrow> map_of ?data k = map_of validated k"
    using map_of_filter_keys[of "\<lambda>k. k \<noteq> ''identifier'' \<and> k \<noteq> ''instance''" validated]
    by simp
  from sent direct keys others show ?thesis unfolding assms(2) by (intro conjI)
qed

theorem update_payload_excludes_identifier_and_instance_witness:
  "parse IncidentUpdateSchema
     (JObj [(''identifier'', JStr ''0123456789abcdef0123456789ABCDEF''),
            (''state'', JStr ''In Progress''), (''instance'', JStr ''dev''),
            (''u_room'', JStr ''B12'')])
   = Inr (JObj [(''identifier'', JStr ''0123456789abcdef0123456789ABCDEF''),
                (''state'', JStr ''2''), (''instance'', JStr ''dev''),
                (''u_room'', JStr ''B12'')])
   \<and> [(''state'', JStr ''2''), (''u_room'', JStr ''B12'')]
     = filter (\<lambda>(k, x). k \<noteq> ''identifier'' \<and> k \<noteq> ''instance'')
         [(''identifier'', JStr ''0123456789abcdef0123456789ABCDEF''),
          (''state'', JStr ''2''), (''instance'', JStr ''dev''), (''u_room'', JStr ''B12'')]
   \<and> is_sys_id ''0123456789abcdef0123456789ABCDEF''
   \<and> fst (snd (incidentUpdate example_runtime example_store
        (JObj [(''identifier'', JStr ''0123456789abcdef0123456789ABCDEF''),
               (''state'', JStr ''In Progress''), (''instance'', JStr ''dev''),
               (''u_room'', JStr ''B12'')]) ([], ())))
     = [PATCH ''/table/incident/0123456789abcdef0123456789ABCDEF''
          (JObj [(''state'', JStr ''2''), (''u_room'', JStr ''B12'')])]"
proof -
  let ?args = "JObj [(''identifier'', JStr ''0123456789abcdef0123456789ABCDEF''),
            (''state'', JStr ''In Progress''), (''instance'', JStr ''dev''),
            (''u_room'', JStr ''B12'')]"
  let ?validated = "[(''identifier'', JStr ''0123456789abcdef0123456789ABCDEF''),
                (''state'', JStr ''2''), (''instance'', JStr ''dev''),
                (''u_room'', JStr ''B12'')]"
  let ?data = "[(''state'', JStr ''2''), (''u_room'', JStr ''B12'')]"
  have ok: "parse IncidentUpdateSchema ?args = Inr (JObj ?validated)"
    by (simp add: schema_defs)
  have data: "?data = filter (\<lambda>(k, x). k \<noteq> ''identifier'' \<and> k \<noteq> ''instance'') ?validated"
    by simp
  have hex: "is_sys_id ''0123456789abcdef0123456789ABCDEF''"
    by (simp add: is_sys_id_def is_hex_digit_def)
  have id: "lookup ?validated ''identifier'' = JStr ''0123456789abcdef0123456789ABCDEF''"
    by simp
  note inst = update_payload_excludes_identifier_and_instance[OF ok data,
      of example_runtime example_store "()"]
  note direct = conjunct1[OF conjunct2[OF inst]]
  note run = direct[rule_format, OF conjI[OF id hex]]
  have app: "''/table/incident/'' @ ''0123456789abcdef0123456789ABCDEF''
           = ''/table/incident/0123456789abcdef0123456789ABCDEF''"
    by simp
  note run' = run[unfolded app]
  show ?thesis
    by (rule conjI[OF ok conjI[OF data conjI[OF hex run']]])
qed

text \<open>
  C9. The update tool without validation removes \<open>identifier\<close> alone from its arguments
  (\<open>const { identifier, ...updateData } = args\<close>), so the instance selector reaches the
  store: for the payload below, which the update schema accepts unchanged, its update
  request carries \<open>instance\<close>, where the validated tool sends \<open>state\<close> only.
\<close>

theorem legacy_update_payload_keeps_instance:
  "fst (snd (legacy_incidentUpdate example_runtime example_store
      (JObj [(''identifier'', JStr ''0123456789abcdef0123456789abcdef''),
             (''state'', JStr ''2''), (''instance'', JStr ''dev'')]) ([], ())))
   = [PATCH ''/table/incident/0123456789abcdef0123456789abcdef''
        (JObj [(''state'', JStr ''2''), (''instance'', JStr ''dev'')])]
   \<and> parse IncidentUpdateSchema
       (JObj [(''identifier'', JStr ''0123456789abcdef0123456789abcdef''),
              (''state'', JStr ''2''), (''instance'', JStr ''dev'')])
     = Inr (JObj [(''identifier'', JStr ''0123456789abcdef0123456789abcdef''),
              (''state'', JStr ''2''), (''instance'', JStr ''dev'')])
   \<and> fst (snd (incidentUpdate example_runtime example_store
      (JObj [(''identifier'', JStr ''0123456789abcdef0123456789abcdef''),
             (''state'', JStr ''2''), (''instance'', JStr ''dev'')]) ([], ())))
   = [PATCH ''/table/incident/0123456789abcdef0123456789abcdef''
        (JObj [(''state'', JStr ''2'')])]"
  by (simp add: legacy_incidentUpdate_def incidentUpdate_def is_sys_id_def is_hex_digit_def
      schema_defs client_defs example_defs)

section \<open>Resolution of an identifier\<close>

text \<open>
  C4. Let the payload hold the identifier string \<open>s\<close> and be accepted by the schema of the
  tool. If \<open>s\<close> is 32 hexadecimal digits in either case, the get tool sends one request, the
  read of the record at \<open>/table/incident/s\<close>, which carries no query, and the update tool
  sends one request, the update of the record at \<open>/table/incident/s\<close>: no lookup is made.
  Otherwise the first request of either tool is the lookup \<open>number=s\<close> with limit 1; the get
  tool sends nothing else, the update tool at most one update after it; and when the lookup
  returns no record, nothing follows it and the tool returns the not-found text.
\<close>

theorem identifier_resolution:
  assumes "lookup payload ''identifier'' = JStr s"
  shows
    "(parse IncidentGetSchema (JObj payload) = Inr v \<and> is_sys_id s \<longrightarrow>
        (\<exists>params. fst (snd (incidentGet rt client (JObj payload) (sent, w)))
                     = sent @ [GET (''/table/incident/'' @ s) params]
                   \<and> ''sysparm_query'' \<notin> fst ` set params))
     \<and> (parse IncidentGetSchema (JObj payload) = Inr v \<and> \<not> is_sys_id s \<longrightarrow>
        (\<exists>extra. fst (snd (incidentGet rt client (JObj payload) (sent, w)))
                    = sent @ [lookup_request s extra]
                  \<and> (fst (axios_get_list (axiosInstance client) ''/table/incident''
                             (lookup_params s extra) w) = Inr []
                       \<longrightarrow> fst (incidentGet rt client (JObj payload) (sent, w))
                             = Inr (not_found_text s))))
     \<and> (parse IncidentUpdateSchema (JObj payload) = Inr v' \<and> is_sys_id s \<longrightarrow>
        (\<exists>body. fst (snd (incidentUpdate rt client (JObj payload) (sent, w)))
                   = sent @ [PATCH (''/table/incident/'' @ s) body]))
     \<and> (parse IncidentUpdateSchema (JObj payload) = Inr v' \<and> \<not> is_sys_id s \<longrightarrow>
        (\<exists>extra after.
            fst (snd (incidentUpdate rt client (JObj payload) (sent, w)))
              = sent @ lookup_request s extra # after
          \<and> (after = [] \<or> (\<exists>url body. after = [PATCH url body]))
          \<and> (fst (axios_get_list (axiosInstance client) ''/table/incident''
                     (lookup_params s extra) w) = Inr []
               \<longrightarrow> after = []
                   \<and> fst (incidentUpdate rt client (JObj payload) (sent, w))
                       = Inr (not_found_text s))))"
proof (intro conjI impI)
  assume a: "parse IncidentGetSchema (JObj payload) = Inr v \<and> is_sys_id s"
  from incidentGet_by_sys_id[of payload v s rt client "(sent, w)"] a assms
  obtain params where "fst (snd (incidentGet rt client (JObj payload) (sent, w)))
                     = sent @ [GET (''/table/incident/'' @ s) params]"
    "fst ` set params \<subseteq> {''sysparm_fields''}" by auto
  moreover from this have "''sysparm_query'' \<notin> fst ` set params" by auto
  ultimately show "\<exists>params. fst (snd (incidentGet rt client (JObj payload) (sent, w)))
                     = sent @ [GET (''/table/incident/'' @ s) params]
                   \<and> ''sysparm_query'' \<notin> fst ` set params" by blast
next
  assume a: "parse IncidentGetSchema (JObj payload) = Inr v \<and> \<not> is_sys_id s"
  from incidentGet_by_number[of payload v s rt client "(sent, w)"] a assms
  show "\<exists>extra. fst (snd (incidentGet rt client (JObj payload) (sent, w)))
                    = sent @ [lookup_request s extra]
                  \<and> (fst (axios_get_list (axiosInstance client) ''/table/incident''
                             (lookup_params s extra) w) = Inr []
                       \<longrightarrow> fst (incidentGet rt client (JObj payload) (sent, w))
                             = Inr (not_found_text s))"
    by auto
next
  assume a: "parse IncidentUpdateSchema (JObj payload) = Inr v' \<and> is_sys_id s"
  from IncidentUpdateSchema_Inr[of "JObj payload" v' rt] a obtain validated
    where v': "v' = JObj validated" by auto
  from incidentUpdate_by_sys_id[of payload validated s rt client "(sent, w)"] a assms v'
  show "\<exists>body. fst (snd (incidentUpdate rt client (JObj payload) (sent, w)))
                   = sent @ [PATCH (''/table/incident/'' @ s) body]"
    by auto
next
  assume a: "parse IncidentUpdateSchema (JObj payload) = Inr v' \<and> \<not> is_sys_id s"
  from IncidentUpdateSchema_Inr[of "JObj payload" v' rt] a obtain validated
    where v': "v' = JObj validated" by auto
  from incidentUpdate_by_number[of payload validated s rt client "(sent, w)"] a assms v'
  obtain after where
    1: "fst (snd (incidentUpdate rt client (JObj payload) (sent, w)))
          = sent @ lookup_request s [(''sysparm_fields'', JStr ''sys_id,number'')] # after" and
    2: "after = [] \<or> (\<exists>url body. after = [PATCH url body])" and
    3: "fst (axios_get_list (axiosInstance client) ''/table/incident''
              (lookup_params s [(''sysparm_fields'', JStr ''sys_id,number'')]) w) = Inr []
         \<longrightarrow> after = [] \<and> fst (incidentUpdate rt client (JObj payload) (sent, w))
                              = Inr (not_found_text s)"
    by auto
  show "\<exists>extra after.
            fst (snd (incidentUpdate rt client (JObj payload) (sent, w)))
              = sent @ lookup_request s extra # after
          \<and> (after = [] \<or> (\<exists>url body. after = [PATCH url body]))
          \<and> (fst (axios_get_list (axiosInstance client) ''/table/incident''
                     (lookup_params s extra) w) = Inr []
               \<longrightarrow> after = []
                   \<and> fst (incidentUpdate rt client (JObj payload) (sent, w))
                       = Inr (not_found_text s))"
    by (intro exI[of _ "[(''sysparm_fields'', JStr ''sys_id,number'')]"] exI[of _ after])
      (use 1 2 3 in blast)
qed

theorem identifier_resolution_witness:
  "lookup [(''identifier'', JStr ''0123456789abcdef0123456789ABCDEF'')] ''identifier''
     = JStr ''0123456789abcdef0123456789ABCDEF''
   \<and> parse IncidentGetSchema (JObj [(''identifier'', JStr ''0123456789abcdef0123456789ABCDEF'')])
     = Inr (JObj [(''identifier'', JStr ''0123456789abcdef0123456789ABCDEF'')])
   \<and> parse IncidentUpdateSchema (JObj [(''identifier'', JStr ''0123456789abcdef0123456789ABCDEF'')])
     = Inr (JObj [(''identifier'', JStr ''0123456789abcdef0123456789ABCDEF'')])
   \<and> is_sys_id ''0123456789abcdef0123456789ABCDEF''
   \<and> (\<exists>params. fst (snd (incidentGet example_runtime example_store
                      (JObj [(''identifier'', JStr ''0123456789abcdef0123456789ABCDEF'')]) ([], ())))
                 = [] @ [GET (''/table/incident/'' @ ''0123456789abcdef0123456789ABCDEF'') params]
               \<and> ''sysparm_query'' \<notin> fst ` set params)
   \<and> (\<exists>body. fst (snd (incidentUpdate example_runtime example_store
                      (JObj [(''identifier'', JStr ''0123456789abcdef0123456789ABCDEF'')]) ([], ())))
                 = [] @ [PATCH (''/table/incident/'' @ ''0123456789abcdef0123456789ABCDEF'') body])
   \<and> lookup [(''identifier'', JStr ''INC0010001'')] ''identifier'' = JStr ''INC0010001''
   \<and> parse IncidentGetSchema (JObj [(''identifier'', JStr ''INC0010001'')])
     = Inr (JObj [(''identifier'', JStr ''INC0010001'')])
   \<and> parse IncidentUpdateSchema (JObj [(''identifier'', JStr ''INC0010001'')])
     = Inr (JObj [(''identifier'', JStr ''INC0010001'')])
   \<and> \<not> is_sys_id ''INC0010001''
   \<and> fst (incidentGet example_runtime empty_store (JObj [(''identifier'', JStr ''INC0010001'')])
          ([], ()))
     = Inr (not_found_text ''INC0010001'')
   \<and> fst (incidentUpdate example_runtime empty_store (JObj [(''identifier'', JStr ''INC0010001'')])
          ([], ()))
     = Inr (not_found_text ''INC0010001'')"
proof -
  let ?H = "''0123456789abcdef0123456789ABCDEF''"
  let ?N = "''INC0010001''"
  let ?P1 = "[(''identifier'', JStr ?H)]"
  let ?P2 = "[(''identifier'', JStr ?N)]"
  have id1: "lookup ?P1 ''identifier'' = JStr ?H" by simp
  have id2: "lookup ?P2 ''identifier'' = JStr ?N" by simp
  have g1: "parse IncidentGetSchema (JObj ?P1) = Inr (JObj ?P1)" by (simp add: schema_defs)
  have u1: "parse IncidentUpdateSchema (JObj ?P1) = Inr (JObj ?P1)" by (simp add: schema_defs)
  have g2: "parse IncidentGetSchema (JObj ?P2) = Inr (JObj ?P2)" by (simp add: schema_defs)
  have u2: "parse IncidentUpdateSchema (JObj ?P2) = Inr (JObj ?P2)" by (simp add: schema_defs)
  have hex: "is_sys_id ?H" by (simp add: is_sys_id_def is_hex_digit_def)
  have num: "\<not> is_sys_id ?N" by (simp add: is_sys_id_def)
  have none: "\<And>params. fst (axios_get_list (axiosInstance empty_store) ''/table/incident''
                             params ()) = Inr []"
    by (simp add: example_defs)
  note at_key = identifier_resolution[OF id1, of "JObj ?P1" example_runtime example_store "[]" "()"
      "JObj ?P1"]
  note at_number = identifier_resolution[OF id2, of "JObj ?P2" example_runtime empty_store "[]" "()"
      "JObj ?P2"]
  note get_key = mp[OF conjunct1[OF at_key] conjI[OF g1 hex]]
  note update_key = mp[OF conjunct1[OF conjunct2[OF conjunct2[OF at_key]]] conjI[OF u1 hex]]
  from mp[OF conjunct1[OF conjunct2[OF at_number]] conjI[OF g2 num]]
  obtain extra where
    "fst (snd (incidentGet example_runtime empty_store (JObj ?P2) ([], ())))
       = [] @ [lookup_request ?N extra]
     \<and> (fst (axios_get_list (axiosInstance empty_store) ''/table/incident''
               (lookup_params ?N extra) ()) = Inr []
          \<longrightarrow> fst (incidentGet example_runtime empty_store (JObj ?P2) ([], ()))
                = Inr (not_found_text ?N))" ..
  then have get_number: "fst (incidentGet example_runtime empty_store (JObj ?P2) ([], ()))
                = Inr (not_found_text ?N)"
    using none by (elim conjE impE) assumption+
  from mp[OF conjunct2[OF conjunct2[OF conjunct2[OF at_number]]] conjI[OF u2 num]]
  obtain extra after where
    "fst (snd (incidentUpdate example_runtime empty_store (JObj ?P2) ([], ())))
              = [] @ lookup_request ?N extra # after
          \<and> (after = [] \<or> (\<exists>url body. after = [PATCH url body]))
          \<and> (fst (axios_get_list (axiosInstance empty_store) ''/table/incident''
                     (lookup_params ?N extra) ()) = Inr []
               \<longrightarrow> after = []
                   \<and> fst (incidentUpdate example_runtime empty_store (JObj ?P2) ([], ()))
                       = Inr (not_found_text ?N))"
    by (elim exE)
  then have update_number: "fst (incidentUpdate example_runtime empty_store (JObj ?P2) ([], ()))
                = Inr (not_found_text ?N)"
    using none by (elim conjE impE) assumption+
  show ?thesis
    by (rule conjI[OF id1 conjI[OF g1 conjI[OF u1 conjI[OF hex conjI[OF get_key
          conjI[OF update_key conjI[OF id2 conjI[OF g2 conjI[OF u2 conjI[OF num
          conjI[OF get_number update_number]]]]]]]]]]])
qed

section \<open>Deletion needs a confirmation\<close>

text \<open>
  C5. When \<open>confirm\<close> is anything but \<open>true\<close> in the payload of a delete (absent and
  \<open>false\<close> included), validation fails with an issue on \<open>confirm\<close>, and the tool ends with
  the validation error, the log of requests and the store as they were: neither a lookup
  nor a delete was sent. When \<open>confirm\<close> is \<open>true\<close>, no issue of the validation is on
  \<open>confirm\<close>; and when the payload is then valid, the tool first resolves the identifier
  (the read of the record for a native key, the lookup by number otherwise) and, once
  that has returned a record with a \<open>sys_id\<close>, sends the delete of that record, which is
  the last request.
\<close>

theorem delete_requires_confirmation:
  "(lookup payload ''confirm'' \<noteq> JBool True \<longrightarrow>
      (\<exists>issues. parse IncidentDeleteSchema (JObj payload) = Inl issues
         \<and> (\<exists>i \<in> set issues. path i = [Key ''confirm''])
         \<and> incidentDelete rt client (JObj payload) (sent, w)
             = (Inl (Error (formatValidationError rt issues)), (sent, w))))
   \<and> (lookup payload ''confirm'' = JBool True \<longrightarrow>
        (\<forall>issues i. parse IncidentDeleteSchema (JObj payload) = Inl issues \<and> i \<in> set issues
            \<longrightarrow> path i \<noteq> [Key ''confirm'']))
   \<and> (lookup payload ''confirm'' = JBool True \<and> lookup payload ''identifier'' = JStr s
        \<and> parse IncidentDeleteSchema (JObj payload) = Inr v \<and> is_sys_id s \<longrightarrow>
        (\<exists>after.
           fst (snd (incidentDelete rt client (JObj payload) (sent, w)))
             = sent @ GET (''/table/incident/'' @ s) [(''sysparm_fields'', JStr ''sys_id,number'')]
                      # after
         \<and> (after = [] \<or> (\<exists>url. after = [DELETE url]))
         \<and> (\<forall>fields k.
               fst (axios_get_single (axiosInstance client) (''/table/incident/'' @ s)
                      [(''sysparm_fields'', JStr ''sys_id,number'')] w) = Inr (JObj fields)
               \<and> lookup fields ''sys_id'' = JStr k
               \<longrightarrow> after = [DELETE (''/table/incident/'' @ k)])))
   \<and> (lookup payload ''confirm'' = JBool True \<and> lookup payload ''identifier'' = JStr s
        \<and> parse IncidentDeleteSchema (JObj payload) = Inr v \<and> \<not> is_sys_id s \<longrightarrow>
        (\<exists>after.
           fst (snd (incidentDelete rt client (JObj payload) (sent, w)))
             = sent @ lookup_request s [(''sysparm_fields'', JStr ''sys_id,number'')] # after
         \<and> (after = [] \<or> (\<exists>url. after = [DELETE url]))
         \<and> (\<forall>fields others k.
               fst (axios_get_list (axiosInstance client) ''/table/incident''
                      (lookup_params s [(''sysparm_fields'', JStr ''sys_id,number'')]) w)
                 = Inr (JObj fields # others)
               \<and> lookup fields ''sys_id'' = JStr k
               \<longrightarrow> after = [DELETE (''/table/incident/'' @ k)])))"
proof (intro conjI impI)
  assume a: "lookup payload ''confirm'' \<noteq> JBool True"
  from IncidentDeleteSchema_unconfirmed[OF a] obtain issues where
    i: "parse IncidentDeleteSchema (JObj payload) = Inl issues"
       "\<exists>i \<in> set issues. path i = [Key ''confirm'']" by blast
  have "incidentDelete rt client (JObj payload) (sent, w)
             = (Inl (Error (formatValidationError rt issues)), (sent, w))"
    by (simp add: incidentDelete_def i(1) io_lift_def)
  with i show "\<exists>issues. parse IncidentDeleteSchema (JObj payload) = Inl issues
         \<and> (\<exists>i \<in> set issues. path i = [Key ''confirm''])
         \<and> incidentDelete rt client (JObj payload) (sent, w)
             = (Inl (Error (formatValidationError rt issues)), (sent, w))"
    by (intro exI[of _ issues] conjI)
next
  assume a: "lookup payload ''confirm'' = JBool True"
  show "\<forall>issues i. parse IncidentDeleteSchema (JObj payload) = Inl issues \<and> i \<in> set issues
            \<longrightarrow> path i \<noteq> [Key ''confirm'']"
    using IncidentDeleteSchema_confirmed[OF a] by blast
next
  assume a: "lookup payload ''confirm'' = JBool True \<and> lookup payload ''identifier'' = JStr s
        \<and> parse IncidentDeleteSchema (JObj payload) = Inr v \<and> is_sys_id s"
  then have p: "parse IncidentDeleteSchema (JObj payload) = Inr v"
    and s: "lookup payload ''identifier'' = JStr s" and h: "is_sys_id s" by simp_all
  from incidentDelete_by_sys_id[OF p s h, of rt client "(sent, w)"]
  show "\<exists>after.
           fst (snd (incidentDelete rt client (JObj payload) (sent, w)))
             = sent @ GET (''/table/incident/'' @ s) [(''sysparm_fields'', JStr ''sys_id,number'')]
                      # after
         \<and> (after = [] \<or> (\<exists>url. after = [DELETE url]))
         \<and> (\<forall>fields k.
               fst (axios_get_single (axiosInstance client) (''/table/incident/'' @ s)
                      [(''sysparm_fields'', JStr ''sys_id,number'')] w) = Inr (JObj fields)
               \<and> lookup fields ''sys_id'' = JStr k
               \<longrightarrow> after = [DELETE (''/table/incident/'' @ k)])"
    by (simp only: fst_conv snd_conv)
next
  assume a: "lookup payload ''confirm'' = JBool True \<and> lookup payload ''identifier'' = JStr s
        \<and> parse IncidentDeleteSchema (JObj payload) = Inr v \<and> \<not> is_sys_id s"
  then have p: "parse IncidentDeleteSchema (JObj payload) = Inr v"
    and s: "lookup payload ''identifier'' = JStr s" and h: "\<not> is_sys_id s" by simp_all
  from incidentDelete_by_number[OF p s h, of rt client "(sent, w)"] obtain after where
    1: "fst (snd (incidentDelete rt client (JObj payload) (sent, w)))
             = sent @ lookup_request s [(''sysparm_fields'', JStr ''sys_id,number'')] # after"
    and 2: "after = [] \<or> (\<exists>url. after = [DELETE url])"
    and 3: "\<forall>fields others k.
               fst (axios_get_list (axiosInstance client) ''/table/incident''
                      (lookup_params s [(''sysparm_fields'', JStr ''sys_id,number'')]) w)
                 = Inr (JObj fields # others)
               \<and> lookup fields ''sys_id'' = JStr k
               \<longrightarrow> after = [DELETE (''/table/incident/'' @ k)]"
    unfolding fst_conv snd_conv by blast
  show "\<exists>after.
           fst (snd (incidentDelete rt client (JObj payload) (sent, w)))
             = sent @ lookup_request s [(''sysparm_fields'', JStr ''sys_id,number'')] # after
         \<and> (after = [] \<or> (\<exists>url. after = [DELETE url]))
         \<and> (\<forall>fields others k.
               fst (axios_get_list (axiosInstance client) ''/table/incident''
                      (lookup_params s [(''sysparm_fields'', JStr ''sys_id,number'')]) w)
                 = Inr (JObj fields # others)
               \<and> lookup fields ''sys_id'' = JStr k
               \<longrightarrow> after = [DELETE (''/table/incident/'' @ k)])"
    by (rule exI[of _ after]) (intro conjI 1 2 3)
qed


theorem delete_requires_confirmation_witness:
  "lookup [(''identifier'', JStr ''INC0010001'')] ''confirm'' \<noteq> JBool True
   \<and> incidentDelete example_runtime example_store (JObj [(''identifier'', JStr ''INC0010001'')])
       ([], ())
     = (Inl (Error (formatValidationError example_runtime
                      [\<lparr>path = [Key ''confirm''], kind = Invalid_type ''boolean'' JUndefined\<rparr>])),
        ([], ()))
   \<and> lookup [(''identifier'', JStr ''INC0010001''), (''confirm'', JBool False)] ''confirm''
       \<noteq> JBool True
   \<and> incidentDelete example_runtime example_store
       (JObj [(''identifier'', JStr ''INC0010001''), (''confirm'', JBool False)]) ([], ())
     = (Inl (Error (formatValidationError example_runtime
                      [\<lparr>path = [Key ''confirm''],
                        kind = Message ''Deletion requires explicit confirmation. Set confirm to true.''\<rparr>])),
        ([], ()))
   \<and> lookup [(''identifier'', JStr ''INC0010001''), (''confirm'', JBool True)] ''confirm''
       = JBool True
   \<and> lookup [(''identifier'', JStr ''INC0010001''), (''confirm'', JBool True)] ''identifier''
       = JStr ''INC0010001''
   \<and> parse IncidentDeleteSchema
         (JObj [(''identifier'', JStr ''INC0010001''), (''confirm'', JBool True)])
       = Inr (JObj [(''identifier'', JStr ''INC0010001''), (''confirm'', JBool True)])
   \<and> \<not> is_sys_id ''INC0010001''
   \<and> fst (snd (incidentDelete example_runtime example_store
         (JObj [(''identifier'', JStr ''INC0010001''), (''confirm'', JBool True)]) ([], ())))
       = [] @ lookup_request ''INC0010001'' [(''sysparm_fields'', JStr ''sys_id,number'')]
            # [DELETE (''/table/incident/'' @ ''0123456789abcdef0123456789abcdef'')]"
proof -
  let ?N = "''INC0010001''"
  let ?A = "[(''identifier'', JStr ?N)]"
  let ?B = "[(''identifier'', JStr ?N), (''confirm'', JBool False)]"
  let ?C = "[(''identifier'', JStr ?N), (''confirm'', JBool True)]"
  let ?IA = "\<lparr>path = [Key ''confirm''], kind = Invalid_type ''boolean'' JUndefined\<rparr>"
  let ?IB = "\<lparr>path = [Key ''confirm''],
              kind = Message ''Deletion requires explicit confirmation. Set confirm to true.''\<rparr>"
  let ?fields = "[(''sys_id'', JStr ''0123456789abcdef0123456789abcdef''),
                  (''number'', JStr ''INC0010001'')]"
  have absent: "lookup ?A ''confirm'' \<noteq> JBool True" by simp
  have refused: "lookup ?B ''confirm'' \<noteq> JBool True" by simp
  have confirmed: "lookup ?C ''confirm'' = JBool True" by simp
  have id: "lookup ?C ''identifier'' = JStr ?N" by simp
  have pa: "parse IncidentDeleteSchema (JObj ?A) = Inl [?IA]"
    by (simp add: schema_defs)
  have pb: "parse IncidentDeleteSchema (JObj ?B) = Inl [?IB]"
    by (simp add: schema_defs)
  have pc: "parse IncidentDeleteSchema (JObj ?C) = Inr (JObj ?C)"
    by (simp add: schema_defs)
  have num: "\<not> is_sys_id ?N" by (simp add: is_sys_id_def)
  have store: "fst (axios_get_list (axiosInstance example_store) ''/table/incident''
                  (lookup_params ?N [(''sysparm_fields'', JStr ''sys_id,number'')]) ())
               = Inr (JObj ?fields # [])"
    by (simp add: example_defs)
  have key: "lookup ?fields ''sys_id'' = JStr ''0123456789abcdef0123456789abcdef''" by simp
  note at_A = delete_requires_confirmation[where payload="?A" and rt=example_runtime
      and client=example_store and sent="[]" and w="()"]
  note at_B = delete_requires_confirmation[where payload="?B" and rt=example_runtime
      and client=example_store and sent="[]" and w="()"]
  note at_C = delete_requires_confirmation[where payload="?C" and rt=example_runtime
      and client=example_store and sent="[]" and w="()" and s="?N" and v="JObj ?C"]
  from mp[OF conjunct1[OF at_A] absent] obtain issues where
    a: "parse IncidentDeleteSchema (JObj ?A) = Inl issues
        \<and> (\<exists>i \<in> set issues. path i = [Key ''confirm''])
        \<and> incidentDelete example_runtime example_store (JObj ?A) ([], ())
             = (Inl (Error (formatValidationError example_runtime issues)), ([], ()))" ..
  from trans[OF sym[OF conjunct1[OF a]] pa] have "issues = [?IA]" by (simp only: sum.inject)
  note run_A = conjunct2[OF conjunct2[OF a], unfolded this]
  from mp[OF conjunct1[OF at_B] refused] obtain issues where
    b: "parse IncidentDeleteSchema (JObj ?B) = Inl issues
        \<and> (\<exists>i \<in> set issues. path i = [Key ''confirm''])
        \<and> incidentDelete example_runtime example_store (JObj ?B) ([], ())
             = (Inl (Error (formatValidationError example_runtime issues)), ([], ()))" ..
  from trans[OF sym[OF conjunct1[OF b]] pb] have "issues = [?IB]" by (simp only: sum.inject)
  note run_B = conjunct2[OF conjunct2[OF b], unfolded this]
  from mp[OF conjunct2[OF conjunct2[OF conjunct2[OF at_C]]]
        conjI[OF confirmed conjI[OF id conjI[OF pc num]]]]
  obtain after where
    c: "fst (snd (incidentDelete example_runtime example_store (JObj ?C) ([], ())))
             = [] @ lookup_request ?N [(''sysparm_fields'', JStr ''sys_id,number'')] # after
         \<and> (after = [] \<or> (\<exists>url. after = [DELETE url]))
         \<and> (\<forall>fields others k.
               fst (axios_get_list (axiosInstance example_store) ''/table/incident''
                      (lookup_params ?N [(''sysparm_fields'', JStr ''sys_id,number'')]) ())
                 = Inr (JObj fields # others)
               \<and> lookup fields ''sys_id'' = JStr k
               \<longrightarrow> after = [DELETE (''/table/incident/'' @ k)])" ..
  note deleted = conjunct2[OF conjunct2[OF c], rule_format, OF conjI[OF store key]]
  note run_C = conjunct1[OF c, unfolded deleted]
  show ?thesis
    by (rule conjI[OF absent conjI[OF run_A conjI[OF refused conjI[OF run_B conjI[OF confirmed
          conjI[OF id conjI[OF pc conjI[OF num run_C]]]]]]]])
qed

section \<open>No record found\<close>

text \<open>
  C8. A query that passes validation sends the store one list request; when the store
  answers that request with no record, the query returns (does not throw) the sentence
  \<open>No incidents found matching the criteria.\<close> A get that passes validation with an
  identifier \<open>s\<close> that is not 32 hexadecimal digits sends the lookup by number; when the
  store answers that lookup with no record, the get returns \<open>Incident "s" not found.\<close>
  Nothing is asked of the store's answers to other requests: it may hold incidents.
\<close>

theorem not_found_is_a_normal_result:
  "(parse IncidentQuerySchema (JObj payload) = Inr v \<longrightarrow>
      (\<exists>params.
          fst (snd (incidentQuery rt client (JObj payload) (sent, w)))
            = sent @ [GET ''/table/incident'' params]
        \<and> (fst (axios_get_list (axiosInstance client) ''/table/incident'' params w) = Inr []
             \<longrightarrow> fst (incidentQuery rt client (JObj payload) (sent, w))
                   = Inr ''No incidents found matching the criteria.'')))
   \<and> (parse IncidentGetSchema (JObj payload) = Inr v \<and> lookup payload ''identifier'' = JStr s
        \<and> \<not> is_sys_id s \<longrightarrow>
      (\<exists>extra.
          fst (snd (incidentGet rt client (JObj payload) (sent, w)))
            = sent @ [lookup_request s extra]
        \<and> (fst (axios_get_list (axiosInstance client) ''/table/incident''
                   (lookup_params s extra) w) = Inr []
             \<longrightarrow> fst (incidentGet rt client (JObj payload) (sent, w))
                   = Inr (''Incident '' @ [CHR 0x22] @ s @ [CHR 0x22] @ '' not found.''))))"
proof (intro conjI impI)
  assume a: "parse IncidentQuerySchema (JObj payload) = Inr v"
  from incidentQuery_run[OF a, of rt client "(sent, w)"] obtain params where
    1: "fst (snd (incidentQuery rt client (JObj payload) (sent, w)))
            = sent @ [GET ''/table/incident'' params]"
    and 2: "fst (axios_get_list (axiosInstance client) ''/table/incident'' params w) = Inr []
             \<longrightarrow> fst (incidentQuery rt client (JObj payload) (sent, w))
                   = Inr ''No incidents found matching the criteria.''"
    unfolding fst_conv snd_conv by blast
  show "\<exists>params.
          fst (snd (incidentQuery rt client (JObj payload) (sent, w)))
            = sent @ [GET ''/table/incident'' params]
        \<and> (fst (axios_get_list (axiosInstance client) ''/table/incident'' params w) = Inr []
             \<longrightarrow> fst (incidentQuery rt client (JObj payload) (sent, w))
                   = Inr ''No incidents found matching the criteria.'')"
    by (rule exI[of _ params]) (intro conjI 1 2)
next
  assume a: "parse IncidentGetSchema (JObj payload) = Inr v \<and> lookup payload ''identifier'' = JStr s
        \<and> \<not> is_sys_id s"
  then have p: "parse IncidentGetSchema (JObj payload) = Inr v"
    and s: "lookup payload ''identifier'' = JStr s" and h: "\<not> is_sys_id s" by simp_all
  from incidentGet_by_number[OF p s h, of rt client "(sent, w)"] obtain extra where
    1: "fst (snd (incidentGet rt client (JObj payload) (sent, w))) = sent @ [lookup_request s extra]"
    and 2: "fst (axios_get_list (axiosInstance client) ''/table/incident''
                   (lookup_params s extra) w) = Inr []
             \<longrightarrow> fst (incidentGet rt client (JObj payload) (sent, w)) = Inr (not_found_text s)"
    unfolding fst_conv snd_conv by blast
  show "\<exists>extra.
          fst (snd (incidentGet rt client (JObj payload) (sent, w)))
            = sent @ [lookup_request s extra]
        \<and> (fst (axios_get_list (axiosInstance client) ''/table/incident''
                   (lookup_params s extra) w) = Inr []
             \<longrightarrow> fst (incidentGet rt client (JObj payload) (sent, w))
                   = Inr (''Incident '' @ [CHR 0x22] @ s @ [CHR 0x22] @ '' not found.''))"
    by (rule exI[of _ extra]) (intro conjI 1 2[unfolded not_found_text_def])
qed

theorem not_found_is_a_normal_result_witness:
  "fst (axios_get_list (axiosInstance one_incident_store) ''/table/incident''
         [(''sysparm_query'', JStr ''number=INC0010001''), (''sysparm_limit'', JNum 1)] ())
     = Inr [example_incident]
   \<and> parse IncidentQuerySchema (JObj [(''filter'', JObj [(''priority'', JStr ''1'')])])
     = Inr (JObj [(''filter'', JObj [(''priority'', JStr ''1'')]), (''limit'', JNum 100)])
   \<and> fst (snd (incidentQuery example_runtime one_incident_store
                 (JObj [(''filter'', JObj [(''priority'', JStr ''1'')])]) ([], ())))
     = [GET ''/table/incident''
          [(''sysparm_query'', JStr ''priority=1''), (''sysparm_limit'', JNum 100)]]
   \<and> fst (axios_get_list (axiosInstance one_incident_store) ''/table/incident''
         [(''sysparm_query'', JStr ''priority=1''), (''sysparm_limit'', JNum 100)] ())
     = Inr []
   \<and> fst (incidentQuery example_runtime one_incident_store
            (JObj [(''filter'', JObj [(''priority'', JStr ''1'')])]) ([], ()))
     = Inr ''No incidents found matching the criteria.''
   \<and> parse IncidentGetSchema (JObj [(''identifier'', JStr ''INC0099999'')])
     = Inr (JObj [(''identifier'', JStr ''INC0099999'')])
   \<and> lookup [(''identifier'', JStr ''INC0099999'')] ''identifier'' = JStr ''INC0099999''
   \<and> \<not> is_sys_id ''INC0099999''
   \<and> fst (snd (incidentGet example_runtime one_incident_store
                 (JObj [(''identifier'', JStr ''INC0099999'')]) ([], ())))
     = [lookup_request ''INC0099999'' []]
   \<and> fst (axios_get_list (axiosInstance one_incident_store) ''/table/incident''
         (lookup_params ''INC0099999'' []) ())
     = Inr []
   \<and> fst (incidentGet example_runtime one_incident_store
            (JObj [(''identifier'', JStr ''INC0099999'')]) ([], ()))
     = Inr (''Incident '' @ [CHR 0x22] @ ''INC0099999'' @ [CHR 0x22] @ '' not found.'')"
proof -
  let ?Q = "[(''filter'', JObj [(''priority'', JStr ''1'')])]"
  let ?P = "[(''sysparm_query'', JStr ''priority=1''), (''sysparm_limit'', JNum 100)]"
  let ?G = "[(''identifier'', JStr ''INC0099999'')]"
  have held: "fst (axios_get_list (axiosInstance one_incident_store) ''/table/incident''
         [(''sysparm_query'', JStr ''number=INC0010001''), (''sysparm_limit'', JNum 1)] ())
     = Inr [example_incident]"
    by (simp add: one_incident_store_def)
  have q: "parse IncidentQuerySchema (JObj ?Q)
           = Inr (JObj [(''filter'', JObj [(''priority'', JStr ''1'')]), (''limit'', JNum 100)])"
    by (simp add: schema_defs)
  have sent_q: "fst (snd (incidentQuery example_runtime one_incident_store (JObj ?Q) ([], ())))
                = [GET ''/table/incident'' ?P]"
    by (simp add: incidentQuery_def schema_defs client_defs example_defs)
  have none_q: "fst (axios_get_list (axiosInstance one_incident_store) ''/table/incident'' ?P ())
                = Inr []"
    by (simp add: one_incident_store_def)
  have g: "parse IncidentGetSchema (JObj ?G) = Inr (JObj ?G)" by (simp add: schema_defs)
  have id: "lookup ?G ''identifier'' = JStr ''INC0099999''" by simp
  have num: "\<not> is_sys_id ''INC0099999''" by (simp add: is_sys_id_def)
  have sent_g: "fst (snd (incidentGet example_runtime one_incident_store (JObj ?G) ([], ())))
                = [lookup_request ''INC0099999'' []]"
    by (simp add: incidentGet_def schema_defs client_defs example_defs lookup_request_def
        lookup_params_def)
  have none_g: "fst (axios_get_list (axiosInstance one_incident_store) ''/table/incident''
         (lookup_params ''INC0099999'' []) ()) = Inr []"
    by (simp add: one_incident_store_def lookup_params_def)
  note at_Q = not_found_is_a_normal_result[where payload="?Q" and rt=example_runtime
      and client=one_incident_store and sent="[]" and w="()"
      and v="JObj [(''filter'', JObj [(''priority'', JStr ''1'')]), (''limit'', JNum 100)]"]
  note at_G = not_found_is_a_normal_result[where payload="?G" and rt=example_runtime
      and client=one_incident_store and sent="[]" and w="()" and v="JObj ?G"
      and s="''INC0099999''"]
  from mp[OF conjunct1[OF at_Q] q] obtain params where
    c: "fst (snd (incidentQuery example_runtime one_incident_store (JObj ?Q) ([], ())))
            = [] @ [GET ''/table/incident'' params]
        \<and> (fst (axios_get_list (axiosInstance one_incident_store) ''/table/incident'' params ())
              = Inr []
             \<longrightarrow> fst (incidentQuery example_runtime one_incident_store (JObj ?Q) ([], ()))
                   = Inr ''No incidents found matching the criteria.'')" ..
  from trans[OF sym[OF conjunct1[OF c]] sent_q] have "params = ?P"
    by (simp only: append_Nil list.inject request.inject simp_thms)
  note run_Q = mp[OF conjunct2[OF c, unfolded this] none_q]
  from mp[OF conjunct2[OF at_G] conjI[OF g conjI[OF id num]]] obtain extra where
    d: "fst (snd (incidentGet example_runtime one_incident_store (JObj ?G) ([], ())))
            = [] @ [lookup_request ''INC0099999'' extra]
        \<and> (fst (axios_get_list (axiosInstance one_incident_store) ''/table/incident''
                   (lookup_params ''INC0099999'' extra) ()) = Inr []
             \<longrightarrow> fst (incidentGet example_runtime one_incident_store (JObj ?G) ([], ()))
                   = Inr (''Incident '' @ [CHR 0x22] @ ''INC0099999'' @ [CHR 0x22]
                          @ '' not found.''))" ..
  from trans[OF sym[OF conjunct1[OF d]] sent_g] have "extra = []"
    by (simp only: append_Nil list.inject request.inject lookup_request_def lookup_params_def
        prod.inject simp_thms)
  note run_G = mp[OF conjunct2[OF d, unfolded this] none_g]
  show ?thesis
    by (rule conjI[OF held conjI[OF q conjI[OF sent_q conjI[OF none_q conjI[OF run_Q
          conjI[OF g conjI[OF id conjI[OF num conjI[OF sent_g conjI[OF none_g run_G]]]]]]]]]])
qed

section \<open>Validation errors\<close>

text \<open>
  C7, as amended. When the schema of a tool rejects the payload, the tool ends with one
  error, the request log and the store as they were (no request was sent). The text of
  the error is the line \<open>Validation Error:\<close> followed by one line for each issue of the
  validation, in their order: the message of the issue after \<open>  - \<close>, with the dotted
  path and a colon before the message when the dotted path is not empty. Every schema of
  a tool is an object schema, and the issues of a rejected object are the issues of all
  its keys, in the order of the shape: nothing stops at the first one, and every key
  whose value is rejected has an issue on it. No two issues have the same path, so that
  every violated field has one line, when the limit of the payload is not an integer
  outside the safe range (and the filter, as any object, has no key twice).
\<close>

theorem validation_reports_every_issue:
  "(parse IncidentQuerySchema args = Inl issues \<longrightarrow>
      incidentQuery rt client args st = (Inl (Error (formatValidationError rt issues)), st))
   \<and> (parse IncidentGetSchema args = Inl issues \<longrightarrow>
      incidentGet rt client args st = (Inl (Error (formatValidationError rt issues)), st))
   \<and> (parse IncidentCreateSchema args = Inl issues \<longrightarrow>
      incidentCreate rt client args st = (Inl (Error (formatValidationError rt issues)), st))
   \<and> (parse IncidentUpdateSchema args = Inl issues \<longrightarrow>
      incidentUpdate rt client args st = (Inl (Error (formatValidationError rt issues)), st))
   \<and> (parse IncidentDeleteSchema args = Inl issues \<longrightarrow>
      incidentDelete rt client args st = (Inl (Error (formatValidationError rt issues)), st))
   \<and> formatValidationError rt issues
       = ''Validation Error:\<newline>'' @ join ''\<newline>'' (map (issue_line rt) issues)
   \<and> (path i = [] \<longrightarrow> issue_line rt i = ''  - '' @ message rt i)
   \<and> (join ''.'' (map (path_text rt) (path i)) \<noteq> [] \<longrightarrow>
        issue_line rt i
        = ''  - '' @ join ''.'' (map (path_text rt) (path i)) @ '': '' @ message rt i)
   \<and> (S \<in> {IncidentQuerySchema, IncidentGetSchema, IncidentCreateSchema,
             IncidentUpdateSchema, IncidentDeleteSchema} \<longrightarrow>
        (\<exists>shape passthrough.
            S = z_object shape passthrough
          \<and> (\<forall>data. parse S (JObj data) = Inl issues \<longrightarrow>
                issues = shape_issues shape data
              \<and> (\<forall>(k, sch) \<in> set shape. violated sch [Key k] (lookup data k)
                    \<longrightarrow> (\<exists>issue \<in> set issues. on_key k issue))
              \<and> ((\<forall>n. lookup data ''limit'' = JNum n \<and> isInteger n \<longrightarrow> isSafeInteger n)
                   \<and> (\<forall>kvs. lookup data ''filter'' = JObj kvs \<longrightarrow> distinct (map fst kvs))
                  \<longrightarrow> distinct (map path issues)))))"
proof -
  have line1: "path i = [] \<longrightarrow> issue_line rt i = ''  - '' @ message rt i"
    by (simp add: issue_line_def)
  have line2: "join ''.'' (map (path_text rt) (path i)) \<noteq> [] \<longrightarrow>
        issue_line rt i
        = ''  - '' @ join ''.'' (map (path_text rt) (path i)) @ '': '' @ message rt i"
    by (simp add: issue_line_def Let_def)
  have q: "parse IncidentQuerySchema args = Inl issues \<longrightarrow>
      incidentQuery rt client args st = (Inl (Error (formatValidationError rt issues)), st)"
    by (simp add: incidentQuery_def io_lift_def)
  have g: "parse IncidentGetSchema args = Inl issues \<longrightarrow>
      incidentGet rt client args st = (Inl (Error (formatValidationError rt issues)), st)"
    by (simp add: incidentGet_def io_lift_def)
  have c: "parse IncidentCreateSchema args = Inl issues \<longrightarrow>
      incidentCreate rt client args st = (Inl (Error (formatValidationError rt issues)), st)"
    by (simp add: incidentCreate_def io_lift_def)
  have u: "parse IncidentUpdateSchema args = Inl issues \<longrightarrow>
      incidentUpdate rt client args st = (Inl (Error (formatValidationError rt issues)), st)"
    by (simp add: incidentUpdate_def io_lift_def)
  have d: "parse IncidentDeleteSchema args = Inl issues \<longrightarrow>
      incidentDelete rt client args st = (Inl (Error (formatValidationError rt issues)), st)"
    by (simp add: incidentDelete_def io_lift_def)
  have f: "formatValidationError rt issues
       = ''Validation Error:\<newline>'' @ join ''\<newline>'' (map (issue_line rt) issues)"
    by (simp only: formatValidationError_def)
  show ?thesis
    by (intro conjI q g c u d f line1 line2 impI schema_issues)
qed

theorem validation_reports_every_issue_witness:
  "parse IncidentQuerySchema (JObj [(''limit'', JNum 0)])
     = Inl [\<lparr>path = [Key ''limit''], kind = Too_small 1\<rparr>]
   \<and> incidentQuery example_runtime example_store (JObj [(''limit'', JNum 0)]) ([], ())
     = (Inl (Error (formatValidationError example_runtime
          [\<lparr>path = [Key ''limit''], kind = Too_small 1\<rparr>])), ([], ()))
   \<and> parse IncidentGetSchema (JStr ''INC0010001'')
     = Inl [\<lparr>path = [], kind = Invalid_type ''object'' (JStr ''INC0010001'')\<rparr>]
   \<and> incidentGet example_runtime example_store (JStr ''INC0010001'') ([], ())
     = (Inl (Error (formatValidationError example_runtime
          [\<lparr>path = [], kind = Invalid_type ''object'' (JStr ''INC0010001'')\<rparr>])), ([], ()))
   \<and> path \<lparr>path = [], kind = Invalid_type ''object'' (JStr ''INC0010001'')\<rparr> = []
   \<and> issue_line example_runtime
         \<lparr>path = [], kind = Invalid_type ''object'' (JStr ''INC0010001'')\<rparr>
     = ''  - '' @ message example_runtime
         \<lparr>path = [], kind = Invalid_type ''object'' (JStr ''INC0010001'')\<rparr>
   \<and> parse IncidentCreateSchema (JObj [(''short_description'', JStr '''')])
     = Inl [\<lparr>path = [Key ''short_description''],
             kind = Message ''Short description is required and cannot be empty''\<rparr>]
   \<and> incidentCreate example_runtime example_store (JObj [(''short_description'', JStr '''')])
        ([], ())
     = (Inl (Error (formatValidationError example_runtime
          [\<lparr>path = [Key ''short_description''],
            kind = Message ''Short description is required and cannot be empty''\<rparr>])),
        ([], ()))
   \<and> parse IncidentUpdateSchema (JObj [(''identifier'', JStr '''')])
     = Inl [\<lparr>path = [Key ''identifier''], kind = Message ''Identifier cannot be empty''\<rparr>]
   \<and> incidentUpdate example_runtime example_store (JObj [(''identifier'', JStr '''')]) ([], ())
     = (Inl (Error (formatValidationError example_runtime
          [\<lparr>path = [Key ''identifier''], kind = Message ''Identifier cannot be empty''\<rparr>])),
        ([], ()))
   \<and> parse IncidentDeleteSchema (JObj [(''identifier'', JStr ''''), (''confirm'', JBool False)])
     = Inl [\<lparr>path = [Key ''identifier''], kind = Message ''Identifier cannot be empty''\<rparr>,
            \<lparr>path = [Key ''confirm''],
              kind = Message ''Deletion requires explicit confirmation. Set confirm to true.''\<rparr>]
   \<and> incidentDelete example_runtime example_store
        (JObj [(''identifier'', JStr ''''), (''confirm'', JBool False)]) ([], ())
     = (Inl (Error (formatValidationError example_runtime
          [\<lparr>path = [Key ''identifier''], kind = Message ''Identifier cannot be empty''\<rparr>,
           \<lparr>path = [Key ''confirm''],
             kind = Message ''Deletion requires explicit confirmation. Set confirm to true.''\<rparr>])),
        ([], ()))
   \<and> formatValidationError example_runtime
          [\<lparr>path = [Key ''identifier''], kind = Message ''Identifier cannot be empty''\<rparr>,
           \<lparr>path = [Key ''confirm''],
             kind = Message ''Deletion requires explicit confirmation. Set confirm to true.''\<rparr>]
     = ''Validation Error:\<newline>'' @ join ''\<newline>'' (map (issue_line example_runtime)
          [\<lparr>path = [Key ''identifier''], kind = Message ''Identifier cannot be empty''\<rparr>,
           \<lparr>path = [Key ''confirm''],
             kind = Message ''Deletion requires explicit confirmation. Set confirm to true.''\<rparr>])
   \<and> join ''.'' (map (path_text example_runtime)
         (path \<lparr>path = [Key ''identifier''], kind = Message ''Identifier cannot be empty''\<rparr>))
       \<noteq> []
   \<and> issue_line example_runtime
         \<lparr>path = [Key ''identifier''], kind = Message ''Identifier cannot be empty''\<rparr>
     = ''  - '' @ join ''.'' (map (path_text example_runtime)
         (path \<lparr>path = [Key ''identifier''], kind = Message ''Identifier cannot be empty''\<rparr>))
       @ '': '' @ message example_runtime
           \<lparr>path = [Key ''identifier''], kind = Message ''Identifier cannot be empty''\<rparr>
   \<and> IncidentDeleteSchema \<in> {IncidentQuerySchema, IncidentGetSchema,
         IncidentCreateSchema, IncidentUpdateSchema, IncidentDeleteSchema}
   \<and> (\<exists>shape passthrough.
         IncidentDeleteSchema = z_object shape passthrough
       \<and> (\<forall>data. parse IncidentDeleteSchema (JObj data)
                    = Inl [\<lparr>path = [Key ''identifier''],
                             kind = Message ''Identifier cannot be empty''\<rparr>,
                           \<lparr>path = [Key ''confirm''],
                             kind = Message ''Deletion requires explicit confirmation. Set confirm to true.''\<rparr>]
                \<longrightarrow> [\<lparr>path = [Key ''identifier''],
                       kind = Message ''Identifier cannot be empty''\<rparr>,
                     \<lparr>path = [Key ''confirm''],
                       kind = Message ''Deletion requires explicit confirmation. Set confirm to true.''\<rparr>]
                    = shape_issues shape data
                  \<and> (\<forall>(k, sch) \<in> set shape. violated sch [Key k] (lookup data k)
                        \<longrightarrow> (\<exists>issue \<in> set
                               [\<lparr>path = [Key ''identifier''],
                                  kind = Message ''Identifier cannot be empty''\<rparr>,
                                \<lparr>path = [Key ''confirm''],
                                  kind = Message ''Deletion requires explicit confirmation. Set confirm to true.''\<rparr>].
                               on_key k issue))
                  \<and> ((\<forall>n. lookup data ''limit'' = JNum n \<and> isInteger n \<longrightarrow> isSafeInteger n)
                       \<and> (\<forall>kvs. lookup data ''filter'' = JObj kvs \<longrightarrow> distinct (map fst kvs))
                      \<longrightarrow> distinct (map path
                               [\<lparr>path = [Key ''identifier''],
                                  kind = Message ''Identifier cannot be empty''\<rparr>,
                                \<lparr>path = [Key ''confirm''],
                                  kind = Message ''Deletion requires explicit confirmation. Set confirm to true.''\<rparr>]))))"
proof -
  let ?Q = "JObj [(''limit'', JNum 0)]"
  let ?IQ = "[\<lparr>path = [Key ''limit''], kind = Too_small 1\<rparr>]"
  let ?G = "JStr ''INC0010001''"
  let ?i0 = "\<lparr>path = [], kind = Invalid_type ''object'' (JStr ''INC0010001'')\<rparr>"
  let ?C = "JObj [(''short_description'', JStr '''')]"
  let ?IC = "[\<lparr>path = [Key ''short_description''],
               kind = Message ''Short description is required and cannot be empty''\<rparr>]"
  let ?U = "JObj [(''identifier'', JStr '''')]"
  let ?IU = "[\<lparr>path = [Key ''identifier''], kind = Message ''Identifier cannot be empty''\<rparr>]"
  let ?D = "JObj [(''identifier'', JStr ''''), (''confirm'', JBool False)]"
  let ?i1 = "\<lparr>path = [Key ''identifier''], kind = Message ''Identifier cannot be empty''\<rparr>"
  let ?i2 = "\<lparr>path = [Key ''confirm''],
              kind = Message ''Deletion requires explicit confirmation. Set confirm to true.''\<rparr>"
  have pq: "parse IncidentQuerySchema ?Q = Inl ?IQ"
    by (simp add: schema_defs)
  have pg: "parse IncidentGetSchema ?G = Inl [?i0]"
    by (simp add: schema_defs)
  have pc: "parse IncidentCreateSchema ?C = Inl ?IC"
    by (simp add: schema_defs)
  have pu: "parse IncidentUpdateSchema ?U = Inl ?IU"
    by (simp add: schema_defs)
  have pd: "parse IncidentDeleteSchema ?D = Inl [?i1, ?i2]"
    by (simp add: schema_defs)
  have top: "path ?i0 = []" by simp
  have dotted: "join ''.'' (map (path_text example_runtime) (path ?i1)) \<noteq> []" by simp
  have member: "IncidentDeleteSchema \<in> {IncidentQuerySchema, IncidentGetSchema,
         IncidentCreateSchema, IncidentUpdateSchema, IncidentDeleteSchema}"
    by (intro insertI1 insertI2)
  note at_Q = validation_reports_every_issue[where rt=example_runtime and args="?Q"
      and issues="?IQ" and client=example_store and st="([], ())"]
  note at_G = validation_reports_every_issue[where rt=example_runtime and args="?G"
      and issues="[?i0]" and client=example_store and st="([], ())" and i="?i0"]
  note at_C = validation_reports_every_issue[where rt=example_runtime and args="?C"
      and issues="?IC" and client=example_store and st="([], ())"]
  note at_U = validation_reports_every_issue[where rt=example_runtime and args="?U"
      and issues="?IU" and client=example_store and st="([], ())"]
  note at_D = validation_reports_every_issue[where rt=example_runtime and args="?D"
      and issues="[?i1, ?i2]" and client=example_store and st="([], ())" and i="?i1"
      and S=IncidentDeleteSchema]
  note c2 = conjunct2
  note run_Q = mp[OF conjunct1[OF at_Q] pq]
  note run_G = mp[OF conjunct1[OF c2[OF at_G]] pg]
  note run_C = mp[OF conjunct1[OF c2[OF c2[OF at_C]]] pc]
  note run_U = mp[OF conjunct1[OF c2[OF c2[OF c2[OF at_U]]]] pu]
  note run_D = mp[OF conjunct1[OF c2[OF c2[OF c2[OF c2[OF at_D]]]]] pd]
  note text_D = conjunct1[OF c2[OF c2[OF c2[OF c2[OF c2[OF at_D]]]]]]
  note line_G = mp[OF conjunct1[OF c2[OF c2[OF c2[OF c2[OF c2[OF c2[OF at_G]]]]]]] top]
  note line_D = mp[OF conjunct1[OF c2[OF c2[OF c2[OF c2[OF c2[OF c2[OF c2[OF at_D]]]]]]]] dotted]
  note all_D = mp[OF c2[OF c2[OF c2[OF c2[OF c2[OF c2[OF c2[OF c2[OF at_D]]]]]]]] member]
  show ?thesis
    by (rule conjI[OF pq conjI[OF run_Q conjI[OF pg conjI[OF run_G conjI[OF top conjI[OF line_G
          conjI[OF pc conjI[OF run_C conjI[OF pu conjI[OF run_U conjI[OF pd conjI[OF run_D
          conjI[OF text_D conjI[OF dotted conjI[OF line_D conjI[OF member all_D]]]]]]]]]]]]]]]])
qed

text \<open>
  The claim as it was stated, one line for each violated field, fails on the payload
  \<open>{limit: 9007199254740992}\<close> of a query: the one field \<open>limit\<close> is an integer outside
  the safe range and above 1000, each raises an issue, and the error has a line for
  each.
\<close>

theorem one_line_per_field_counterexample:
  "parse IncidentQuerySchema (JObj [(''limit'', JNum 9007199254740992)])
   = Inl [\<lparr>path = [Key ''limit''], kind = Too_big MAX_SAFE_INTEGER\<rparr>,
          \<lparr>path = [Key ''limit''], kind = Too_big 1000\<rparr>]
   \<and> incidentQuery example_runtime example_store (JObj [(''limit'', JNum 9007199254740992)])
       ([], ())
     = (Inl (Error (formatValidationError example_runtime
          [\<lparr>path = [Key ''limit''], kind = Too_big MAX_SAFE_INTEGER\<rparr>,
           \<lparr>path = [Key ''limit''], kind = Too_big 1000\<rparr>])), ([], ()))
   \<and> formatValidationError example_runtime
          [\<lparr>path = [Key ''limit''], kind = Too_big MAX_SAFE_INTEGER\<rparr>,
           \<lparr>path = [Key ''limit''], kind = Too_big 1000\<rparr>]
     = ''Validation Error:\<newline>''
       @ ''  - limit: '' @ Zod_message example_runtime (Too_big MAX_SAFE_INTEGER) @ ''\<newline>''
       @ ''  - limit: '' @ Zod_message example_runtime (Too_big 1000)"
proof -
  have p: "parse IncidentQuerySchema (JObj [(''limit'', JNum 9007199254740992)])
   = Inl [\<lparr>path = [Key ''limit''], kind = Too_big MAX_SAFE_INTEGER\<rparr>,
          \<lparr>path = [Key ''limit''], kind = Too_big 1000\<rparr>]"
    by (simp add: parse_def IncidentQuerySchema_def z_object_def QueryFilterSchema_def
        z_optional_def z_default_def z_number_def isInteger_iff isSafeInteger_def
        InstanceNameSchema_def Let_def) (simp add: MAX_SAFE_INTEGER_def)
  have r: "incidentQuery example_runtime example_store (JObj [(''limit'', JNum 9007199254740992)])
       ([], ())
     = (Inl (Error (formatValidationError example_runtime
          [\<lparr>path = [Key ''limit''], kind = Too_big MAX_SAFE_INTEGER\<rparr>,
           \<lparr>path = [Key ''limit''], kind = Too_big 1000\<rparr>])), ([], ()))"
    by (simp add: incidentQuery_def p io_lift_def)
  have t: "formatValidationError example_runtime
          [\<lparr>path = [Key ''limit''], kind = Too_big MAX_SAFE_INTEGER\<rparr>,
           \<lparr>path = [Key ''limit''], kind = Too_big 1000\<rparr>]
     = ''Validation Error:\<newline>''
       @ ''  - limit: '' @ Zod_message example_runtime (Too_big MAX_SAFE_INTEGER) @ ''\<newline>''
       @ ''  - limit: '' @ Zod_message example_runtime (Too_big 1000)"
    by (simp add: formatValidationError_def issue_line_def message_def)
  show ?thesis by (rule conjI[OF p conjI[OF r t]])
qed

end
